theory Spec2Isabelle
  imports Main "HOL-Library.Word"
begin

unbundle bit_operations_syntax

section \<open>Machine types and constants\<close>

text \<open>
  The C types of \<^verbatim>\<open>libopensc/pkcs15-sec.c\<close>: bytes are 8-bit words, \<^verbatim>\<open>unsigned long\<close> flag
  sets are 64-bit words, \<^verbatim>\<open>unsigned int\<close> usage masks are 32-bit words. Return codes are C
  \<^verbatim>\<open>int\<close>s, modelled as \<open>int\<close>: a negative value is an error, a non-negative one a length.
  Sizes (\<^verbatim>\<open>size_t\<close>) are \<open>nat\<close>; a \<^verbatim>\<open>size_t\<close> is 64 bits wide, as an \<^verbatim>\<open>unsigned long\<close> is, and an
  \<^verbatim>\<open>int\<close> 32 bits. \<open>size_t n\<close> is what a \<^verbatim>\<open>size_t\<close> holds when the arithmetic on sizes yields
  \<open>n\<close>, and \<open>int_cast n\<close> is \<^verbatim>\<open>(int)n\<close> for a size \<open>n\<close>: its low 32 bits, read as a signed
  number.
\<close>

type_synonym u8 = "8 word"
type_synonym ulong = "64 word"
type_synonym uint = "32 word"

text \<open>
  The error codes are those of \<^verbatim>\<open>libopensc/errors.h\<close>, a header that is not among the
  source files at hand; the handlers only test their sign, compare them with each other and
  pass them on.
\<close>

definition SC_SUCCESS :: int where
  "SC_SUCCESS = 0"

definition SC_ERROR_INCORRECT_PARAMETERS :: int where
  "SC_ERROR_INCORRECT_PARAMETERS = - 1205"

definition SC_ERROR_NOT_ALLOWED :: int where
  "SC_ERROR_NOT_ALLOWED = - 1209"

definition SC_ERROR_SECURITY_STATUS_NOT_SATISFIED :: int where
  "SC_ERROR_SECURITY_STATUS_NOT_SATISFIED = - 1211"

definition SC_ERROR_INVALID_ARGUMENTS :: int where
  "SC_ERROR_INVALID_ARGUMENTS = - 1300"

definition SC_ERROR_BUFFER_TOO_SMALL :: int where
  "SC_ERROR_BUFFER_TOO_SMALL = - 1303"

definition SC_ERROR_INVALID_DATA :: int where
  "SC_ERROR_INVALID_DATA = - 1305"

definition SC_ERROR_OUT_OF_MEMORY :: int where
  "SC_ERROR_OUT_OF_MEMORY = - 1404"

definition SC_ERROR_TOO_MANY_OBJECTS :: int where
  "SC_ERROR_TOO_MANY_OBJECTS = - 1405"

definition SC_ERROR_NOT_SUPPORTED :: int where
  "SC_ERROR_NOT_SUPPORTED = - 1408"

definition size_t :: "nat \<Rightarrow> nat" where
  "size_t n = n mod 2 ^ 64"

definition int_cast :: "nat \<Rightarrow> int" where
  "int_cast n = (if int n mod 2 ^ 32 < 2 ^ 31 then int n mod 2 ^ 32
                 else int n mod 2 ^ 32 - 2 ^ 32)"

text \<open>
  \<^verbatim>\<open>BYTES4BITS(num)\<close> of \<^verbatim>\<open>internal.h\<close>: \<^verbatim>\<open>((num) + 7) / 8\<close>. Its argument is a \<^verbatim>\<open>size_t\<close> wherever
  the handlers use it, so the sum wraps: the result is 0 for the seven largest sizes.
\<close>

definition BYTES4BITS :: "nat \<Rightarrow> nat" where
  "BYTES4BITS num = size_t (num + 7) div 8"

section \<open>Data model\<close>

text \<open>
  \<^verbatim>\<open>sc_path_t\<close>: \<open>path_value\<close> holds the \<^verbatim>\<open>len\<close> meaningful bytes of \<^verbatim>\<open>value\<close>, \<open>path_aid\<close>
  the \<^verbatim>\<open>aid.len\<close> bytes of the application identifier. A path cleared by \<^verbatim>\<open>memset\<close> is
  \<open>zero_path\<close>.
\<close>

datatype sc_path_type = SC_PATH_TYPE_FILE_ID | SC_PATH_TYPE_DF_NAME | SC_PATH_TYPE_PATH
  | SC_PATH_TYPE_OTHER nat

record sc_path =
  path_value :: "u8 list"
  path_type :: sc_path_type
  path_aid :: "u8 list"

definition zero_path :: sc_path where
  "zero_path = \<lparr>path_value = [], path_type = SC_PATH_TYPE_FILE_ID, path_aid = []\<rparr>"

text \<open>
  The object type tag \<^verbatim>\<open>obj->type\<close> and its class \<^verbatim>\<open>obj->type & SC_PKCS15_TYPE_CLASS_MASK\<close>.
  The tags the handlers name are constructors of their own; \<open>SC_PKCS15_TYPE_PRKEY_OTHER\<close> and
  \<open>SC_PKCS15_TYPE_SKEY_OTHER\<close> stand for the remaining tags of the two key classes and
  \<open>SC_PKCS15_TYPE_NOT_A_KEY\<close> for the tags of every other class (public keys, certificates,
  data and authentication objects).
\<close>

datatype sc_pkcs15_type =
    SC_PKCS15_TYPE_PRKEY_RSA
  | SC_PKCS15_TYPE_PRKEY_GOSTR3410
  | SC_PKCS15_TYPE_PRKEY_EC
  | SC_PKCS15_TYPE_PRKEY_EDDSA
  | SC_PKCS15_TYPE_PRKEY_XEDDSA
  | SC_PKCS15_TYPE_PRKEY_OTHER
  | SC_PKCS15_TYPE_SKEY_GENERIC
  | SC_PKCS15_TYPE_SKEY_DES
  | SC_PKCS15_TYPE_SKEY_3DES
  | SC_PKCS15_TYPE_SKEY_OTHER
  | SC_PKCS15_TYPE_NOT_A_KEY

datatype sc_pkcs15_class = SC_PKCS15_TYPE_PRKEY | SC_PKCS15_TYPE_SKEY | SC_PKCS15_TYPE_OTHER_CLASS

fun class_of_type :: "sc_pkcs15_type \<Rightarrow> sc_pkcs15_class" where
  "class_of_type SC_PKCS15_TYPE_PRKEY_RSA = SC_PKCS15_TYPE_PRKEY"
| "class_of_type SC_PKCS15_TYPE_PRKEY_GOSTR3410 = SC_PKCS15_TYPE_PRKEY"
| "class_of_type SC_PKCS15_TYPE_PRKEY_EC = SC_PKCS15_TYPE_PRKEY"
| "class_of_type SC_PKCS15_TYPE_PRKEY_EDDSA = SC_PKCS15_TYPE_PRKEY"
| "class_of_type SC_PKCS15_TYPE_PRKEY_XEDDSA = SC_PKCS15_TYPE_PRKEY"
| "class_of_type SC_PKCS15_TYPE_PRKEY_OTHER = SC_PKCS15_TYPE_PRKEY"
| "class_of_type SC_PKCS15_TYPE_SKEY_GENERIC = SC_PKCS15_TYPE_SKEY"
| "class_of_type SC_PKCS15_TYPE_SKEY_DES = SC_PKCS15_TYPE_SKEY"
| "class_of_type SC_PKCS15_TYPE_SKEY_3DES = SC_PKCS15_TYPE_SKEY"
| "class_of_type SC_PKCS15_TYPE_SKEY_OTHER = SC_PKCS15_TYPE_SKEY"
| "class_of_type SC_PKCS15_TYPE_NOT_A_KEY = SC_PKCS15_TYPE_OTHER_CLASS"

text \<open>
  \<^verbatim>\<open>obj->data\<close>, which the handlers read through two pointers, \<^verbatim>\<open>prkey\<close>
  (\<^verbatim>\<open>struct sc_pkcs15_prkey_info\<close>) and \<^verbatim>\<open>skey\<close> (\<^verbatim>\<open>struct sc_pkcs15_skey_info\<close>). Both structs
  start with the same fields (\<^verbatim>\<open>usage\<close>, \<^verbatim>\<open>native\<close>, \<^verbatim>\<open>key_reference\<close>), which is why the code reads
  \<^verbatim>\<open>prkey->native\<close> of a secret key too. One record holds the shared fields, the fields of
  the private-key view (\<open>modulus_length\<close>, \<open>field_length\<close>), those of the secret-key view
  (\<open>value_len\<close>, \<open>key_type\<close>) and the key's path.
\<close>

record sc_pkcs15_key_info =
  usage :: uint
  native :: bool
  key_reference :: int
  modulus_length :: nat
  field_length :: nat
  value_len :: nat
  key_type :: nat
  key_path :: sc_path

record sc_pkcs15_object =
  obj_type :: sc_pkcs15_type
  obj_data :: sc_pkcs15_key_info

text \<open>Key usage bits (\<^verbatim>\<open>pkcs15.h\<close>).\<close>

definition SC_PKCS15_PRKEY_USAGE_ENCRYPT :: uint where
  "SC_PKCS15_PRKEY_USAGE_ENCRYPT = 0x01"

definition SC_PKCS15_PRKEY_USAGE_DECRYPT :: uint where
  "SC_PKCS15_PRKEY_USAGE_DECRYPT = 0x02"

definition SC_PKCS15_PRKEY_USAGE_SIGN :: uint where
  "SC_PKCS15_PRKEY_USAGE_SIGN = 0x04"

definition SC_PKCS15_PRKEY_USAGE_SIGNRECOVER :: uint where
  "SC_PKCS15_PRKEY_USAGE_SIGNRECOVER = 0x08"

definition SC_PKCS15_PRKEY_USAGE_WRAP :: uint where
  "SC_PKCS15_PRKEY_USAGE_WRAP = 0x10"

definition SC_PKCS15_PRKEY_USAGE_UNWRAP :: uint where
  "SC_PKCS15_PRKEY_USAGE_UNWRAP = 0x20"

definition SC_PKCS15_PRKEY_USAGE_DERIVE :: uint where
  "SC_PKCS15_PRKEY_USAGE_DERIVE = 0x100"

definition SC_PKCS15_PRKEY_USAGE_NONREPUDIATION :: uint where
  "SC_PKCS15_PRKEY_USAGE_NONREPUDIATION = 0x200"

definition USAGE_ANY_SIGN :: uint where
  "USAGE_ANY_SIGN = SC_PKCS15_PRKEY_USAGE_SIGN OR SC_PKCS15_PRKEY_USAGE_NONREPUDIATION"

definition USAGE_ANY_DECIPHER :: uint where
  "USAGE_ANY_DECIPHER = SC_PKCS15_PRKEY_USAGE_DECRYPT OR SC_PKCS15_PRKEY_USAGE_UNWRAP"

text \<open>
  \<^verbatim>\<open>sc_security_env_t\<close> and its parts. \<open>SC_SEC_OPERATION_UNSET\<close> and \<open>SC_SEC_ENV_PARAM_UNSET\<close>
  are the values the fields have after \<^verbatim>\<open>memset(senv_out, 0, ...)\<close>; the algorithm field then
  holds \<^verbatim>\<open>SC_ALGORITHM_RSA\<close>, which is 0. A parameter slot is free when its \<^verbatim>\<open>value\<close> pointer is
  \<^verbatim>\<open>NULL\<close> (\<open>None\<close>).
\<close>

datatype sc_sec_operation =
    SC_SEC_OPERATION_UNSET
  | SC_SEC_OPERATION_DECIPHER
  | SC_SEC_OPERATION_SIGN
  | SC_SEC_OPERATION_DERIVE
  | SC_SEC_OPERATION_WRAP
  | SC_SEC_OPERATION_UNWRAP
  | SC_SEC_OPERATION_ENCRYPT_SYM
  | SC_SEC_OPERATION_DECRYPT_SYM

datatype sc_algorithm =
    SC_ALGORITHM_RSA
  | SC_ALGORITHM_GOSTR3410
  | SC_ALGORITHM_EDDSA
  | SC_ALGORITHM_XEDDSA
  | SC_ALGORITHM_EC
  | SC_ALGORITHM_AES

datatype sc_sec_env_param_type =
    SC_SEC_ENV_PARAM_UNSET
  | SC_SEC_ENV_PARAM_IV
  | SC_SEC_ENV_PARAM_TARGET_FILE

datatype param_value = Path_value sc_path | Bytes_value "u8 list"

record sc_sec_env_param =
  param_type :: sc_sec_env_param_type
  param_value :: "param_value option"
  param_value_len :: nat

record sc_supported_algo_info =
  algo_reference :: nat
  algo_mechanism :: nat
  algo_ref :: nat

record sc_security_env =
  senv_flags :: ulong
  senv_operation :: sc_sec_operation
  senv_algorithm :: sc_algorithm
  senv_algorithm_flags :: ulong
  senv_algorithm_ref :: nat
  senv_file_ref :: sc_path
  senv_key_ref :: "u8 list"
  senv_key_size_bits :: nat
  senv_supported_algos :: "sc_supported_algo_info list"
  senv_params :: "sc_sec_env_param list"

definition SC_SEC_ENV_ALG_REF_PRESENT :: ulong where
  "SC_SEC_ENV_ALG_REF_PRESENT = 0x0001"

definition SC_SEC_ENV_FILE_REF_PRESENT :: ulong where
  "SC_SEC_ENV_FILE_REF_PRESENT = 0x0002"

definition SC_SEC_ENV_KEY_REF_PRESENT :: ulong where
  "SC_SEC_ENV_KEY_REF_PRESENT = 0x0004"

definition SC_SEC_ENV_ALG_PRESENT :: ulong where
  "SC_SEC_ENV_ALG_PRESENT = 0x0010"

record sc_algorithm_info =
  alg_key_length :: nat
  alg_flags :: ulong

text \<open>
  \<^verbatim>\<open>struct sc_pkcs15_card\<close>, as far as the handlers read it: the path of the application
  directory (\<^verbatim>\<open>file_app->path\<close>, \<open>None\<close> when \<^verbatim>\<open>file_app\<close> is \<^verbatim>\<open>NULL\<close>) and the token's table of
  supported algorithms.
\<close>

record sc_pkcs15_card =
  file_app :: "sc_path option"
  tokeninfo_supported_algos :: "sc_supported_algo_info list"

text \<open>
  The algorithm flag masks and sizes of \<^verbatim>\<open>opensc.h\<close> and \<^verbatim>\<open>types.h\<close>, headers that are not
  among the files at hand. The handlers only combine and test them, so they are parameters of
  the model, under their own names.
\<close>

record sc_consts =
  SC_ALGORITHM_NEED_USAGE :: ulong
  SC_ALGORITHM_RSA_RAW :: ulong
  SC_ALGORITHM_RSA_PADS :: ulong
  SC_ALGORITHM_RSA_PAD_NONE :: ulong
  SC_ALGORITHM_RSA_PAD_PKCS1_TYPE_01 :: ulong
  SC_ALGORITHM_RSA_PAD_PKCS1_TYPE_02 :: ulong
  SC_ALGORITHM_RSA_PAD_OAEP :: ulong
  SC_ALGORITHM_RSA_HASH_NONE :: ulong
  SC_ALGORITHM_ECDSA_RAW :: ulong
  SC_ALGORITHM_ECDSA_HASHES :: ulong
  SC_ALGORITHM_AES_ECB :: ulong
  SC_ALGORITHM_AES_CBC :: ulong
  SC_ALGORITHM_AES_CBC_PAD :: ulong
  SC_SEC_ENV_MAX_PARAMS :: nat
  sizeof_sc_path_t :: nat
  sizeof_CK_RSA_PKCS_OAEP_PARAMS :: nat

text \<open>Constants of the PKCS\#11 standard (\<^verbatim>\<open>pkcs11.h\<close>).\<close>

definition CKK_AES :: nat where
  "CKK_AES = 0x1F"

definition CKM_AES_ECB :: nat where
  "CKM_AES_ECB = 0x1081"

definition CKM_AES_CBC :: nat where
  "CKM_AES_CBC = 0x1082"

definition CKM_AES_CBC_PAD :: nat where
  "CKM_AES_CBC_PAD = 0x1085"

definition CKZ_DATA_SPECIFIED :: nat where
  "CKZ_DATA_SPECIFIED = 1"

text \<open>
  \<^verbatim>\<open>CK_MECHANISM\<close>, as far as \<^verbatim>\<open>sc_pkcs15_decipher\<close> reads it: the parameter pointer (cast to
  \<^verbatim>\<open>CK_RSA_PKCS_OAEP_PARAMS\<close>) and its length.
\<close>

record CK_RSA_PKCS_OAEP_PARAMS =
  oaep_source :: nat
  oaep_pSourceData :: "u8 list option"
  oaep_ulSourceDataLen :: nat

record CK_MECHANISM =
  mech_pParameter :: "CK_RSA_PKCS_OAEP_PARAMS option"
  mech_ulParameterLen :: nat

section \<open>The device and the library, as the handlers call them\<close>

text \<open>
  The card driver entry points are outside the files at hand, so they are parameters of the
  model: each takes the driver's state \<open>'w\<close> and returns its C result with the new state.
  The four primitives that \<^verbatim>\<open>use_key\<close> receives as a function pointer are named by
  \<open>card_command\<close>; a primitive reads \<^verbatim>\<open>in[0..inlen)\<close>, may write the \<^verbatim>\<open>out\<close> buffer (\<open>None\<close> is
  a \<^verbatim>\<open>NULL\<close> pointer) and is told \<^verbatim>\<open>outlen\<close>. The two symmetric primitives take a pointer to
  the output length instead (\<open>None\<close> when \<^verbatim>\<open>NULL\<close>) and return the value they leave behind it,
  which is dropped when the pointer is \<^verbatim>\<open>NULL\<close>.
\<close>

datatype card_command = sc_decipher | sc_compute_signature | sc_wrap | sc_unwrap

record 'w sc_card =
  sc_lock :: "'w \<Rightarrow> int \<times> 'w"
  sc_unlock :: "'w \<Rightarrow> int \<times> 'w"
  sc_select_file :: "sc_path \<Rightarrow> 'w \<Rightarrow> int \<times> 'w"
  sc_set_security_env :: "sc_security_env \<Rightarrow> 'w \<Rightarrow> int \<times> 'w"
  sc_card_command :: "card_command \<Rightarrow> u8 list \<Rightarrow> u8 list option \<Rightarrow> nat \<Rightarrow> 'w
    \<Rightarrow> (int \<times> u8 list option) \<times> 'w"
  sc_encrypt_sym :: "u8 list \<Rightarrow> u8 list option \<Rightarrow> nat option \<Rightarrow> 'w
    \<Rightarrow> (int \<times> u8 list option \<times> nat) \<times> 'w"
  sc_decrypt_sym :: "u8 list \<Rightarrow> u8 list option \<Rightarrow> nat option \<Rightarrow> 'w
    \<Rightarrow> (int \<times> u8 list option \<times> nat) \<times> 'w"
  sc_pkcs15_pincache_revalidate :: "sc_pkcs15_object \<Rightarrow> 'w \<Rightarrow> int \<times> 'w"

text \<open>
  The calls a handler makes to the device are recorded, in order, with their arguments and
  results: the state a handler runs in is the driver's state together with this record.
\<close>

datatype event =
    Lock int
  | Unlock
  | Select_file sc_path int
  | Set_security_env sc_security_env int
  | Command card_command "u8 list" nat int
  | Encrypt_sym "u8 list" int
  | Decrypt_sym "u8 list" int
  | Revalidate int

record 'w st =
  dev :: 'w
  calls :: "event list"

definition do_lock :: "'w sc_card \<Rightarrow> 'w st \<Rightarrow> int \<times> 'w st" where
  "do_lock crd s =
     (case sc_lock crd (dev s) of
        (r, w) \<Rightarrow> (r, \<lparr>dev = w, calls = calls s @ [Lock r]\<rparr>))"

definition do_unlock :: "'w sc_card \<Rightarrow> 'w st \<Rightarrow> 'w st" where
  "do_unlock crd s =
     (case sc_unlock crd (dev s) of
        (r, w) \<Rightarrow> \<lparr>dev = w, calls = calls s @ [Unlock]\<rparr>)"

definition do_select_file :: "'w sc_card \<Rightarrow> sc_path \<Rightarrow> 'w st \<Rightarrow> int \<times> 'w st" where
  "do_select_file crd p s =
     (case sc_select_file crd p (dev s) of
        (r, w) \<Rightarrow> (r, \<lparr>dev = w, calls = calls s @ [Select_file p r]\<rparr>))"

definition do_set_security_env :: "'w sc_card \<Rightarrow> sc_security_env \<Rightarrow> 'w st \<Rightarrow> int \<times> 'w st" where
  "do_set_security_env crd senv s =
     (case sc_set_security_env crd senv (dev s) of
        (r, w) \<Rightarrow> (r, \<lparr>dev = w, calls = calls s @ [Set_security_env senv r]\<rparr>))"

definition do_command :: "'w sc_card \<Rightarrow> card_command \<Rightarrow> u8 list \<Rightarrow> u8 list option \<Rightarrow> nat
    \<Rightarrow> 'w st \<Rightarrow> int \<times> u8 list option \<times> 'w st" where
  "do_command crd cmd inp out outlen s =
     (case sc_card_command crd cmd inp out outlen (dev s) of
        ((r, out'), w) \<Rightarrow>
          (r, out', \<lparr>dev = w, calls = calls s @ [Command cmd inp outlen r]\<rparr>))"

definition do_revalidate :: "'w sc_card \<Rightarrow> sc_pkcs15_object \<Rightarrow> 'w st \<Rightarrow> int \<times> 'w st" where
  "do_revalidate crd obj s =
     (case sc_pkcs15_pincache_revalidate crd obj (dev s) of
        (r, w) \<Rightarrow> (r, \<lparr>dev = w, calls = calls s @ [Revalidate r]\<rparr>))"

text \<open>The number of primitive invocations among recorded calls.\<close>

fun is_command :: "event \<Rightarrow> bool" where
  "is_command (Command cmd inp outlen r) = True"
| "is_command (Encrypt_sym inp r) = True"
| "is_command (Decrypt_sym inp r) = True"
| "is_command e = False"

definition n_commands :: "event list \<Rightarrow> nat" where
  "n_commands evs = length (filter is_command evs)"

text \<open>The kind of a recorded call, without its arguments and result.\<close>

datatype call_kind =
    Lock_call
  | Unlock_call
  | Select_file_call
  | Set_security_env_call
  | Command_call card_command
  | Encrypt_sym_call
  | Decrypt_sym_call
  | Revalidate_call

fun kind_of :: "event \<Rightarrow> call_kind" where
  "kind_of (Lock r) = Lock_call"
| "kind_of Unlock = Unlock_call"
| "kind_of (Select_file p r) = Select_file_call"
| "kind_of (Set_security_env senv r) = Set_security_env_call"
| "kind_of (Command cmd inp outlen r) = Command_call cmd"
| "kind_of (Encrypt_sym inp r) = Encrypt_sym_call"
| "kind_of (Decrypt_sym inp r) = Decrypt_sym_call"
| "kind_of (Revalidate r) = Revalidate_call"

text \<open>The number of invocations of the primitive \<open>c\<close> among recorded calls.\<close>

definition invocations :: "card_command \<Rightarrow> event list \<Rightarrow> nat" where
  "invocations c evs = length (filter (\<lambda>e. kind_of e = Command_call c) evs)"

text \<open>
  The library helpers the handlers call (\<^verbatim>\<open>sc.c\<close>, \<^verbatim>\<open>crd.c\<close>, \<^verbatim>\<open>padding.c\<close>), pure functions
  of their arguments and parameters of the model as well.
\<close>

record sc_lib =
  ENABLE_OPENSSL :: bool
  sc_append_path :: "sc_path \<Rightarrow> sc_path \<Rightarrow> sc_path"
  sc_card_find_rsa_alg :: "nat \<Rightarrow> sc_algorithm_info option"
  sc_card_find_gostr3410_alg :: "nat \<Rightarrow> sc_algorithm_info option"
  sc_card_find_eddsa_alg :: "nat \<Rightarrow> sc_algorithm_info option"
  sc_card_find_xeddsa_alg :: "nat \<Rightarrow> sc_algorithm_info option"
  sc_card_find_ec_alg :: "nat \<Rightarrow> sc_algorithm_info option"
  sc_card_find_alg :: "sc_algorithm \<Rightarrow> nat \<Rightarrow> sc_algorithm_info option"
  sc_get_encoding_flags :: "ulong \<Rightarrow> ulong \<Rightarrow> int \<times> ulong \<times> ulong"
  sc_pkcs1_strip_02_padding_constant_time :: "nat \<Rightarrow> u8 list option \<Rightarrow> nat
    \<Rightarrow> int \<times> u8 list option"
  sc_pkcs1_strip_oaep_padding :: "u8 list option \<Rightarrow> nat \<Rightarrow> ulong \<Rightarrow> u8 list option \<Rightarrow> nat
    \<Rightarrow> int \<times> u8 list option"
  sc_pkcs1_encode :: "ulong \<Rightarrow> u8 list \<Rightarrow> nat \<Rightarrow> nat \<Rightarrow> CK_MECHANISM option \<Rightarrow> int \<times> u8 list"
  sc_pkcs1_strip_digest_info_prefix :: "u8 list \<Rightarrow> nat \<Rightarrow> int \<times> ulong \<times> u8 list"
  sc_mem_secure_alloc :: "nat \<Rightarrow> u8 list option"
  sc_mem_reverse :: "u8 list \<Rightarrow> nat \<Rightarrow> int \<times> u8 list"

text \<open>
  What the fields stand for:
  \<^item> \<open>ENABLE_OPENSSL\<close>: the build switch of the same name;
  \<^item> \<open>sc_append_path dest src\<close>: the value of \<^verbatim>\<open>*dest\<close> after \<^verbatim>\<open>sc_append_path(dest, src)\<close>
    (the callers ignore its result);
  \<^item> \<open>sc_card_find_..._alg\<close>: the lookups in the card's algorithm table, \<open>None\<close> for \<^verbatim>\<open>NULL\<close>;
  \<^item> \<open>sc_get_encoding_flags iflags caps\<close>: the result with \<^verbatim>\<open>*pflags\<close> and \<^verbatim>\<open>*sflags\<close>;
  \<^item> \<open>sc_pkcs1_strip_02_padding_constant_time n out len\<close> and
    \<open>sc_pkcs1_strip_oaep_padding out len flags param paramlen\<close>: the result with the buffer
    as the call leaves it;
  \<^item> \<open>sc_pkcs1_encode flags inp cap mod_bits mech\<close>: the result with the bytes written to the
    output, whose number is the new \<^verbatim>\<open>*outlen\<close>; \<open>cap\<close> is \<^verbatim>\<open>*outlen\<close> on entry;
  \<^item> \<open>sc_pkcs1_strip_digest_info_prefix inp cap\<close>: the result, \<^verbatim>\<open>*algorithm\<close> and the bytes
    written to the output;
  \<^item> \<open>sc_mem_secure_alloc n\<close>: the fresh buffer of \<open>n\<close> bytes, \<open>None\<close> for \<^verbatim>\<open>NULL\<close>;
  \<^item> \<open>sc_mem_reverse buf n\<close>: the result with the buffer as the call leaves it.
\<close>

text \<open>The environment as \<^verbatim>\<open>memset(senv_out, 0, sizeof(*senv_out))\<close> leaves it.\<close>

definition zero_param :: sc_sec_env_param where
  "zero_param = \<lparr>param_type = SC_SEC_ENV_PARAM_UNSET, param_value = None, param_value_len = 0\<rparr>"

definition zero_senv :: "sc_consts \<Rightarrow> sc_security_env" where
  "zero_senv K =
     \<lparr>senv_flags = 0, senv_operation = SC_SEC_OPERATION_UNSET,
      senv_algorithm = SC_ALGORITHM_RSA, senv_algorithm_flags = 0, senv_algorithm_ref = 0,
      senv_file_ref = zero_path, senv_key_ref = [], senv_key_size_bits = 0,
      senv_supported_algos = [],
      senv_params = replicate (SC_SEC_ENV_MAX_PARAMS K) zero_param\<rparr>"

section \<open>The dispatcher: \<^verbatim>\<open>get_file_path\<close>, \<^verbatim>\<open>select_key_file\<close>, \<^verbatim>\<open>use_key\<close>\<close>

text \<open>\<^verbatim>\<open>get_file_path\<close> (the callers always pass a non-\<^verbatim>\<open>NULL\<close> \<^verbatim>\<open>path\<close>).\<close>

definition get_file_path :: "sc_pkcs15_object \<Rightarrow> int + sc_path" where
  "get_file_path obj =
     (if class_of_type (obj_type obj) = SC_PKCS15_TYPE_PRKEY then Inr (key_path (obj_data obj))
      else if class_of_type (obj_type obj) = SC_PKCS15_TYPE_SKEY then Inr (key_path (obj_data obj))
      else Inl SC_ERROR_INCORRECT_PARAMETERS)"

text \<open>
  \<^verbatim>\<open>select_key_file\<close>: resolves the key's path, records the file reference in the
  environment and selects the file. The result of \<^verbatim>\<open>sc_select_file\<close> is passed on only when
  negative; otherwise the function returns \<^verbatim>\<open>SC_SUCCESS\<close>.
\<close>

definition select_key_file :: "'w sc_card \<Rightarrow> sc_lib \<Rightarrow> sc_pkcs15_card \<Rightarrow> sc_pkcs15_object
    \<Rightarrow> sc_security_env \<Rightarrow> 'w st \<Rightarrow> int \<times> sc_security_env \<times> 'w st" where
  "select_key_file crd lib p15card key senv s =
     (case get_file_path key of
        Inl e \<Rightarrow> (e, senv, s)
      | Inr orig_path \<Rightarrow>
          (let resolved =
             (if length (path_value orig_path) = 0 \<and> length (path_aid orig_path) \<noteq> 0
              then Inr (orig_path, senv)
              else if length (path_value orig_path) = 2 \<and> file_app p15card \<noteq> None
              then Inr (sc_append_path lib (the (file_app p15card)) orig_path,
                        senv\<lparr>senv_file_ref := orig_path,
                             senv_flags := senv_flags senv OR SC_SEC_ENV_FILE_REF_PRESENT\<rparr>)
              else if length (path_value orig_path) > 2
              then Inr (orig_path,
                        senv\<lparr>senv_file_ref :=
                               \<lparr>path_value = drop (length (path_value orig_path) - 2)
                                               (path_value orig_path),
                                path_type = SC_PATH_TYPE_FILE_ID, path_aid = []\<rparr>,
                             senv_flags := senv_flags senv OR SC_SEC_ENV_FILE_REF_PRESENT\<rparr>)
              else Inl SC_ERROR_INVALID_ARGUMENTS)
           in case resolved of
                Inl e \<Rightarrow> (e, senv, s)
              | Inr (path, senv') \<Rightarrow>
                  (case do_select_file crd path s of
                     (r, s') \<Rightarrow> if r < 0 then (r, senv', s') else (SC_SUCCESS, senv', s'))))"

text \<open>
  The first half of the body of the \<^verbatim>\<open>do ... while\<close> loop of \<^verbatim>\<open>use_key\<close> (lines 143 to
  151): file selection, when the key has a path or an application identifier, and the push of
  the environment. \<open>r\<close> is the value the variable \<^verbatim>\<open>r\<close> has on entry.
\<close>

definition use_key_prepare :: "'w sc_card \<Rightarrow> sc_lib \<Rightarrow> sc_pkcs15_card \<Rightarrow> sc_pkcs15_object
    \<Rightarrow> sc_path \<Rightarrow> int \<Rightarrow> sc_security_env \<Rightarrow> 'w st \<Rightarrow> int \<times> sc_security_env \<times> 'w st" where
  "use_key_prepare crd lib p15card obj path r senv s =
     (case (if length (path_value path) \<noteq> 0 \<or> length (path_aid path) \<noteq> 0
            then select_key_file crd lib p15card obj senv s
            else (r, senv, s)) of
        (r1, senv1, s1) \<Rightarrow>
          (case (if r1 = SC_SUCCESS then do_set_security_env crd senv1 s1 else (r1, s1)) of
             (r2, s2) \<Rightarrow> (r2, senv1, s2)))"

text \<open>
  One pass of the body, up to the invocation of the primitive (lines 143 to 154): the
  primitive is invoked only when the first half left \<^verbatim>\<open>r == SC_SUCCESS\<close>.
\<close>

definition use_key_attempt :: "'w sc_card \<Rightarrow> sc_lib \<Rightarrow> sc_pkcs15_card \<Rightarrow> sc_pkcs15_object
    \<Rightarrow> card_command \<Rightarrow> u8 list \<Rightarrow> nat \<Rightarrow> sc_path \<Rightarrow> int \<Rightarrow> sc_security_env
    \<Rightarrow> u8 list option \<Rightarrow> 'w st \<Rightarrow> int \<times> sc_security_env \<times> u8 list option \<times> 'w st" where
  "use_key_attempt crd lib p15card obj cmd inp outlen path r senv out s =
     (case use_key_prepare crd lib p15card obj path r senv s of
        (r2, senv1, s2) \<Rightarrow>
          (case (if r2 = SC_SUCCESS then do_command crd cmd inp out outlen s2
                 else (r2, out, s2)) of
             (r3, out3, s3) \<Rightarrow> (r3, senv1, out3, s3)))"

text \<open>
  The loop of \<^verbatim>\<open>use_key\<close> (lines 142 to 165). \<open>revalidated_cached_pin\<close> is the loop's flag:
  the loop is entered with it cleared, and runs its body again only after it has set it.
\<close>

function use_key_loop :: "'w sc_card \<Rightarrow> sc_lib \<Rightarrow> sc_pkcs15_card \<Rightarrow> sc_pkcs15_object
    \<Rightarrow> card_command \<Rightarrow> u8 list \<Rightarrow> nat \<Rightarrow> sc_path \<Rightarrow> bool \<Rightarrow> int \<Rightarrow> sc_security_env
    \<Rightarrow> u8 list option \<Rightarrow> 'w st \<Rightarrow> int \<times> sc_security_env \<times> u8 list option \<times> 'w st" where
  "use_key_loop crd lib p15card obj cmd inp outlen path revalidated_cached_pin r senv out s =
     (case use_key_attempt crd lib p15card obj cmd inp outlen path r senv out s of
        (r3, senv3, out3, s3) \<Rightarrow>
          if revalidated_cached_pin then (r3, senv3, out3, s3)
          else if r3 = SC_ERROR_SECURITY_STATUS_NOT_SATISFIED then
            (case do_revalidate crd obj s3 of
               (r4, s4) \<Rightarrow>
                 if r4 < 0 then (r4, senv3, out3, s4)
                 else use_key_loop crd lib p15card obj cmd inp outlen path True r4 senv3 out3 s4)
          else (r3, senv3, out3, s3))"
  by pat_completeness auto
termination
  by (relation "measure (\<lambda>(crd, lib, p15card, obj, cmd, inp, outlen, path, revalidated, rest).
        if revalidated then 0 else 1)") auto

text \<open>\<^verbatim>\<open>use_key\<close>: the dispatcher.\<close>

definition use_key :: "'w sc_card \<Rightarrow> sc_lib \<Rightarrow> sc_pkcs15_card \<Rightarrow> sc_pkcs15_object
    \<Rightarrow> sc_security_env \<Rightarrow> card_command \<Rightarrow> u8 list \<Rightarrow> u8 list option \<Rightarrow> nat \<Rightarrow> 'w st
    \<Rightarrow> int \<times> sc_security_env \<times> u8 list option \<times> 'w st" where
  "use_key crd lib p15card obj senv cmd inp out outlen s =
     (case get_file_path obj of
        Inl e \<Rightarrow> (e, senv, out, s)
      | Inr path \<Rightarrow>
          (case do_lock crd s of
             (r, s0) \<Rightarrow>
               if r < 0 then (r, senv, out, s0)
               else
                 (case use_key_loop crd lib p15card obj cmd inp outlen path False r senv out s0 of
                    (r', senv', out', s') \<Rightarrow> (r', senv', out', do_unlock crd s'))))"

section \<open>The environment builder: \<^verbatim>\<open>sec_env_add_param\<close>, \<^verbatim>\<open>format_senv\<close>\<close>

text \<open>
  \<^verbatim>\<open>sec_env_add_param\<close>: the parameter goes into the first slot whose \<^verbatim>\<open>value\<close> is \<^verbatim>\<open>NULL\<close>;
  with no such slot the call fails (both pointers are non-\<^verbatim>\<open>NULL\<close> at every call).
\<close>

fun add_param_slots :: "sc_sec_env_param list \<Rightarrow> sc_sec_env_param \<Rightarrow> sc_sec_env_param list option"
  where
  "add_param_slots [] p = None"
| "add_param_slots (x # xs) p =
     (if param_value x = None then Some (p # xs)
      else map_option (\<lambda>ys. x # ys) (add_param_slots xs p))"

definition sec_env_add_param :: "sc_security_env \<Rightarrow> sc_sec_env_param \<Rightarrow> int + sc_security_env"
  where
  "sec_env_add_param se p =
     (case add_param_slots (senv_params se) p of
        None \<Rightarrow> Inl SC_ERROR_TOO_MANY_OBJECTS
      | Some ps \<Rightarrow> Inr (se\<lparr>senv_params := ps\<rparr>))"

text \<open>
  The \<^verbatim>\<open>switch (obj->type)\<close> of \<^verbatim>\<open>format_senv\<close>: the capability entry of the card and the
  environment with its algorithm fields set, or the error.
\<close>

fun format_senv_alg :: "sc_lib \<Rightarrow> sc_pkcs15_object \<Rightarrow> sc_security_env
    \<Rightarrow> int + (sc_security_env \<times> sc_algorithm_info)" where
  "format_senv_alg lib obj senv =
     (case obj_type obj of
        SC_PKCS15_TYPE_PRKEY_RSA \<Rightarrow>
          (case sc_card_find_rsa_alg lib (modulus_length (obj_data obj)) of
             None \<Rightarrow> Inl SC_ERROR_NOT_SUPPORTED
           | Some alg_info \<Rightarrow>
               Inr (senv\<lparr>senv_algorithm := SC_ALGORITHM_RSA,
                         senv_key_size_bits := modulus_length (obj_data obj)\<rparr>, alg_info))
      | SC_PKCS15_TYPE_PRKEY_GOSTR3410 \<Rightarrow>
          (case sc_card_find_gostr3410_alg lib (modulus_length (obj_data obj)) of
             None \<Rightarrow> Inl SC_ERROR_NOT_SUPPORTED
           | Some alg_info \<Rightarrow>
               Inr (senv\<lparr>senv_algorithm := SC_ALGORITHM_GOSTR3410,
                         senv_key_size_bits := modulus_length (obj_data obj)\<rparr>, alg_info))
      | SC_PKCS15_TYPE_PRKEY_EDDSA \<Rightarrow>
          (case sc_card_find_eddsa_alg lib (field_length (obj_data obj)) of
             None \<Rightarrow> Inl SC_ERROR_NOT_SUPPORTED
           | Some alg_info \<Rightarrow>
               Inr (senv\<lparr>senv_algorithm := SC_ALGORITHM_EDDSA,
                         senv_key_size_bits := field_length (obj_data obj)\<rparr>, alg_info))
      | SC_PKCS15_TYPE_PRKEY_XEDDSA \<Rightarrow>
          (case sc_card_find_xeddsa_alg lib (field_length (obj_data obj)) of
             None \<Rightarrow> Inl SC_ERROR_NOT_SUPPORTED
           | Some alg_info \<Rightarrow>
               Inr (senv\<lparr>senv_algorithm := SC_ALGORITHM_XEDDSA,
                         senv_key_size_bits := field_length (obj_data obj)\<rparr>, alg_info))
      | SC_PKCS15_TYPE_PRKEY_EC \<Rightarrow>
          (case sc_card_find_ec_alg lib (field_length (obj_data obj)) of
             None \<Rightarrow> Inl SC_ERROR_NOT_SUPPORTED
           | Some alg_info \<Rightarrow>
               Inr (senv\<lparr>senv_algorithm := SC_ALGORITHM_EC,
                         senv_key_size_bits := field_length (obj_data obj),
                         senv_flags := senv_flags senv OR SC_SEC_ENV_ALG_REF_PRESENT,
                         senv_algorithm_ref := field_length (obj_data obj) mod 2 ^ 32\<rparr>,
                    alg_info))
      | SC_PKCS15_TYPE_SKEY_GENERIC \<Rightarrow>
          (if key_type (obj_data obj) \<noteq> CKK_AES then Inl SC_ERROR_NOT_SUPPORTED
           else
             (case sc_card_find_alg lib SC_ALGORITHM_AES (value_len (obj_data obj)) of
                None \<Rightarrow> Inl SC_ERROR_NOT_SUPPORTED
              | Some alg_info \<Rightarrow>
                  Inr (senv\<lparr>senv_algorithm := SC_ALGORITHM_AES,
                            senv_key_size_bits := value_len (obj_data obj)\<rparr>, alg_info)))
      | _ \<Rightarrow> Inl SC_ERROR_NOT_SUPPORTED)"

text \<open>
  \<^verbatim>\<open>format_senv\<close>. \<^verbatim>\<open>algorithm_ref\<close> is an \<^verbatim>\<open>unsigned int\<close>, hence the reduction modulo \<open>2 ^ 32\<close>
  above; \<^verbatim>\<open>key_ref[0]\<close> is the low byte of the key reference.
\<close>

definition format_senv :: "sc_consts \<Rightarrow> sc_lib \<Rightarrow> sc_pkcs15_card \<Rightarrow> sc_pkcs15_object
    \<Rightarrow> int + (sc_security_env \<times> sc_algorithm_info)" where
  "format_senv K lib p15card obj =
     (if \<not> (class_of_type (obj_type obj) = SC_PKCS15_TYPE_PRKEY
             \<or> class_of_type (obj_type obj) = SC_PKCS15_TYPE_SKEY)
      then Inl SC_ERROR_NOT_ALLOWED
      else if \<not> native (obj_data obj) then Inl SC_ERROR_NOT_SUPPORTED
      else
        (case format_senv_alg lib obj
                ((zero_senv K)\<lparr>senv_supported_algos := tokeninfo_supported_algos p15card\<rparr>) of
           Inl e \<Rightarrow> Inl e
         | Inr (senv, alg_info) \<Rightarrow>
             (let senv1 = senv\<lparr>senv_flags := senv_flags senv OR SC_SEC_ENV_ALG_PRESENT\<rparr>;
                  senv2 =
                    (if key_reference (obj_data obj) \<ge> 0
                     then senv1\<lparr>senv_key_ref :=
                                   [word_of_int (key_reference (obj_data obj)) AND 0xFF],
                                 senv_flags := senv_flags senv1 OR SC_SEC_ENV_KEY_REF_PRESENT\<rparr>
                     else senv1)
              in Inr (senv2, alg_info))))"

section \<open>The operation handlers\<close>

text \<open>
  \<^verbatim>\<open>sc_pkcs15_decipher\<close>. An \<^verbatim>\<open>int\<close> assigned to a \<^verbatim>\<open>size_t\<close> or an \<^verbatim>\<open>unsigned int\<close> is reduced
  modulo the width of the target.
\<close>

definition oaep_param :: "sc_consts \<Rightarrow> CK_MECHANISM option \<Rightarrow> u8 list option \<times> nat" where
  "oaep_param K pMechanism =
     (case pMechanism of
        None \<Rightarrow> (None, 0)
      | Some mech \<Rightarrow>
          (case mech_pParameter mech of
             None \<Rightarrow> (None, 0)
           | Some oaep_params \<Rightarrow>
               if sizeof_CK_RSA_PKCS_OAEP_PARAMS K = mech_ulParameterLen mech
                  \<and> oaep_source oaep_params = CKZ_DATA_SPECIFIED
               then (oaep_pSourceData oaep_params, oaep_ulSourceDataLen oaep_params)
               else (None, 0)))"

definition sc_pkcs15_decipher :: "sc_consts \<Rightarrow> 'w sc_card \<Rightarrow> sc_lib \<Rightarrow> sc_pkcs15_card
    \<Rightarrow> sc_pkcs15_object \<Rightarrow> ulong \<Rightarrow> u8 list \<Rightarrow> u8 list option \<Rightarrow> nat \<Rightarrow> CK_MECHANISM option
    \<Rightarrow> 'w st \<Rightarrow> int \<times> u8 list option \<times> 'w st" where
  "sc_pkcs15_decipher K crd lib p15card obj flags inp out outlen pMechanism s =
     (if usage (obj_data obj)
           AND (SC_PKCS15_PRKEY_USAGE_DECRYPT OR SC_PKCS15_PRKEY_USAGE_UNWRAP) = 0
      then (SC_ERROR_NOT_ALLOWED, out, s)
      else
        (case format_senv K lib p15card obj of
           Inl e \<Rightarrow> (e, out, s)
         | Inr (senv0, alg_info) \<Rightarrow>
             (case sc_get_encoding_flags lib flags (alg_flags alg_info) of
                (r1, pad_flags, sec_flags) \<Rightarrow>
                  if r1 < 0 then (r1, out, s)
                  else
                    (case use_key crd lib p15card obj
                            (senv0\<lparr>senv_operation := SC_SEC_OPERATION_DECIPHER,
                                   senv_algorithm_flags := sec_flags\<rparr>)
                            sc_decipher inp out outlen s of
                       (r2, senv', out2, s') \<Rightarrow>
                         if r2 < 0 then (r2, out2, s')
                         else
                           (case (if pad_flags AND SC_ALGORITHM_RSA_PAD_PKCS1_TYPE_02 K \<noteq> 0
                                  then sc_pkcs1_strip_02_padding_constant_time lib
                                         (alg_key_length alg_info mod 2 ^ 32 div 8) out2
                                         (nat (r2 mod 2 ^ 32))
                                  else (r2, out2)) of
                              (r3, out3) \<Rightarrow>
                                if ENABLE_OPENSSL lib
                                   \<and> pad_flags AND SC_ALGORITHM_RSA_PAD_OAEP K \<noteq> 0
                                then
                                  (case oaep_param K pMechanism of
                                     (param, paramlen) \<Rightarrow>
                                       (case sc_pkcs1_strip_oaep_padding lib out3
                                               (nat (r3 mod 2 ^ 64)) flags param paramlen of
                                          (r4, out4) \<Rightarrow> (r4, out4, s')))
                                else (r3, out3, s'))))))"

text \<open>
  \<^verbatim>\<open>sc_pkcs15_derive\<close>. \<open>poutlen\<close> is the value of \<^verbatim>\<open>*poutlen\<close> on entry; the third component of
  the result is its value on return.
\<close>

definition sc_pkcs15_derive :: "sc_consts \<Rightarrow> 'w sc_card \<Rightarrow> sc_lib \<Rightarrow> sc_pkcs15_card
    \<Rightarrow> sc_pkcs15_object \<Rightarrow> ulong \<Rightarrow> u8 list \<Rightarrow> u8 list option \<Rightarrow> nat
    \<Rightarrow> 'w st \<Rightarrow> int \<times> u8 list option \<times> nat \<times> 'w st" where
  "sc_pkcs15_derive K crd lib p15card obj flags inp out poutlen s =
     (if usage (obj_data obj) AND SC_PKCS15_PRKEY_USAGE_DERIVE = 0
      then (SC_ERROR_NOT_ALLOWED, out, poutlen, s)
      else if \<not> (obj_type obj = SC_PKCS15_TYPE_PRKEY_EC
                  \<or> obj_type obj = SC_PKCS15_TYPE_PRKEY_XEDDSA)
      then (SC_ERROR_NOT_SUPPORTED, out, poutlen, s)
      else if out = None \<or> poutlen < BYTES4BITS (field_length (obj_data obj))
      then (0, out, BYTES4BITS (field_length (obj_data obj)), s)
      else
        (case format_senv K lib p15card obj of
           Inl e \<Rightarrow> (e, out, poutlen, s)
         | Inr (senv0, alg_info) \<Rightarrow>
             (case sc_get_encoding_flags lib flags (alg_flags alg_info) of
                (r1, pad_flags, sec_flags) \<Rightarrow>
                  if r1 < 0 then (r1, out, poutlen, s)
                  else
                    (case use_key crd lib p15card obj
                            (senv0\<lparr>senv_operation := SC_SEC_OPERATION_DERIVE,
                                   senv_algorithm_flags := sec_flags\<rparr>)
                            sc_decipher inp out poutlen s of
                       (r2, senv', out2, s') \<Rightarrow>
                         if r2 < 0 then (r2, out2, poutlen, s')
                         else (r2, out2, nat r2, s')))))"

text \<open>
  The target file reference of \<^verbatim>\<open>sc_pkcs15_unwrap\<close> (lines 447 to 466) and \<^verbatim>\<open>sc_pkcs15_wrap\<close>
  (lines 550 to 567), computed from the target key's path.
\<close>

definition target_file_id :: "sc_lib \<Rightarrow> sc_pkcs15_card \<Rightarrow> sc_path \<Rightarrow> int + sc_path" where
  "target_file_id lib p15card tkey_path =
     (if length (path_value tkey_path) = 0 \<and> length (path_aid tkey_path) \<noteq> 0
      then Inr tkey_path
      else if length (path_value tkey_path) = 2 \<and> file_app p15card \<noteq> None
      then Inr (sc_append_path lib (the (file_app p15card)) tkey_path)
      else if length (path_value tkey_path) > 2
      then Inr \<lparr>path_value = drop (length (path_value tkey_path) - 2) (path_value tkey_path),
                path_type = SC_PATH_TYPE_FILE_ID, path_aid = []\<rparr>
      else Inl SC_ERROR_INVALID_ARGUMENTS)"

text \<open>
  The part \<^verbatim>\<open>sc_pkcs15_unwrap\<close> and \<^verbatim>\<open>sc_pkcs15_wrap\<close> share after \<^verbatim>\<open>format_senv\<close>: the target
  file parameter, the flag negotiation and the IV parameter (\<open>param\<close> is \<open>None\<close> for a \<^verbatim>\<open>NULL\<close>
  pointer). The result is the environment to dispatch with.
\<close>

definition wrap_senv :: "sc_consts \<Rightarrow> sc_lib \<Rightarrow> sc_pkcs15_card \<Rightarrow> sc_sec_operation
    \<Rightarrow> sc_security_env \<Rightarrow> sc_algorithm_info \<Rightarrow> sc_path \<Rightarrow> ulong \<Rightarrow> u8 list option \<Rightarrow> nat
    \<Rightarrow> int + sc_security_env" where
  "wrap_senv K lib p15card operation senv0 alg_info tkey_path flags param paramlen =
     (case target_file_id lib p15card tkey_path of
        Inl e \<Rightarrow> Inl e
      | Inr file_id \<Rightarrow>
          (case sec_env_add_param (senv0\<lparr>senv_operation := operation\<rparr>)
                  \<lparr>param_type = SC_SEC_ENV_PARAM_TARGET_FILE,
                   param_value = Some (Path_value file_id),
                   param_value_len = sizeof_sc_path_t K\<rparr> of
             Inl e \<Rightarrow> Inl e
           | Inr senv1 \<Rightarrow>
               (case sc_get_encoding_flags lib flags (alg_flags alg_info) of
                  (r, pad_flags, sec_flags) \<Rightarrow>
                    if r < 0 then Inl r
                    else if sec_flags AND (SC_ALGORITHM_AES_CBC K OR SC_ALGORITHM_AES_CBC_PAD K)
                            \<noteq> 0
                    then sec_env_add_param (senv1\<lparr>senv_algorithm_flags := sec_flags\<rparr>)
                           \<lparr>param_type = SC_SEC_ENV_PARAM_IV,
                            param_value = map_option Bytes_value param,
                            param_value_len = paramlen\<rparr>
                    else Inr (senv1\<lparr>senv_algorithm_flags := sec_flags\<rparr>))))"

text \<open>
  \<^verbatim>\<open>sc_pkcs15_unwrap\<close>: the output buffer of the primitive is \<^verbatim>\<open>NULL\<close> and its length 0. The
  code reads the target's path through the secret-key view of \<^verbatim>\<open>target_key->data\<close>.
\<close>

definition sc_pkcs15_unwrap :: "sc_consts \<Rightarrow> 'w sc_card \<Rightarrow> sc_lib \<Rightarrow> sc_pkcs15_card
    \<Rightarrow> sc_pkcs15_object \<Rightarrow> sc_pkcs15_object \<Rightarrow> ulong \<Rightarrow> u8 list \<Rightarrow> u8 list option \<Rightarrow> nat
    \<Rightarrow> 'w st \<Rightarrow> int \<times> 'w st" where
  "sc_pkcs15_unwrap K crd lib p15card key target_key flags inp param paramlen s =
     (if obj_type key = SC_PKCS15_TYPE_PRKEY_RSA
         \<and> usage (obj_data key) AND SC_PKCS15_PRKEY_USAGE_UNWRAP = 0
      then (SC_ERROR_NOT_ALLOWED, s)
      else if obj_type key \<noteq> SC_PKCS15_TYPE_PRKEY_RSA
         \<and> class_of_type (obj_type key) = SC_PKCS15_TYPE_SKEY
         \<and> usage (obj_data key) AND SC_PKCS15_PRKEY_USAGE_UNWRAP = 0
      then (SC_ERROR_NOT_ALLOWED, s)
      else if obj_type key \<noteq> SC_PKCS15_TYPE_PRKEY_RSA
         \<and> class_of_type (obj_type key) \<noteq> SC_PKCS15_TYPE_SKEY
      then (SC_ERROR_NOT_SUPPORTED, s)
      else
        (case format_senv K lib p15card key of
           Inl e \<Rightarrow> (e, s)
         | Inr (senv0, alg_info) \<Rightarrow>
             (case wrap_senv K lib p15card SC_SEC_OPERATION_UNWRAP senv0 alg_info
                     (key_path (obj_data target_key)) flags param paramlen of
                Inl e \<Rightarrow> (e, s)
              | Inr senv \<Rightarrow>
                  (case use_key crd lib p15card key senv sc_unwrap inp None 0 s of
                     (r, senv', out', s') \<Rightarrow> (r, s')))))"

text \<open>
  \<^verbatim>\<open>sc_pkcs15_wrap\<close>. \<open>crgram_len\<close> is \<open>None\<close> for a \<^verbatim>\<open>NULL\<close> pointer and otherwise holds
  \<^verbatim>\<open>*crgram_len\<close>; the result carries the buffer and \<^verbatim>\<open>*crgram_len\<close> on return.
\<close>

definition sc_pkcs15_wrap :: "sc_consts \<Rightarrow> 'w sc_card \<Rightarrow> sc_lib \<Rightarrow> sc_pkcs15_card
    \<Rightarrow> sc_pkcs15_object \<Rightarrow> sc_pkcs15_object \<Rightarrow> ulong \<Rightarrow> u8 list option \<Rightarrow> nat option
    \<Rightarrow> u8 list option \<Rightarrow> nat \<Rightarrow> 'w st \<Rightarrow> int \<times> u8 list option \<times> nat option \<times> 'w st" where
  "sc_pkcs15_wrap K crd lib p15card key target_key flags cryptogram crgram_len param paramlen s =
     (if obj_type key = SC_PKCS15_TYPE_PRKEY_RSA
         \<and> usage (obj_data key) AND SC_PKCS15_PRKEY_USAGE_WRAP = 0
      then (SC_ERROR_NOT_ALLOWED, cryptogram, crgram_len, s)
      else if obj_type key \<in> {SC_PKCS15_TYPE_SKEY_DES, SC_PKCS15_TYPE_SKEY_3DES,
                               SC_PKCS15_TYPE_SKEY_GENERIC}
         \<and> usage (obj_data key) AND SC_PKCS15_PRKEY_USAGE_WRAP = 0
      then (SC_ERROR_NOT_ALLOWED, cryptogram, crgram_len, s)
      else if obj_type key \<notin> {SC_PKCS15_TYPE_PRKEY_RSA, SC_PKCS15_TYPE_SKEY_DES,
                               SC_PKCS15_TYPE_SKEY_3DES, SC_PKCS15_TYPE_SKEY_GENERIC}
      then (SC_ERROR_NOT_SUPPORTED, cryptogram, crgram_len, s)
      else if \<not> (obj_type target_key = SC_PKCS15_TYPE_PRKEY_RSA
                  \<or> class_of_type (obj_type target_key) = SC_PKCS15_TYPE_SKEY)
      then (SC_ERROR_NOT_SUPPORTED, cryptogram, crgram_len, s)
      else
        (case format_senv K lib p15card key of
           Inl e \<Rightarrow> (e, cryptogram, crgram_len, s)
         | Inr (senv0, alg_info) \<Rightarrow>
             (case wrap_senv K lib p15card SC_SEC_OPERATION_WRAP senv0 alg_info
                     (key_path (obj_data target_key)) flags param paramlen of
                Inl e \<Rightarrow> (e, cryptogram, crgram_len, s)
              | Inr senv \<Rightarrow>
                  (case use_key crd lib p15card key senv sc_wrap [] cryptogram
                          (case crgram_len of None \<Rightarrow> 0 | Some n \<Rightarrow> n) s of
                     (r, senv', out', s') \<Rightarrow>
                       (case crgram_len of
                          None \<Rightarrow> (r, out', None, s')
                        | Some n \<Rightarrow>
                            if r > - 1 then
                              (if n < nat r \<and> cryptogram \<noteq> None
                               then (SC_ERROR_BUFFER_TOO_SMALL, out', Some (nat r), s')
                               else (r, out', Some (nat r), s'))
                            else (r, out', Some n, s'))))))"

text \<open>
  \<^verbatim>\<open>sc_pkcs15_compute_signature\<close>, in the order of the source. First the expected signature
  length \<^verbatim>\<open>modlen\<close> (lines 625 to 639), a \<^verbatim>\<open>size_t\<close>; \<open>None\<close> is the \<^verbatim>\<open>default\<close> case.
\<close>

definition sign_modlen :: "sc_pkcs15_object \<Rightarrow> nat option" where
  "sign_modlen obj =
     (case obj_type obj of
        SC_PKCS15_TYPE_PRKEY_RSA \<Rightarrow> Some (BYTES4BITS (modulus_length (obj_data obj)))
      | SC_PKCS15_TYPE_PRKEY_GOSTR3410 \<Rightarrow>
          Some (size_t (BYTES4BITS (modulus_length (obj_data obj)) * 2))
      | SC_PKCS15_TYPE_PRKEY_EC \<Rightarrow> Some (size_t (BYTES4BITS (field_length (obj_data obj)) * 2))
      | SC_PKCS15_TYPE_PRKEY_EDDSA \<Rightarrow> Some (size_t (BYTES4BITS (field_length (obj_data obj)) * 2))
      | SC_PKCS15_TYPE_PRKEY_XEDDSA \<Rightarrow> Some (size_t (BYTES4BITS (field_length (obj_data obj)) * 2))
      | _ \<Rightarrow> None)"

text \<open>
  The condition of lines 669 to 672: an RSA key usable for signing and for deciphering on a
  card whose capability entry carries \<^verbatim>\<open>SC_ALGORITHM_NEED_USAGE\<close>.
\<close>

definition sign_needs_emulation :: "sc_consts \<Rightarrow> sc_pkcs15_object \<Rightarrow> sc_algorithm_info \<Rightarrow> bool"
  where
  "sign_needs_emulation K obj alg_info =
     (obj_type obj = SC_PKCS15_TYPE_PRKEY_RSA
      \<and> alg_flags alg_info AND SC_ALGORITHM_NEED_USAGE K \<noteq> 0
      \<and> usage (obj_data obj) AND USAGE_ANY_SIGN \<noteq> 0
      \<and> usage (obj_data obj) AND USAGE_ANY_DECIPHER \<noteq> 0)"

text \<open>
  The emulation of signing by deciphering (lines 673 to 692). \<open>r\<close> is the value of the
  variable \<^verbatim>\<open>r\<close> on entry and \<open>buf\<close> the work buffer of \<open>buflen\<close> bytes. The jump of line 679
  leaves \<^verbatim>\<open>r\<close> as it is (\<^verbatim>\<open>LOG_TEST_GOTO_ERR\<close> tests its argument and does not assign it).
\<close>

definition sign_emulate :: "sc_consts \<Rightarrow> 'w sc_card \<Rightarrow> sc_lib \<Rightarrow> sc_pkcs15_card
    \<Rightarrow> sc_pkcs15_object \<Rightarrow> ulong \<Rightarrow> u8 list \<Rightarrow> u8 list option \<Rightarrow> nat \<Rightarrow> CK_MECHANISM option
    \<Rightarrow> nat \<Rightarrow> nat \<Rightarrow> u8 list \<Rightarrow> int \<Rightarrow> 'w st \<Rightarrow> int \<times> u8 list option \<times> 'w st" where
  "sign_emulate K crd lib p15card obj flags inp out outlen pMechanism modlen buflen buf r s =
     (if flags AND SC_ALGORITHM_RSA_RAW K \<noteq> 0
      then sc_pkcs15_decipher K crd lib p15card obj flags inp out outlen None s
      else if modlen > buflen then (r, out, s)
      else
        (case sc_pkcs1_encode lib flags inp buflen (modulus_length (obj_data obj))
                pMechanism of
           (r1, enc) \<Rightarrow>
             if r1 < 0 then (r1, out, s)
             else sc_pkcs15_decipher K crd lib p15card obj
                    ((flags AND NOT (SC_ALGORITHM_RSA_PADS K)) OR SC_ALGORITHM_RSA_RAW K)
                    (take modlen (enc @ drop (length enc) buf)) out outlen None s))"

text \<open>
  Lines 702 to 717: the digest-info prefix is stripped when the card offers PKCS\#1 type 1
  signatures but neither raw RSA nor "no hash". The result is the error or the new
  \<^verbatim>\<open>flags\<close>, work buffer and \<^verbatim>\<open>inlen\<close>.
\<close>

definition sign_strip_digest_info :: "sc_consts \<Rightarrow> sc_lib \<Rightarrow> sc_pkcs15_object
    \<Rightarrow> sc_algorithm_info \<Rightarrow> ulong \<Rightarrow> nat \<Rightarrow> u8 list \<Rightarrow> nat
    \<Rightarrow> int + (ulong \<times> u8 list \<times> nat)" where
  "sign_strip_digest_info K lib obj alg_info flags buflen tmp inlen =
     (if obj_type obj = SC_PKCS15_TYPE_PRKEY_RSA
         \<and> flags = (SC_ALGORITHM_RSA_PAD_PKCS1_TYPE_01 K OR SC_ALGORITHM_RSA_HASH_NONE K)
         \<and> alg_flags alg_info AND SC_ALGORITHM_RSA_RAW K = 0
         \<and> alg_flags alg_info AND SC_ALGORITHM_RSA_HASH_NONE K = 0
         \<and> alg_flags alg_info AND SC_ALGORITHM_RSA_PAD_PKCS1_TYPE_01 K \<noteq> 0
      then
        (case sc_pkcs1_strip_digest_info_prefix lib (take inlen tmp) buflen of
           (r, algo, stripped) \<Rightarrow>
             if r \<noteq> SC_SUCCESS \<or> algo = SC_ALGORITHM_RSA_HASH_NONE K
             then Inl SC_ERROR_INVALID_DATA
             else Inr ((flags AND NOT (SC_ALGORITHM_RSA_HASH_NONE K)) OR algo,
                       stripped @ drop (length stripped) tmp, length stripped))
      else Inr (flags, tmp, inlen))"

text \<open>Lines 723 to 730: raw ECDSA is preferred when the card does not do the requested hash.\<close>

definition sign_ec_flags :: "sc_consts \<Rightarrow> sc_pkcs15_object \<Rightarrow> sc_algorithm_info \<Rightarrow> ulong \<Rightarrow> ulong"
  where
  "sign_ec_flags K obj alg_info flags =
     (if obj_type obj = SC_PKCS15_TYPE_PRKEY_EC
         \<and> alg_flags alg_info AND SC_ALGORITHM_ECDSA_RAW K \<noteq> 0
         \<and> flags AND SC_ALGORITHM_ECDSA_HASHES K AND alg_flags alg_info = 0
      then (flags OR SC_ALGORITHM_ECDSA_RAW K) AND NOT (SC_ALGORITHM_ECDSA_HASHES K)
      else flags)"

text \<open>
  Lines 743 to 774: software padding, zero padding of a short raw RSA input
  (\<^verbatim>\<open>memmove(tmp+modlen-inlen, tmp, inlen); memset(tmp, 0, modlen-inlen)\<close>) or truncation of an
  EC input. The result is the error or the work buffer and \<^verbatim>\<open>inlen\<close>.
\<close>

definition sign_pad_input :: "sc_consts \<Rightarrow> sc_lib \<Rightarrow> sc_pkcs15_object \<Rightarrow> sc_security_env
    \<Rightarrow> ulong \<Rightarrow> ulong \<Rightarrow> CK_MECHANISM option \<Rightarrow> nat \<Rightarrow> nat \<Rightarrow> u8 list \<Rightarrow> nat
    \<Rightarrow> int + (u8 list \<times> nat)" where
  "sign_pad_input K lib obj senv flags pad_flags pMechanism modlen buflen tmp inlen =
     (if pad_flags \<noteq> 0 then
        (case sc_pkcs1_encode lib pad_flags (take inlen tmp) buflen
                (modulus_length (obj_data obj)) pMechanism of
           (r, enc) \<Rightarrow>
             if r < 0 then Inl r else Inr (enc @ drop (length enc) tmp, length enc))
      else if senv_algorithm senv = SC_ALGORITHM_RSA
              \<and> flags AND SC_ALGORITHM_RSA_PADS K = SC_ALGORITHM_RSA_PAD_NONE K then
        (if inlen < modlen then
           (if modlen > buflen then Inl SC_ERROR_BUFFER_TOO_SMALL
            else Inr (replicate (modlen - inlen) 0 @ take inlen tmp @ drop modlen tmp, modlen))
         else Inr (tmp, modlen))
      else if senv_algorithm senv = SC_ALGORITHM_EC
              \<and> senv_algorithm_flags senv AND SC_ALGORITHM_ECDSA_HASHES K = 0 then
        Inr (tmp, min inlen (BYTES4BITS (field_length (obj_data obj))))
      else Inr (tmp, inlen))"

text \<open>
  Lines 781 to 787: an RSA signature shorter than the modulus is moved to the end of the
  first \<open>modlen\<close> bytes of the output buffer and the bytes before it are cleared
  (\<^verbatim>\<open>memmove(out + modlen - r, out, r); memset(out, 0, modlen - r)\<close>). The buffer holds at least
  \<^verbatim>\<open>outlen\<close> bytes, and \<^verbatim>\<open>outlen >= modlen\<close> has been checked. The value returned is
  \<^verbatim>\<open>(int)modlen\<close>; \<open>r\<close> is not negative here, so that \<^verbatim>\<open>(unsigned)r\<close> is \<open>r\<close>.
\<close>

definition sign_fix_length :: "sc_pkcs15_object \<Rightarrow> nat \<Rightarrow> int \<Rightarrow> u8 list option
    \<Rightarrow> int \<times> u8 list option" where
  "sign_fix_length obj modlen r out =
     (if obj_type obj = SC_PKCS15_TYPE_PRKEY_RSA \<and> nat r < modlen
      then (int_cast modlen,
            map_option (\<lambda>b. replicate (modlen - nat r) 0 @ take (nat r) b @ drop modlen b) out)
      else (r, out))"

text \<open>
  The part of \<^verbatim>\<open>sc_pkcs15_compute_signature\<close> from line 696 on, for a request that is not
  emulated by deciphering; \<open>buf\<close> is the work buffer of \<open>buflen\<close> bytes that starts with the
  input.
\<close>

definition sign_on_card :: "sc_consts \<Rightarrow> 'w sc_card \<Rightarrow> sc_lib \<Rightarrow> sc_pkcs15_card
    \<Rightarrow> sc_pkcs15_object \<Rightarrow> sc_security_env \<Rightarrow> sc_algorithm_info \<Rightarrow> ulong \<Rightarrow> nat
    \<Rightarrow> u8 list option \<Rightarrow> nat \<Rightarrow> CK_MECHANISM option \<Rightarrow> nat \<Rightarrow> nat \<Rightarrow> u8 list \<Rightarrow> 'w st
    \<Rightarrow> int \<times> u8 list option \<times> 'w st" where
  "sign_on_card K crd lib p15card obj senv0 alg_info flags inlen out outlen pMechanism modlen
       buflen buf s =
     (case sign_strip_digest_info K lib obj alg_info flags buflen buf inlen of
        Inl e \<Rightarrow> (e, out, s)
      | Inr (flags1, tmp1, inlen1) \<Rightarrow>
          (case sc_get_encoding_flags lib (sign_ec_flags K obj alg_info flags1)
                  (alg_flags alg_info) of
             (r, pad_flags, sec_flags) \<Rightarrow>
               if r \<noteq> SC_SUCCESS then (r, out, s)
               else
                 (case sign_pad_input K lib obj
                         (senv0\<lparr>senv_operation := SC_SEC_OPERATION_SIGN,
                                senv_algorithm_flags := sec_flags\<rparr>)
                         (sign_ec_flags K obj alg_info flags1) pad_flags pMechanism modlen
                         buflen tmp1 inlen1 of
                    Inl e \<Rightarrow> (e, out, s)
                  | Inr (tmp2, inlen2) \<Rightarrow>
                      (case use_key crd lib p15card obj
                              (senv0\<lparr>senv_operation := SC_SEC_OPERATION_SIGN,
                                     senv_algorithm_flags := sec_flags\<rparr>)
                              sc_compute_signature (take inlen2 tmp2) out outlen s of
                         (r2, senv', out2, s') \<Rightarrow>
                           if r2 < 0 then (r2, out2, s')
                           else
                             (case sign_fix_length obj modlen r2 out2 of
                                (r3, out3) \<Rightarrow> (r3, out3, s'))))))"

text \<open>
  \<^verbatim>\<open>sc_pkcs15_compute_signature\<close>; the input is \<^verbatim>\<open>in[0..inlen)\<close>. The length of the work buffer
  is the \<^verbatim>\<open>size_t\<close> sum \<^verbatim>\<open>inlen + modlen\<close> (line 645); the buffer starts with the input
  (\<^verbatim>\<open>memcpy\<close>, line 649).
\<close>

definition sc_pkcs15_compute_signature :: "sc_consts \<Rightarrow> 'w sc_card \<Rightarrow> sc_lib \<Rightarrow> sc_pkcs15_card
    \<Rightarrow> sc_pkcs15_object \<Rightarrow> ulong \<Rightarrow> u8 list \<Rightarrow> u8 list option \<Rightarrow> nat \<Rightarrow> CK_MECHANISM option
    \<Rightarrow> 'w st \<Rightarrow> int \<times> u8 list option \<times> 'w st" where
  "sc_pkcs15_compute_signature K crd lib p15card obj flags inp out outlen pMechanism s =
     (if usage (obj_data obj)
           AND (SC_PKCS15_PRKEY_USAGE_SIGN OR SC_PKCS15_PRKEY_USAGE_SIGNRECOVER
                OR SC_PKCS15_PRKEY_USAGE_NONREPUDIATION) = 0
      then (SC_ERROR_NOT_ALLOWED, out, s)
      else
        (case format_senv K lib p15card obj of
           Inl e \<Rightarrow> (e, out, s)
         | Inr (senv0, alg_info) \<Rightarrow>
             (case sign_modlen obj of
                None \<Rightarrow> (SC_ERROR_NOT_SUPPORTED, out, s)
              | Some modlen \<Rightarrow>
                  if outlen < modlen then (SC_ERROR_BUFFER_TOO_SMALL, out, s)
                  else
                    (case sc_mem_secure_alloc lib (size_t (length inp + modlen)) of
                       None \<Rightarrow> (SC_ERROR_OUT_OF_MEMORY, out, s)
                     | Some fresh \<Rightarrow>
                         (case (if obj_type obj = SC_PKCS15_TYPE_PRKEY_GOSTR3410
                                then sc_mem_reverse lib (inp @ drop (length inp) fresh)
                                       (length inp)
                                else (SC_SUCCESS, inp @ drop (length inp) fresh)) of
                            (r, buf) \<Rightarrow>
                              if r < 0 then (r, out, s)
                              else if sign_needs_emulation K obj alg_info
                              then sign_emulate K crd lib p15card obj flags inp out outlen
                                     pMechanism modlen (size_t (length inp + modlen)) buf r s
                              else sign_on_card K crd lib p15card obj senv0 alg_info flags
                                     (length inp) out outlen pMechanism modlen
                                     (size_t (length inp + modlen)) buf s)))))"

section \<open>The symmetric handlers\<close>

text \<open>
  The loop over the token's supported algorithms (lines 828 to 836 and 915 to 923): it
  stops at the first entry whose \<^verbatim>\<open>reference\<close> is 0 and takes the algorithm reference of the
  first entry before it whose mechanism matches the negotiated flags.
\<close>

fun sym_algorithm_ref :: "sc_consts \<Rightarrow> ulong \<Rightarrow> sc_supported_algo_info list \<Rightarrow> nat option" where
  "sym_algorithm_ref K sec_flags [] = None"
| "sym_algorithm_ref K sec_flags (a # as) =
     (if algo_reference a = 0 then None
      else if (algo_mechanism a = CKM_AES_ECB \<and> sec_flags = SC_ALGORITHM_AES_ECB K)
              \<or> (algo_mechanism a = CKM_AES_CBC \<and> sec_flags = SC_ALGORITHM_AES_CBC K)
              \<or> (algo_mechanism a = CKM_AES_CBC_PAD \<and> sec_flags = SC_ALGORITHM_AES_CBC_PAD K)
      then Some (algo_ref a)
      else sym_algorithm_ref K sec_flags as)"

text \<open>
  The part of \<^verbatim>\<open>sc_pkcs15_encrypt_sym\<close> and \<^verbatim>\<open>sc_pkcs15_decrypt_sym\<close> between \<^verbatim>\<open>format_senv\<close> and
  the loop: the environment to push, or the error.
\<close>

definition sym_senv :: "sc_consts \<Rightarrow> sc_lib \<Rightarrow> sc_sec_operation \<Rightarrow> sc_security_env
    \<Rightarrow> sc_algorithm_info \<Rightarrow> ulong \<Rightarrow> u8 list option \<Rightarrow> nat \<Rightarrow> int + sc_security_env" where
  "sym_senv K lib operation senv0 alg_info flags param paramlen =
     (case sc_get_encoding_flags lib flags (alg_flags alg_info) of
        (r, pad_flags, sec_flags) \<Rightarrow>
          if r < 0 then Inl r
          else
            (let senv1 = senv0\<lparr>senv_operation := operation, senv_algorithm_flags := sec_flags\<rparr>;
                 senv2 = (case sym_algorithm_ref K sec_flags (senv_supported_algos senv1) of
                            None \<Rightarrow> senv1
                          | Some aref \<Rightarrow>
                              senv1\<lparr>senv_algorithm_ref := aref,
                                    senv_flags := senv_flags senv1
                                                  OR SC_SEC_ENV_ALG_REF_PRESENT\<rparr>)
             in if sec_flags AND (SC_ALGORITHM_AES_CBC K OR SC_ALGORITHM_AES_CBC_PAD K) \<noteq> 0
                then sec_env_add_param senv2
                       \<lparr>param_type = SC_SEC_ENV_PARAM_IV,
                        param_value = map_option Bytes_value param,
                        param_value_len = paramlen\<rparr>
                else Inr senv2))"

text \<open>
  The two primitives of the symmetric handlers take a pointer to the output length, which
  is \<^verbatim>\<open>NULL\<close> (\<open>None\<close>) in the call that begins an operation.
\<close>

datatype sym_command = sc_encrypt_symmetric | sc_decrypt_symmetric

definition do_sym_command :: "'w sc_card \<Rightarrow> sym_command \<Rightarrow> u8 list \<Rightarrow> u8 list option
    \<Rightarrow> nat option \<Rightarrow> 'w st \<Rightarrow> int \<times> u8 list option \<times> nat option \<times> 'w st" where
  "do_sym_command crd cmd inp out outlen s =
     (case cmd of
        sc_encrypt_symmetric \<Rightarrow>
          (case sc_encrypt_sym crd inp out outlen (dev s) of
             ((r, out', n), w) \<Rightarrow>
               (r, out', map_option (\<lambda>old. n) outlen,
                \<lparr>dev = w, calls = calls s @ [Encrypt_sym inp r]\<rparr>))
      | sc_decrypt_symmetric \<Rightarrow>
          (case sc_decrypt_sym crd inp out outlen (dev s) of
             ((r, out', n), w) \<Rightarrow>
               (r, out', map_option (\<lambda>old. n) outlen,
                \<lparr>dev = w, calls = calls s @ [Decrypt_sym inp r]\<rparr>)))"

text \<open>
  One pass of the body of the loop, up to the invocation of the primitive (lines 849 to 866
  and 936 to 953). The file is selected and the environment pushed only when \<^verbatim>\<open>outlen\<close> is
  \<^verbatim>\<open>NULL\<close>.
\<close>

definition sym_attempt :: "'w sc_card \<Rightarrow> sc_lib \<Rightarrow> sc_pkcs15_card \<Rightarrow> sc_pkcs15_object
    \<Rightarrow> sym_command \<Rightarrow> u8 list \<Rightarrow> sc_path \<Rightarrow> sc_security_env \<Rightarrow> u8 list option \<Rightarrow> nat option
    \<Rightarrow> 'w st \<Rightarrow> int \<times> sc_security_env \<times> u8 list option \<times> nat option \<times> 'w st" where
  "sym_attempt crd lib p15card obj cmd inp path senv out outlen s =
     (case (if outlen = None then use_key_prepare crd lib p15card obj path SC_SUCCESS senv s
            else (SC_SUCCESS, senv, s)) of
        (r2, senv1, s2) \<Rightarrow>
          (case (if r2 = SC_SUCCESS then do_sym_command crd cmd inp out outlen s2
                 else (r2, out, outlen, s2)) of
             (r3, out3, outlen3, s3) \<Rightarrow> (r3, senv1, out3, outlen3, s3)))"

text \<open>The loop of the symmetric handlers (lines 848 to 877 and 935 to 964).\<close>

function sym_loop :: "'w sc_card \<Rightarrow> sc_lib \<Rightarrow> sc_pkcs15_card \<Rightarrow> sc_pkcs15_object
    \<Rightarrow> sym_command \<Rightarrow> u8 list \<Rightarrow> sc_path \<Rightarrow> bool \<Rightarrow> sc_security_env \<Rightarrow> u8 list option
    \<Rightarrow> nat option \<Rightarrow> 'w st \<Rightarrow> int \<times> u8 list option \<times> nat option \<times> 'w st" where
  "sym_loop crd lib p15card obj cmd inp path revalidated_cached_pin senv out outlen s =
     (case sym_attempt crd lib p15card obj cmd inp path senv out outlen s of
        (r3, senv3, out3, outlen3, s3) \<Rightarrow>
          if revalidated_cached_pin then (r3, out3, outlen3, s3)
          else if r3 = SC_ERROR_SECURITY_STATUS_NOT_SATISFIED then
            (case do_revalidate crd obj s3 of
               (r4, s4) \<Rightarrow>
                 if r4 < 0 then (r4, out3, outlen3, s4)
                 else sym_loop crd lib p15card obj cmd inp path True senv3 out3 outlen3 s4)
          else (r3, out3, outlen3, s3))"
  by pat_completeness auto
termination
  by (relation "measure (\<lambda>(crd, lib, p15card, obj, cmd, inp, path, revalidated, rest).
        if revalidated then 0 else 1)") auto

text \<open>
  The common body of \<^verbatim>\<open>sc_pkcs15_encrypt_sym\<close> and \<^verbatim>\<open>sc_pkcs15_decrypt_sym\<close>, which differ in
  the usage bit they require, the operation they set and the primitive they invoke. The
  statement \<^verbatim>\<open>LOG_TEST_RET(..., r, "sc_lock() failed")\<close> before the loop tests the result of
  \<^verbatim>\<open>sc_get_encoding_flags\<close>, which is not negative there: the handlers call neither \<^verbatim>\<open>sc_lock\<close>
  nor \<^verbatim>\<open>sc_unlock\<close>.
\<close>

definition sym_handler :: "sc_consts \<Rightarrow> 'w sc_card \<Rightarrow> sc_lib \<Rightarrow> sc_pkcs15_card
    \<Rightarrow> uint \<Rightarrow> sc_sec_operation \<Rightarrow> sym_command \<Rightarrow> sc_pkcs15_object \<Rightarrow> ulong \<Rightarrow> u8 list
    \<Rightarrow> u8 list option \<Rightarrow> nat option \<Rightarrow> u8 list option \<Rightarrow> nat \<Rightarrow> 'w st
    \<Rightarrow> int \<times> u8 list option \<times> nat option \<times> 'w st" where
  "sym_handler K crd lib p15card usage_bit operation cmd obj flags inp out outlen param paramlen s =
     (if usage (obj_data obj) AND usage_bit = 0 then (SC_ERROR_NOT_ALLOWED, out, outlen, s)
      else
        (case format_senv K lib p15card obj of
           Inl e \<Rightarrow> (e, out, outlen, s)
         | Inr (senv0, alg_info) \<Rightarrow>
             (case sym_senv K lib operation senv0 alg_info flags param paramlen of
                Inl e \<Rightarrow> (e, out, outlen, s)
              | Inr senv \<Rightarrow>
                  (case get_file_path obj of
                     Inl e \<Rightarrow> (e, out, outlen, s)
                   | Inr path \<Rightarrow>
                       sym_loop crd lib p15card obj cmd inp path False senv out outlen s))))"

definition sc_pkcs15_encrypt_sym :: "sc_consts \<Rightarrow> 'w sc_card \<Rightarrow> sc_lib \<Rightarrow> sc_pkcs15_card
    \<Rightarrow> sc_pkcs15_object \<Rightarrow> ulong \<Rightarrow> u8 list \<Rightarrow> u8 list option \<Rightarrow> nat option \<Rightarrow> u8 list option
    \<Rightarrow> nat \<Rightarrow> 'w st \<Rightarrow> int \<times> u8 list option \<times> nat option \<times> 'w st" where
  "sc_pkcs15_encrypt_sym K crd lib p15card obj flags inp out outlen param paramlen s =
     sym_handler K crd lib p15card SC_PKCS15_PRKEY_USAGE_ENCRYPT SC_SEC_OPERATION_ENCRYPT_SYM
       sc_encrypt_symmetric obj flags inp out outlen param paramlen s"

definition sc_pkcs15_decrypt_sym :: "sc_consts \<Rightarrow> 'w sc_card \<Rightarrow> sc_lib \<Rightarrow> sc_pkcs15_card
    \<Rightarrow> sc_pkcs15_object \<Rightarrow> ulong \<Rightarrow> u8 list \<Rightarrow> u8 list option \<Rightarrow> nat option \<Rightarrow> u8 list option
    \<Rightarrow> nat \<Rightarrow> 'w st \<Rightarrow> int \<times> u8 list option \<times> nat option \<times> 'w st" where
  "sc_pkcs15_decrypt_sym K crd lib p15card obj flags inp out outlen param paramlen s =
     sym_handler K crd lib p15card SC_PKCS15_PRKEY_USAGE_DECRYPT SC_SEC_OPERATION_DECRYPT_SYM
       sc_decrypt_symmetric obj flags inp out outlen param paramlen s"

section \<open>The module: locking, \<^verbatim>\<open>C_Initialize\<close>, \<^verbatim>\<open>C_Finalize\<close>, \<^verbatim>\<open>C_GetSlotList\<close>\<close>

text \<open>
  \<^verbatim>\<open>pkcs11/pkcs11-global.c\<close>, in the build for POSIX systems. The calls are modelled one
  thread at a time: the mutex \<^verbatim>\<open>c_initialize_m\<close>, which only serialises threads inside
  \<^verbatim>\<open>C_Initialize\<close>, is left out. \<^verbatim>\<open>CK_RV\<close> is an \<^verbatim>\<open>unsigned long\<close>; the values are those of the
  PKCS\#11 standard.
\<close>

type_synonym CK_RV = nat

definition CKR_OK :: CK_RV where
  "CKR_OK = 0"

definition CKR_HOST_MEMORY :: CK_RV where
  "CKR_HOST_MEMORY = 0x2"

definition CKR_GENERAL_ERROR :: CK_RV where
  "CKR_GENERAL_ERROR = 0x5"

definition CKR_ARGUMENTS_BAD :: CK_RV where
  "CKR_ARGUMENTS_BAD = 0x7"

definition CKR_BUFFER_TOO_SMALL :: CK_RV where
  "CKR_BUFFER_TOO_SMALL = 0x150"

definition CKR_CRYPTOKI_NOT_INITIALIZED :: CK_RV where
  "CKR_CRYPTOKI_NOT_INITIALIZED = 0x190"

definition CKR_CRYPTOKI_ALREADY_INITIALIZED :: CK_RV where
  "CKR_CRYPTOKI_ALREADY_INITIALIZED = 0x191"

definition CKF_OS_LOCKING_OK :: ulong where
  "CKF_OS_LOCKING_OK = 0x2"

definition CKF_TOKEN_PRESENT :: ulong where
  "CKF_TOKEN_PRESENT = 0x1"

text \<open>\<^verbatim>\<open>SC_PKCS11_SLOT_FLAG_SEEN\<close> of \<^verbatim>\<open>sc-pkcs11.h\<close>.\<close>

definition SC_PKCS11_SLOT_FLAG_SEEN :: uint where
  "SC_PKCS11_SLOT_FLAG_SEEN = 1"

text \<open>
  \<^verbatim>\<open>CK_C_INITIALIZE_ARGS\<close>. A function pointer is \<open>None\<close> when \<^verbatim>\<open>NULL\<close>. \<open>CreateMutex\<close> is called
  once, with a pointer to a variable that holds \<^verbatim>\<open>NULL\<close>: its model is the result of that call
  together with the value the variable has afterwards (0 for \<^verbatim>\<open>NULL\<close>). \<open>LockMutex\<close> and
  \<open>UnlockMutex\<close> are called in loops until they succeed: their model takes the mutex and the
  number of calls made before in the loop. \<open>pReserved\<close> is 0 for \<^verbatim>\<open>NULL_PTR\<close>.
\<close>

record CK_C_INITIALIZE_ARGS =
  CreateMutex :: "(CK_RV \<times> nat) option"
  DestroyMutex :: "(nat \<Rightarrow> CK_RV) option"
  LockMutex :: "(nat \<Rightarrow> nat \<Rightarrow> CK_RV) option"
  UnlockMutex :: "(nat \<Rightarrow> nat \<Rightarrow> CK_RV) option"
  init_flags :: ulong
  pReserved :: nat

text \<open>
  The pointer \<^verbatim>\<open>global_locking\<close>: \<^verbatim>\<open>NULL\<close>, \<^verbatim>\<open>&app_locking\<close> (the copy of the caller's
  arguments) or \<^verbatim>\<open>&_def_locks\<close> (the built-in primitives on top of the operating system's).
\<close>

datatype locking_ptr = NULL_LOCKING | APP_LOCKING | DEF_LOCKS

text \<open>
  \<^verbatim>\<open>sc_pkcs11_slot_t\<close>, as far as \<^verbatim>\<open>C_GetSlotList\<close> reads it: the slot's id, its reader (a
  pointer, 0 for \<^verbatim>\<open>NULL\<close>), its internal flags and the flags of its \<^verbatim>\<open>slot_info\<close>.
\<close>

record sc_pkcs11_slot =
  slot_id :: nat
  slot_reader :: nat
  slot_flags :: uint
  slot_info_flags :: ulong

text \<open>
  The file-scope variables of the module. \<open>ctx\<close> is \<^verbatim>\<open>context\<close> (\<open>None\<close> for \<^verbatim>\<open>NULL\<close>, otherwise
  the context's flags), \<open>ext\<close> is the state of everything outside the module that its
  external functions work on (readers, cards, the context's reader list).
\<close>

record 'e module_state =
  ctx :: "ulong option"
  global_lock :: nat
  global_locking :: locking_ptr
  app_locking :: CK_C_INITIALIZE_ARGS
  initialized_pid :: int
  in_finalize :: bool
  nesting :: int
  sessions :: "nat list"
  virtual_slots :: "sc_pkcs11_slot list"
  ext :: 'e

text \<open>
  What the module calls and what its build fixes, as parameters:
  \<^item> \<open>HAVE_OS_LOCKING\<close>: whether the build has the built-in primitives, and \<open>def_locks\<close>:
    these primitives (\<^verbatim>\<open>_def_locks\<close>);
  \<^item> \<open>SC_CTX_FLAG_TERMINATE\<close>: the context flag of that name;
  \<^item> \<open>sc_context_create\<close>: its result and the value of \<^verbatim>\<open>context\<close> after the call;
  \<^item> \<open>list_init_sessions\<close>, \<open>list_init_slots\<close>: the results of the two calls of \<^verbatim>\<open>list_init\<close>;
  \<^item> \<open>sc_ctx_detect_readers\<close>, \<open>card_detect_all\<close>: their effect on the outside state and on
    the slot collection;
  \<^item> \<open>calloc_found\<close>: whether the allocation of the array \<^verbatim>\<open>found\<close> succeeds.
\<close>

record 'e pkcs11_env =
  HAVE_OS_LOCKING :: bool
  def_locks :: CK_C_INITIALIZE_ARGS
  SC_CTX_FLAG_TERMINATE :: ulong
  sc_context_create :: "'e \<Rightarrow> (int \<times> ulong option) \<times> 'e"
  list_init_sessions :: int
  list_init_slots :: int
  sc_ctx_detect_readers :: "'e \<Rightarrow> 'e"
  card_detect_all :: "sc_pkcs11_slot list \<Rightarrow> 'e \<Rightarrow> sc_pkcs11_slot list \<times> 'e"
  calloc_found :: bool

definition default_mutex_funcs :: "'e pkcs11_env \<Rightarrow> locking_ptr" where
  "default_mutex_funcs env = (if HAVE_OS_LOCKING env then DEF_LOCKS else NULL_LOCKING)"

text \<open>What a non-\<^verbatim>\<open>NULL\<close> \<^verbatim>\<open>global_locking\<close> points to.\<close>

definition locking_funcs :: "'e pkcs11_env \<Rightarrow> 'e module_state \<Rightarrow> CK_C_INITIALIZE_ARGS" where
  "locking_funcs env st =
     (if global_locking st = APP_LOCKING then app_locking st else def_locks env)"

text \<open>
  \<^verbatim>\<open>while (f(lock) != CKR_OK) ;\<close> with \<open>i\<close> calls made before: the loop need not end, so its model
  is a partial function, \<open>None\<close> when it runs forever.
\<close>

partial_function (option) spin :: "(nat \<Rightarrow> CK_RV) \<Rightarrow> nat \<Rightarrow> unit option" where
  "spin f i = (if f i = CKR_OK then Some () else spin f (Suc i))"

text \<open>
  \<^verbatim>\<open>sc_pkcs11_init_lock\<close>, in three parts: the two local flags \<^verbatim>\<open>applock\<close> and \<^verbatim>\<open>oslock\<close>
  (lines 978 to 984), the choice of \<^verbatim>\<open>global_locking\<close> (lines 987 to 999), and the function
  itself. A call through a \<^verbatim>\<open>NULL\<close> function pointer does not return (\<open>None\<close>); the guards of
  the code exclude it for \<^verbatim>\<open>&app_locking\<close>.
\<close>

definition applock :: "CK_C_INITIALIZE_ARGS \<Rightarrow> bool" where
  "applock a = (CreateMutex a \<noteq> None \<and> DestroyMutex a \<noteq> None
                \<and> LockMutex a \<noteq> None \<and> UnlockMutex a \<noteq> None)"

definition oslock :: "CK_C_INITIALIZE_ARGS \<Rightarrow> bool" where
  "oslock a = (init_flags a AND CKF_OS_LOCKING_OK \<noteq> 0)"

definition select_locking :: "'e pkcs11_env \<Rightarrow> CK_C_INITIALIZE_ARGS \<Rightarrow> locking_ptr" where
  "select_locking env a =
     (if applock a \<and> oslock a then APP_LOCKING
      else if \<not> applock a \<and> oslock a then default_mutex_funcs env
      else if applock a \<and> \<not> oslock a then APP_LOCKING
      else if \<not> applock a \<and> \<not> oslock a then default_mutex_funcs env
      else NULL_LOCKING)"

definition sc_pkcs11_init_lock :: "'e pkcs11_env \<Rightarrow> CK_C_INITIALIZE_ARGS option
    \<Rightarrow> 'e module_state \<Rightarrow> (CK_RV \<times> 'e module_state) option" where
  "sc_pkcs11_init_lock env args st =
     (if global_lock st \<noteq> 0 then Some (CKR_OK, st)
      else
        (case args of
           None \<Rightarrow> Some (CKR_OK, st)
         | Some a \<Rightarrow>
             if pReserved a \<noteq> 0 then Some (CKR_ARGUMENTS_BAD, st)
             else
               (let st1 = st\<lparr>app_locking := a, global_locking := select_locking env a\<rparr>
                in if global_locking st1 \<noteq> NULL_LOCKING then
                     (case CreateMutex (locking_funcs env st1) of
                        None \<Rightarrow> None
                      | Some (rv, lock) \<Rightarrow> Some (rv, st1\<lparr>global_lock := lock\<rparr>))
                   else Some (CKR_OK, st1))))"

text \<open>\<^verbatim>\<open>sc_pkcs11_lock\<close>, \<^verbatim>\<open>__sc_pkcs11_unlock\<close>, \<^verbatim>\<open>sc_pkcs11_unlock\<close>, \<^verbatim>\<open>sc_pkcs11_free_lock\<close>.\<close>

definition sc_pkcs11_lock :: "'e pkcs11_env \<Rightarrow> 'e module_state \<Rightarrow> CK_RV option" where
  "sc_pkcs11_lock env st =
     (if ctx st = None then Some CKR_CRYPTOKI_NOT_INITIALIZED
      else if global_lock st = 0 then Some CKR_OK
      else if global_locking st \<noteq> NULL_LOCKING then
        (case LockMutex (locking_funcs env st) of
           None \<Rightarrow> None
         | Some f \<Rightarrow> map_option (\<lambda>u. CKR_OK) (spin (f (global_lock st)) 0))
      else Some CKR_OK)"

definition sc_pkcs11_unlock_ptr :: "'e pkcs11_env \<Rightarrow> 'e module_state \<Rightarrow> nat \<Rightarrow> unit option"
  where
  "sc_pkcs11_unlock_ptr env st lock =
     (if lock = 0 then Some ()
      else if global_locking st \<noteq> NULL_LOCKING then
        (case UnlockMutex (locking_funcs env st) of
           None \<Rightarrow> None
         | Some f \<Rightarrow> spin (f lock) 0)
      else Some ())"

definition sc_pkcs11_unlock :: "'e pkcs11_env \<Rightarrow> 'e module_state \<Rightarrow> unit option" where
  "sc_pkcs11_unlock env st = sc_pkcs11_unlock_ptr env st (global_lock st)"

definition sc_pkcs11_free_lock :: "'e pkcs11_env \<Rightarrow> 'e module_state \<Rightarrow> 'e module_state option"
  where
  "sc_pkcs11_free_lock env st =
     (if global_lock st = 0 then Some st
      else
        (case sc_pkcs11_unlock_ptr env (st\<lparr>global_lock := 0\<rparr>) (global_lock st) of
           None \<Rightarrow> None
         | Some u \<Rightarrow>
             if global_locking st \<noteq> NULL_LOCKING then
               (case DestroyMutex (locking_funcs env st) of
                  None \<Rightarrow> None
                | Some f \<Rightarrow> Some (st\<lparr>global_lock := 0, global_locking := NULL_LOCKING\<rparr>))
             else Some (st\<lparr>global_lock := 0, global_locking := NULL_LOCKING\<rparr>)))"

text \<open>
  \<^verbatim>\<open>C_Finalize\<close>. Cancelling pending calls and removing the cards only concern the outside
  state, which the model leaves as it is; \<open>pReserved\<close> is 0 for \<^verbatim>\<open>NULL_PTR\<close>.
\<close>

definition C_Finalize :: "'e pkcs11_env \<Rightarrow> nat \<Rightarrow> 'e module_state
    \<Rightarrow> (CK_RV \<times> 'e module_state) option" where
  "C_Finalize env pReserved_arg st =
     (if pReserved_arg \<noteq> 0 then Some (CKR_ARGUMENTS_BAD, st)
      else if ctx st = None then Some (CKR_CRYPTOKI_NOT_INITIALIZED, st)
      else
        (case sc_pkcs11_lock env st of
           None \<Rightarrow> None
         | Some rv \<Rightarrow>
             if rv \<noteq> CKR_OK then Some (rv, st)
             else
               map_option (\<lambda>st'. (rv, st'))
                 (sc_pkcs11_free_lock env
                    (st\<lparr>in_finalize := True, sessions := [], virtual_slots := [],
                        ctx := None\<rparr>))))"

text \<open>
  \<^verbatim>\<open>C_Initialize\<close>: first the check for a fork (lines 300 to 312), for the process id
  \<open>current_pid\<close> that \<^verbatim>\<open>getpid()\<close> returns.
\<close>

definition C_Initialize_fork :: "'e pkcs11_env \<Rightarrow> int \<Rightarrow> 'e module_state
    \<Rightarrow> 'e module_state option" where
  "C_Initialize_fork env current_pid st =
     map_option (\<lambda>st'. st'\<lparr>initialized_pid := current_pid, in_finalize := False\<rparr>)
       (if current_pid \<noteq> initialized_pid st then
          (case (case ctx st of
                   None \<Rightarrow> Some st
                 | Some fl \<Rightarrow>
                     (case sc_pkcs11_lock env st of
                        None \<Rightarrow> None
                      | Some rv \<Rightarrow>
                          if rv = CKR_OK then
                            map_option (\<lambda>u. st\<lparr>ctx := Some (fl OR SC_CTX_FLAG_TERMINATE env)\<rparr>)
                              (sc_pkcs11_unlock env st)
                          else Some st)) of
             None \<Rightarrow> None
           | Some st1 \<Rightarrow> map_option snd (C_Finalize env 0 st1))
        else Some st)"

text \<open>The code after the label \<^verbatim>\<open>out\<close> (lines 374 to 391).\<close>

definition C_Initialize_out :: "'e pkcs11_env \<Rightarrow> CK_RV \<Rightarrow> 'e module_state
    \<Rightarrow> (CK_RV \<times> 'e module_state) option" where
  "C_Initialize_out env rv st =
     (if rv \<noteq> CKR_OK then
        map_option (\<lambda>st'. (rv, st'\<lparr>nesting := nesting st' - 1\<rparr>))
          (sc_pkcs11_free_lock env (st\<lparr>ctx := None\<rparr>))
      else Some (rv, st\<lparr>nesting := nesting st - 1\<rparr>))"

text \<open>The set-up between the negotiation of the locking and the label \<^verbatim>\<open>out\<close> (lines 343 to 372).\<close>

definition C_Initialize_setup :: "'e pkcs11_env \<Rightarrow> 'e module_state \<Rightarrow> CK_RV \<times> 'e module_state"
  where
  "C_Initialize_setup env st =
     (case sc_context_create env (ext st) of
        ((rc, c), e) \<Rightarrow>
          if rc \<noteq> SC_SUCCESS then (CKR_GENERAL_ERROR, st\<lparr>ctx := c, ext := e\<rparr>)
          else if 0 \<noteq> list_init_sessions env
          then (CKR_HOST_MEMORY, st\<lparr>ctx := c, ext := e\<rparr>)
          else if 0 \<noteq> list_init_slots env
          then (CKR_HOST_MEMORY, st\<lparr>ctx := c, ext := e, sessions := []\<rparr>)
          else
            (case card_detect_all env [] e of
               (slots, e') \<Rightarrow>
                 (CKR_OK, st\<lparr>ctx := c, ext := e', sessions := [], virtual_slots := slots\<rparr>)))"

definition C_Initialize :: "'e pkcs11_env \<Rightarrow> int \<Rightarrow> CK_C_INITIALIZE_ARGS option
    \<Rightarrow> 'e module_state \<Rightarrow> (CK_RV \<times> 'e module_state) option" where
  "C_Initialize env current_pid pInitArgs st =
     (case C_Initialize_fork env current_pid st of
        None \<Rightarrow> None
      | Some st1 \<Rightarrow>
          if nesting st1 + 1 > 1 then Some (CKR_GENERAL_ERROR, st1)
          else if ctx st1 \<noteq> None then
            (case sc_pkcs11_lock env (st1\<lparr>nesting := nesting st1 + 1\<rparr>) of
               None \<Rightarrow> None
             | Some rv \<Rightarrow>
                 map_option (\<lambda>u. (CKR_CRYPTOKI_ALREADY_INITIALIZED, st1))
                   (if rv = CKR_OK then sc_pkcs11_unlock env (st1\<lparr>nesting := nesting st1 + 1\<rparr>)
                    else Some ()))
          else
            (case sc_pkcs11_init_lock env pInitArgs (st1\<lparr>nesting := nesting st1 + 1\<rparr>) of
               None \<Rightarrow> None
             | Some (rv, st2) \<Rightarrow>
                 if rv \<noteq> CKR_OK then C_Initialize_out env rv st2
                 else
                   (case C_Initialize_setup env st2 of
                      (rv', st3) \<Rightarrow> C_Initialize_out env rv' st3)))"

text \<open>
  The loop of \<^verbatim>\<open>C_GetSlotList\<close> over the slot collection (lines 540 to 557): the ids found, in
  order, and the collection with the slots found marked as seen. \<open>tokenPresent\<close> is a
  \<^verbatim>\<open>CK_BBOOL\<close>, true when not 0; \<open>seen\<close> and \<open>token_present\<close> are the two flag tests of the
  loop's condition.
\<close>

definition seen :: "sc_pkcs11_slot \<Rightarrow> bool" where
  "seen slot = (slot_flags slot AND SC_PKCS11_SLOT_FLAG_SEEN \<noteq> 0)"

definition token_present :: "sc_pkcs11_slot \<Rightarrow> bool" where
  "token_present slot = (slot_info_flags slot AND CKF_TOKEN_PRESENT \<noteq> 0)"

definition slot_matches :: "bool \<Rightarrow> nat \<Rightarrow> sc_pkcs11_slot \<Rightarrow> bool" where
  "slot_matches tokenPresent prev_reader slot =
     ((\<not> tokenPresent \<and> (slot_reader slot \<noteq> prev_reader \<or> seen slot))
      \<or> token_present slot)"

fun slot_list_loop :: "bool \<Rightarrow> nat \<Rightarrow> sc_pkcs11_slot list \<Rightarrow> nat list \<times> sc_pkcs11_slot list" where
  "slot_list_loop tokenPresent prev_reader [] = ([], [])"
| "slot_list_loop tokenPresent prev_reader (slot # slots) =
     (case slot_list_loop tokenPresent (slot_reader slot) slots of
        (found, slots') \<Rightarrow>
          if slot_matches tokenPresent prev_reader slot
          then (slot_id slot # found,
                slot\<lparr>slot_flags := slot_flags slot OR SC_PKCS11_SLOT_FLAG_SEEN\<rparr> # slots')
          else (found, slot # slots'))"

text \<open>
  \<^verbatim>\<open>C_GetSlotList\<close>. \<open>pSlotList\<close> is \<open>None\<close> for \<^verbatim>\<open>NULL_PTR\<close> and otherwise the contents of the
  caller's array, \<open>pulCount\<close> is \<open>None\<close> for \<^verbatim>\<open>NULL_PTR\<close> and otherwise \<^verbatim>\<open>*pulCount\<close>; the result
  carries both as the call leaves them (\<^verbatim>\<open>memcpy\<close> overwrites the first \<open>numMatches\<close> entries
  of the array).
\<close>

definition C_GetSlotList :: "'e pkcs11_env \<Rightarrow> bool \<Rightarrow> nat list option \<Rightarrow> nat option
    \<Rightarrow> 'e module_state \<Rightarrow> (CK_RV \<times> nat list option \<times> nat option \<times> 'e module_state) option"
  where
  "C_GetSlotList env tokenPresent pSlotList pulCount st =
     (case pulCount of
        None \<Rightarrow> Some (CKR_ARGUMENTS_BAD, pSlotList, pulCount, st)
      | Some count \<Rightarrow>
          (case sc_pkcs11_lock env st of
             None \<Rightarrow> None
           | Some rv \<Rightarrow>
               if rv \<noteq> CKR_OK then Some (rv, pSlotList, pulCount, st)
               else
                 (case card_detect_all env (virtual_slots st)
                         (if pSlotList = None then sc_ctx_detect_readers env (ext st)
                          else ext st) of
                    (slots, e) \<Rightarrow>
                      (case (if slots = []
                             then (CKR_OK, pSlotList, Some 0, st\<lparr>virtual_slots := slots, ext := e\<rparr>)
                             else if \<not> calloc_found env
                             then (CKR_HOST_MEMORY, pSlotList, pulCount,
                                   st\<lparr>virtual_slots := slots, ext := e\<rparr>)
                             else
                               (case slot_list_loop tokenPresent 0 slots of
                                  (found, slots') \<Rightarrow>
                                    (case pSlotList of
                                       None \<Rightarrow>
                                         (CKR_OK, None, Some (length found),
                                          st\<lparr>virtual_slots := slots', ext := e\<rparr>)
                                     | Some buf \<Rightarrow>
                                         if count < length found
                                         then (CKR_BUFFER_TOO_SMALL, pSlotList,
                                               Some (length found),
                                               st\<lparr>virtual_slots := slots', ext := e\<rparr>)
                                         else (CKR_OK,
                                               Some (found @ drop (length found) buf),
                                               Some (length found),
                                               st\<lparr>virtual_slots := slots', ext := e\<rparr>)))) of
                         (rv', list', count', st') \<Rightarrow>
                           map_option (\<lambda>u. (rv', list', count', st'))
                             (sc_pkcs11_unlock env st')))))"

section \<open>A scripted device\<close>

text \<open>
  A device for running the handlers on concrete inputs. Its state is the number of cached-PIN
  revalidations made so far; \<open>sel\<close>, \<open>env\<close> and \<open>cmd\<close> give the results of file selection,
  of the environment push and of the primitive as functions of that number, \<open>reval\<close> the result
  of the revalidation. A primitive writes \<open>wr\<close> to the start of a non-\<^verbatim>\<open>NULL\<close> output buffer, as far as
  the buffer reaches.
  Locking always succeeds.
\<close>

definition write_out :: "u8 list \<Rightarrow> u8 list option \<Rightarrow> u8 list option" where
  "write_out wr out = map_option (\<lambda>b. take (length b) wr @ drop (length wr) b) out"

definition stub_card :: "(nat \<Rightarrow> int) \<Rightarrow> (nat \<Rightarrow> int) \<Rightarrow> (nat \<Rightarrow> int) \<Rightarrow> u8 list
    \<Rightarrow> (nat \<Rightarrow> int) \<Rightarrow> nat sc_card" where
  "stub_card sel env cmd wr reval =
     \<lparr>sc_lock = (\<lambda>w. (0, w)),
      sc_unlock = (\<lambda>w. (0, w)),
      sc_select_file = (\<lambda>p w. (sel w, w)),
      sc_set_security_env = (\<lambda>e w. (env w, w)),
      sc_card_command = (\<lambda>c inp out outlen w. ((cmd w, write_out wr out), w)),
      sc_encrypt_sym = (\<lambda>inp out outlen w. ((cmd w, write_out wr out, length wr), w)),
      sc_decrypt_sym = (\<lambda>inp out outlen w. ((cmd w, write_out wr out, length wr), w)),
      sc_pkcs15_pincache_revalidate = (\<lambda>obj w. (reval w, Suc w))\<rparr>"

definition stub_alg :: "ulong \<Rightarrow> nat \<Rightarrow> sc_algorithm_info option" where
  "stub_alg caps n = Some \<lparr>alg_key_length = n, alg_flags = caps\<rparr>"

text \<open>
  A library for the examples: every key size is supported with the capabilities \<open>caps\<close>,
  the flag negotiation leaves everything to the card (no software padding), the encoder
  fills its input up to the length of the modulus with bytes FF on the left, and the
  stripping helpers copy their input.
\<close>

definition stub_lib :: "ulong \<Rightarrow> sc_lib" where
  "stub_lib caps =
     \<lparr>ENABLE_OPENSSL = False,
      sc_append_path = (\<lambda>d p. \<lparr>path_value = path_value d @ path_value p,
                                  path_type = SC_PATH_TYPE_PATH, path_aid = []\<rparr>),
      sc_card_find_rsa_alg = stub_alg caps,
      sc_card_find_gostr3410_alg = stub_alg caps,
      sc_card_find_eddsa_alg = stub_alg caps,
      sc_card_find_xeddsa_alg = stub_alg caps,
      sc_card_find_ec_alg = stub_alg caps,
      sc_card_find_alg = (\<lambda>a. stub_alg caps),
      sc_get_encoding_flags = (\<lambda>iflags c. (0, 0, iflags)),
      sc_pkcs1_strip_02_padding_constant_time = (\<lambda>n out len. (int len, out)),
      sc_pkcs1_strip_oaep_padding = (\<lambda>out len flags param paramlen. (int len, out)),
      sc_pkcs1_encode = (\<lambda>flags inp cap mod_bits mech.
        (0, replicate (BYTES4BITS mod_bits - length inp) 0xFF @ inp)),
      sc_pkcs1_strip_digest_info_prefix = (\<lambda>inp cap. (0, 0, inp)),
      sc_mem_secure_alloc = (\<lambda>n. Some (replicate n 0)),
      sc_mem_reverse = (\<lambda>buf n. (0, rev (take n buf) @ drop n buf))\<rparr>"

text \<open>Values for the constants of \<^verbatim>\<open>opensc.h\<close>, for the examples.\<close>

definition stub_consts :: sc_consts where
  "stub_consts =
     \<lparr>SC_ALGORITHM_NEED_USAGE = 0x40000000,
      SC_ALGORITHM_RSA_RAW = 0x00000001,
      SC_ALGORITHM_RSA_PADS = 0x000000FF,
      SC_ALGORITHM_RSA_PAD_NONE = 0x00000001,
      SC_ALGORITHM_RSA_PAD_PKCS1_TYPE_01 = 0x00000002,
      SC_ALGORITHM_RSA_PAD_PKCS1_TYPE_02 = 0x00000040,
      SC_ALGORITHM_RSA_PAD_OAEP = 0x00000020,
      SC_ALGORITHM_RSA_HASH_NONE = 0x00000100,
      SC_ALGORITHM_ECDSA_RAW = 0x00100000,
      SC_ALGORITHM_ECDSA_HASHES = 0x0001E200,
      SC_ALGORITHM_AES_ECB = 0x01000000,
      SC_ALGORITHM_AES_CBC = 0x02000000,
      SC_ALGORITHM_AES_CBC_PAD = 0x04000000,
      SC_SEC_ENV_MAX_PARAMS = 10,
      sizeof_sc_path_t = 64,
      sizeof_CK_RSA_PKCS_OAEP_PARAMS = 40\<rparr>"

definition stub_p15card :: sc_pkcs15_card where
  "stub_p15card = \<lparr>file_app = None, tokeninfo_supported_algos = []\<rparr>"

text \<open>A native RSA private key of 2048 bits in the file 3F00 5015 4B01, usable for everything.\<close>

definition stub_path :: sc_path where
  "stub_path = \<lparr>path_value = [0x3F, 0x00, 0x50, 0x15, 0x4B, 0x01],
                 path_type = SC_PATH_TYPE_PATH, path_aid = []\<rparr>"

definition stub_rsa_key :: sc_pkcs15_object where
  "stub_rsa_key =
     \<lparr>obj_type = SC_PKCS15_TYPE_PRKEY_RSA,
      obj_data = \<lparr>usage = 0x3FF, native = True, key_reference = 1, modulus_length = 2048,
                  field_length = 0, value_len = 0, key_type = 0, key_path = stub_path\<rparr>\<rparr>"

text \<open>
  Further keys in the same file: of the type \<open>ty\<close>, with the usage bits \<open>us\<close>, the native
  flag \<open>nat_flag\<close> and the size \<open>bits\<close> (modulus, field or value length).
\<close>

definition stub_key :: "sc_pkcs15_type \<Rightarrow> uint \<Rightarrow> bool \<Rightarrow> nat \<Rightarrow> sc_pkcs15_object" where
  "stub_key ty us nat_flag bits =
     \<lparr>obj_type = ty,
      obj_data = \<lparr>usage = us, native = nat_flag, key_reference = 1, modulus_length = bits,
                  field_length = bits, value_len = bits, key_type = CKK_AES,
                  key_path = stub_path\<rparr>\<rparr>"

definition init_st :: "nat st" where
  "init_st = \<lparr>dev = 0, calls = []\<rparr>"

text \<open>
  The device answers of the examples below: the primitive reports "security status not
  satisfied" before the first revalidation and 3 bytes after it.
\<close>

definition ssns_then_ok :: "nat \<Rightarrow> int" where
  "ssns_then_ok w = (if w = 0 then SC_ERROR_SECURITY_STATUS_NOT_SATISFIED else 3)"

definition ok_then_fail :: "nat \<Rightarrow> int" where
  "ok_then_fail w = (if w = 0 then 0 else - 1201)"

definition always :: "int \<Rightarrow> nat \<Rightarrow> int" where
  "always r w = r"

text \<open>
  The environment after the file of \<open>stub_rsa_key\<close> has been selected: the file reference is
  the last two bytes of the key's path.
\<close>

definition stub_senv_selected :: "sc_security_env \<Rightarrow> sc_security_env" where
  "stub_senv_selected senv =
     senv\<lparr>senv_file_ref := \<lparr>path_value = [0x4B, 0x01], path_type = SC_PATH_TYPE_FILE_ID,
                              path_aid = []\<rparr>,
          senv_flags := senv_flags senv OR SC_SEC_ENV_FILE_REF_PRESENT\<rparr>"

text \<open>
  Mutex primitives for the examples: creation returns \<open>rv\<close> and the handle \<open>h\<close>, locking
  and unlocking succeed at once.
\<close>

definition stub_mutex_funcs :: "CK_RV \<Rightarrow> nat \<Rightarrow> ulong \<Rightarrow> CK_C_INITIALIZE_ARGS" where
  "stub_mutex_funcs rv h fl =
     \<lparr>CreateMutex = Some (rv, h), DestroyMutex = Some (\<lambda>m. CKR_OK),
      LockMutex = Some (\<lambda>m i. CKR_OK), UnlockMutex = Some (\<lambda>m i. CKR_OK),
      init_flags = fl, pReserved = 0\<rparr>"

definition no_mutex_funcs :: "ulong \<Rightarrow> CK_C_INITIALIZE_ARGS" where
  "no_mutex_funcs fl =
     \<lparr>CreateMutex = None, DestroyMutex = None, LockMutex = None, UnlockMutex = None,
      init_flags = fl, pReserved = 0\<rparr>"

text \<open>
  An environment for the examples: a build with the built-in primitives, whose mutex
  creation returns \<open>rv\<close>; the context is created, and card detection leaves the slot
  collection as it finds it, except that it sets up the slots \<open>slots0\<close> when there are none.
\<close>

definition stub_env :: "CK_RV \<Rightarrow> sc_pkcs11_slot list \<Rightarrow> unit pkcs11_env" where
  "stub_env rv slots0 =
     \<lparr>HAVE_OS_LOCKING = True,
      def_locks = stub_mutex_funcs rv (if rv = CKR_OK then 77 else 0) 0,
      SC_CTX_FLAG_TERMINATE = 0x1,
      sc_context_create = (\<lambda>e. ((0, Some 0), e)),
      list_init_sessions = 0,
      list_init_slots = 0,
      sc_ctx_detect_readers = (\<lambda>e. e),
      card_detect_all = (\<lambda>slots e. (if slots = [] then slots0 else slots, e)),
      calloc_found = True\<rparr>"

definition fresh_module :: "unit module_state" where
  "fresh_module =
     \<lparr>ctx = None, global_lock = 0, global_locking = NULL_LOCKING,
      app_locking = no_mutex_funcs 0, initialized_pid = - 1, in_finalize = False,
      nesting = 0, sessions = [], virtual_slots = [], ext = ()\<rparr>"

text \<open>
  Slots for the examples: two slots on the reader 1, the second with a token, then two on
  the reader 2, without tokens.
\<close>

definition stub_slot :: "nat \<Rightarrow> nat \<Rightarrow> uint \<Rightarrow> ulong \<Rightarrow> sc_pkcs11_slot" where
  "stub_slot i rd fl info = \<lparr>slot_id = i, slot_reader = rd, slot_flags = fl, slot_info_flags = info\<rparr>"

definition stub_slots :: "sc_pkcs11_slot list" where
  "stub_slots = [stub_slot 0 1 0 0, stub_slot 1 1 0 1, stub_slot 2 2 0 0, stub_slot 3 2 0 0]"

text \<open>
  An initialised module without locking that holds the slots \<open>slots\<close>, and an environment
  whose card detection finds every token removed.
\<close>

definition stub_module :: "sc_pkcs11_slot list \<Rightarrow> unit module_state" where
  "stub_module slots =
     \<lparr>ctx = Some 0, global_lock = 0, global_locking = NULL_LOCKING,
      app_locking = no_mutex_funcs 0, initialized_pid = 100, in_finalize = False,
      nesting = 0, sessions = [], virtual_slots = slots, ext = ()\<rparr>"

definition stub_env_removed :: "unit pkcs11_env" where
  "stub_env_removed =
     (stub_env CKR_OK [])
       \<lparr>card_detect_all := (\<lambda>slots e. (map (\<lambda>slot. slot\<lparr>slot_info_flags := 0\<rparr>) slots, e))\<rparr>"

text \<open>
  An environment whose card detection sets up every slot of the collection anew, as for a
  reader that has been taken away and attached again: the slot keeps its id and its reader
  and loses its token and its flags.
\<close>

definition stub_env_reset :: "unit pkcs11_env" where
  "stub_env_reset =
     (stub_env CKR_OK [])
       \<lparr>card_detect_all :=
          (\<lambda>slots e. (map (\<lambda>slot. slot\<lparr>slot_flags := 0, slot_info_flags := 0\<rparr>) slots, e))\<rparr>"

section \<open>Properties of the dispatcher\<close>

declare use_key_loop.simps [simp del]

lemma use_key_loop_retried:
  "use_key_loop crd lib p15card obj cmd inp outlen path True r senv out s =
     use_key_attempt crd lib p15card obj cmd inp outlen path r senv out s"
  by (subst use_key_loop.simps) (simp split: prod.splits)

lemma use_key_loop_first:
  "use_key_loop crd lib p15card obj cmd inp outlen path False r senv out s =
     (case use_key_attempt crd lib p15card obj cmd inp outlen path r senv out s of
        (r3, senv3, out3, s3) \<Rightarrow>
          if r3 = SC_ERROR_SECURITY_STATUS_NOT_SATISFIED then
            (case do_revalidate crd obj s3 of
               (r4, s4) \<Rightarrow>
                 if r4 < 0 then (r4, senv3, out3, s4)
                 else use_key_attempt crd lib p15card obj cmd inp outlen path r4 senv3 out3 s4)
          else (r3, senv3, out3, s3))"
  by (subst use_key_loop.simps) (simp add: use_key_loop_retried split: prod.splits)

lemma n_commands_simps [simp]:
  "n_commands [] = 0"
  "n_commands (evs @ evs') = n_commands evs + n_commands evs'"
  "n_commands (e # evs) = (if is_command e then 1 else 0) + n_commands evs"
  by (simp_all add: n_commands_def)

lemma do_lock_calls: "do_lock crd s = (r, s') \<Longrightarrow> calls s' = calls s @ [Lock r]"
  by (auto simp: do_lock_def split: prod.splits)

lemma do_unlock_calls: "calls (do_unlock crd s) = calls s @ [Unlock]"
  by (simp add: do_unlock_def split: prod.splits)

lemma do_select_file_calls:
  "do_select_file crd p s = (r, s') \<Longrightarrow> calls s' = calls s @ [Select_file p r]"
  by (auto simp: do_select_file_def split: prod.splits)

lemma do_set_security_env_calls:
  "do_set_security_env crd senv s = (r, s') \<Longrightarrow> calls s' = calls s @ [Set_security_env senv r]"
  by (auto simp: do_set_security_env_def split: prod.splits)

lemma do_command_calls:
  "do_command crd cmd inp out outlen s = (r, out', s')
    \<Longrightarrow> calls s' = calls s @ [Command cmd inp outlen r]"
  by (auto simp: do_command_def split: prod.splits)

lemma do_revalidate_calls:
  "do_revalidate crd obj s = (r, s') \<Longrightarrow> calls s' = calls s @ [Revalidate r]"
  by (auto simp: do_revalidate_def split: prod.splits)

lemma select_key_file_n_commands:
  "select_key_file crd lib p15card key senv s = (r, senv', s')
    \<Longrightarrow> n_commands (calls s') = n_commands (calls s)"
  by (auto simp: select_key_file_def Let_def dest!: do_select_file_calls
        split: sum.splits prod.splits if_splits)

lemma use_key_prepare_n_commands:
  "use_key_prepare crd lib p15card obj path r senv s = (r', senv', s')
    \<Longrightarrow> n_commands (calls s') = n_commands (calls s)"
  by (auto simp: use_key_prepare_def
        dest!: select_key_file_n_commands do_set_security_env_calls
        split: prod.splits if_splits)

text \<open>
  C10. When the primitive fails with "security status not satisfied" in the first pass and
  the cached-PIN revalidation then fails with the error \<open>e\<close>, \<^verbatim>\<open>use_key\<close> returns \<open>e\<close>, not
  the primitive's error, and the device sees nothing after the revalidation but the unlock:
  the select, push and invoke sequence is not run again.
\<close>

theorem use_key_revalidation_failure:
  assumes "get_file_path obj = Inr path"
    and "do_lock crd s = (r0, s0)" and "0 \<le> r0"
    and "use_key_prepare crd lib p15card obj path r0 senv s0 = (SC_SUCCESS, senv1, s1)"
    and "do_command crd cmd inp out outlen s1
           = (SC_ERROR_SECURITY_STATUS_NOT_SATISFIED, out1, s2)"
    and "do_revalidate crd obj s2 = (e, s3)" and "e < 0"
  shows "use_key crd lib p15card obj senv cmd inp out outlen s
           = (e, senv1, out1, do_unlock crd s3)
         \<and> calls (do_unlock crd s3)
           = calls s1 @ [Command cmd inp outlen SC_ERROR_SECURITY_STATUS_NOT_SATISFIED,
                         Revalidate e, Unlock]
         \<and> n_commands (calls (do_unlock crd s3)) = n_commands (calls s) + 1"
proof -
  have attempt: "use_key_attempt crd lib p15card obj cmd inp outlen path r0 senv out s0
      = (SC_ERROR_SECURITY_STATUS_NOT_SATISFIED, senv1, out1, s2)"
    using assms(4,5) by (simp add: use_key_attempt_def)
  have loop: "use_key_loop crd lib p15card obj cmd inp outlen path False r0 senv out s0
      = (e, senv1, out1, s3)"
    using attempt assms(6,7) by (simp add: use_key_loop_first)
  have res: "use_key crd lib p15card obj senv cmd inp out outlen s
      = (e, senv1, out1, do_unlock crd s3)"
    using assms(1,2,3) loop by (simp add: use_key_def)
  have c2: "calls s2 = calls s1 @ [Command cmd inp outlen SC_ERROR_SECURITY_STATUS_NOT_SATISFIED]"
    using assms(5) by (rule do_command_calls)
  have c3: "calls s3 = calls s2 @ [Revalidate e]"
    using assms(6) by (rule do_revalidate_calls)
  have tr: "calls (do_unlock crd s3)
      = calls s1 @ [Command cmd inp outlen SC_ERROR_SECURITY_STATUS_NOT_SATISFIED,
                    Revalidate e, Unlock]"
    by (simp add: do_unlock_calls c2 c3)
  have c0: "calls s0 = calls s @ [Lock r0]"
    using assms(2) by (rule do_lock_calls)
  have n1: "n_commands (calls s1) = n_commands (calls s0)"
    using assms(4) by (rule use_key_prepare_n_commands)
  have cnt: "n_commands (calls (do_unlock crd s3)) = n_commands (calls s) + 1"
    by (simp add: tr n1 c0)
  show ?thesis using res tr cnt by simp
qed

lemma stub_prepare:
  "use_key_prepare (stub_card sel env cmd wr reval) (stub_lib 0) stub_p15card stub_rsa_key stub_path
       r senv \<lparr>dev = w, calls = evs\<rparr>
     = (if sel w < 0 then (sel w, stub_senv_selected senv,
                           \<lparr>dev = w, calls = evs @ [Select_file stub_path (sel w)]\<rparr>)
        else (env w, stub_senv_selected senv,
              \<lparr>dev = w, calls = evs @ [Select_file stub_path (sel w),
                       Set_security_env (stub_senv_selected senv) (env w)]\<rparr>))"
  by (simp add: use_key_prepare_def select_key_file_def get_file_path_def stub_rsa_key_def
      stub_path_def stub_card_def do_select_file_def do_set_security_env_def
      stub_senv_selected_def SC_SUCCESS_def stub_p15card_def)

lemma stub_command:
  "do_command (stub_card sel env cmd wr reval) c inp out outlen \<lparr>dev = w, calls = evs\<rparr>
     = (cmd w, write_out wr out, \<lparr>dev = w, calls = evs @ [Command c inp outlen (cmd w)]\<rparr>)"
  by (simp add: do_command_def stub_card_def)

lemma stub_revalidate:
  "do_revalidate (stub_card sel env cmd wr reval) obj \<lparr>dev = w, calls = evs\<rparr>
     = (reval w, \<lparr>dev = Suc w, calls = evs @ [Revalidate (reval w)]\<rparr>)"
  by (simp add: do_revalidate_def stub_card_def)

lemma stub_lock:
  "do_lock (stub_card sel env cmd wr reval) \<lparr>dev = w, calls = evs\<rparr>
     = (0, \<lparr>dev = w, calls = evs @ [Lock 0]\<rparr>)"
  by (simp add: do_lock_def stub_card_def)

lemma stub_unlock:
  "do_unlock (stub_card sel env cmd wr reval) \<lparr>dev = w, calls = evs\<rparr>
     = \<lparr>dev = w, calls = evs @ [Unlock]\<rparr>"
  by (simp add: do_unlock_def stub_card_def)

lemma stub_key_path: "get_file_path stub_rsa_key = Inr stub_path"
  by (simp add: get_file_path_def stub_rsa_key_def)

theorem use_key_revalidation_failure_witness:
  "use_key (stub_card (always 0) (always 0) (always SC_ERROR_SECURITY_STATUS_NOT_SATISFIED) []
        (always (- 1200)))
      (stub_lib 0) stub_p15card stub_rsa_key (zero_senv stub_consts) sc_decipher [7] (Some [0, 0]) 2 init_st
    = (- 1200, stub_senv_selected (zero_senv stub_consts), Some [0, 0],
       \<lparr>dev = 1,
        calls = [Lock 0, Select_file stub_path 0,
                 Set_security_env (stub_senv_selected (zero_senv stub_consts)) 0,
                 Command sc_decipher [7] 2 SC_ERROR_SECURITY_STATUS_NOT_SATISFIED,
                 Revalidate (- 1200), Unlock]\<rparr>)"
proof -
  let ?C = "stub_card (always 0) (always 0) (always SC_ERROR_SECURITY_STATUS_NOT_SATISFIED) []
        (always (- 1200))"
  let ?senv1 = "stub_senv_selected (zero_senv stub_consts)"
  let ?s0 = "\<lparr>dev = 0::nat, calls = [Lock 0]\<rparr>"
  let ?s1 = "\<lparr>dev = 0::nat, calls = [Lock 0, Select_file stub_path 0,
                 Set_security_env ?senv1 0]\<rparr>"
  let ?s2 = "\<lparr>dev = 0::nat, calls = [Lock 0, Select_file stub_path 0,
                 Set_security_env ?senv1 0,
                 Command sc_decipher [7] 2 SC_ERROR_SECURITY_STATUS_NOT_SATISFIED]\<rparr>"
  let ?s3 = "\<lparr>dev = 1::nat, calls = [Lock 0, Select_file stub_path 0,
                 Set_security_env ?senv1 0,
                 Command sc_decipher [7] 2 SC_ERROR_SECURITY_STATUS_NOT_SATISFIED,
                 Revalidate (- 1200)]\<rparr>"
  have h2: "do_lock ?C init_st = (0, ?s0)"
    by (simp add: stub_lock init_st_def)
  have h3: "(0::int) \<le> 0" by simp
  have h4: "use_key_prepare ?C (stub_lib 0) stub_p15card stub_rsa_key stub_path 0 (zero_senv stub_consts) ?s0
      = (SC_SUCCESS, ?senv1, ?s1)"
    by (simp add: stub_prepare always_def SC_SUCCESS_def)
  have h5: "do_command ?C sc_decipher [7] (Some [0, 0]) 2 ?s1
      = (SC_ERROR_SECURITY_STATUS_NOT_SATISFIED, Some [0, 0], ?s2)"
    by (simp add: stub_command always_def write_out_def)
  have h6: "do_revalidate ?C stub_rsa_key ?s2 = (- 1200, ?s3)"
    by (simp add: stub_revalidate always_def)
  have h7: "(- 1200 :: int) < 0" by simp
  show ?thesis
    using use_key_revalidation_failure [OF stub_key_path h2 h3 h4 h5 h6 h7]
    by (simp add: stub_unlock)
qed

text \<open>
  C1, as the code has it. When the primitive fails with "security status not satisfied" in
  the first pass and the cached-PIN revalidation succeeds, the body of the loop runs once more
  and never a third time. The second pass invokes the primitive only if its own file
  selection and environment push succeed: then the primitive has been invoked exactly twice
  and its second result, also a second "security status not satisfied", is returned
  unchanged, followed by nothing but the unlock. Otherwise the primitive has been invoked
  once and the error of the failing step is returned.
\<close>

theorem use_key_retry_once:
  assumes "get_file_path obj = Inr path"
    and "do_lock crd s = (r0, s0)" and "0 \<le> r0"
    and "use_key_prepare crd lib p15card obj path r0 senv s0 = (SC_SUCCESS, senv1, s1)"
    and "do_command crd cmd inp out outlen s1
           = (SC_ERROR_SECURITY_STATUS_NOT_SATISFIED, out1, s2)"
    and "do_revalidate crd obj s2 = (r4, s3)" and "0 \<le> r4"
    and "use_key_prepare crd lib p15card obj path r4 senv1 s3 = (r5, senv2, s4)"
    and "do_command crd cmd inp out1 outlen s4 = (r6, out2, s5)"
  shows "use_key crd lib p15card obj senv cmd inp out outlen s
           = (if r5 = SC_SUCCESS then (r6, senv2, out2, do_unlock crd s5)
              else (r5, senv2, out1, do_unlock crd s4))
         \<and> n_commands (calls (snd (snd (snd (use_key crd lib p15card obj senv cmd inp out outlen s)))))
           = n_commands (calls s) + (if r5 = SC_SUCCESS then 2 else 1)
         \<and> calls (do_unlock crd s5) = calls s4 @ [Command cmd inp outlen r6, Unlock]"
proof -
  have first: "use_key_attempt crd lib p15card obj cmd inp outlen path r0 senv out s0
      = (SC_ERROR_SECURITY_STATUS_NOT_SATISFIED, senv1, out1, s2)"
    using assms(4,5) by (simp add: use_key_attempt_def)
  have second: "use_key_attempt crd lib p15card obj cmd inp outlen path r4 senv1 out1 s3
      = (if r5 = SC_SUCCESS then (r6, senv2, out2, s5) else (r5, senv2, out1, s4))"
    using assms(8,9) by (simp add: use_key_attempt_def)
  have loop: "use_key_loop crd lib p15card obj cmd inp outlen path False r0 senv out s0
      = (if r5 = SC_SUCCESS then (r6, senv2, out2, s5) else (r5, senv2, out1, s4))"
    using first second assms(6,7) by (simp add: use_key_loop_first)
  have res: "use_key crd lib p15card obj senv cmd inp out outlen s
      = (if r5 = SC_SUCCESS then (r6, senv2, out2, do_unlock crd s5)
         else (r5, senv2, out1, do_unlock crd s4))"
    using assms(1,2,3) loop by (simp add: use_key_def)
  have c0: "calls s0 = calls s @ [Lock r0]"
    using assms(2) by (rule do_lock_calls)
  have n1: "n_commands (calls s1) = n_commands (calls s0)"
    using assms(4) by (rule use_key_prepare_n_commands)
  have c2: "calls s2 = calls s1 @ [Command cmd inp outlen SC_ERROR_SECURITY_STATUS_NOT_SATISFIED]"
    using assms(5) by (rule do_command_calls)
  have c3: "calls s3 = calls s2 @ [Revalidate r4]"
    using assms(6) by (rule do_revalidate_calls)
  have n4: "n_commands (calls s4) = n_commands (calls s3)"
    using assms(8) by (rule use_key_prepare_n_commands)
  have c5: "calls s5 = calls s4 @ [Command cmd inp outlen r6]"
    using assms(9) by (rule do_command_calls)
  have n_s4: "n_commands (calls s4) = n_commands (calls s) + 1"
    by (simp add: n4 c3 c2 n1 c0)
  have cnt: "n_commands (calls (snd (snd (snd (use_key crd lib p15card obj senv cmd inp out outlen s)))))
      = n_commands (calls s) + (if r5 = SC_SUCCESS then 2 else 1)"
    by (simp add: res do_unlock_calls c5 n_s4)
  have tr: "calls (do_unlock crd s5) = calls s4 @ [Command cmd inp outlen r6, Unlock]"
    by (simp add: do_unlock_calls c5)
  show ?thesis using res cnt tr by simp
qed

theorem use_key_retry_once_witness:
  "use_key (stub_card (always 0) (always 0) ssns_then_ok [1, 2, 3] (always 0))
      (stub_lib 0) stub_p15card stub_rsa_key (zero_senv stub_consts) sc_decipher [7] (Some [0, 0, 0, 0]) 4 init_st
    = (3, stub_senv_selected (stub_senv_selected (zero_senv stub_consts)), Some [1, 2, 3, 0],
       \<lparr>dev = 1,
        calls = [Lock 0, Select_file stub_path 0,
                 Set_security_env (stub_senv_selected (zero_senv stub_consts)) 0,
                 Command sc_decipher [7] 4 SC_ERROR_SECURITY_STATUS_NOT_SATISFIED,
                 Revalidate 0, Select_file stub_path 0,
                 Set_security_env (stub_senv_selected (stub_senv_selected (zero_senv stub_consts))) 0,
                 Command sc_decipher [7] 4 3, Unlock]\<rparr>)
   \<and> n_commands (calls (snd (snd (snd
        (use_key (stub_card (always 0) (always 0) ssns_then_ok [1, 2, 3] (always 0))
           (stub_lib 0) stub_p15card stub_rsa_key (zero_senv stub_consts) sc_decipher [7] (Some [0, 0, 0, 0]) 4
           init_st))))) = 2"
proof -
  let ?C = "stub_card (always 0) (always 0) ssns_then_ok [1, 2, 3] (always 0)"
  let ?senv1 = "stub_senv_selected (zero_senv stub_consts)"
  let ?senv2 = "stub_senv_selected ?senv1"
  let ?e1 = "[Lock 0, Select_file stub_path 0, Set_security_env ?senv1 0]"
  let ?e2 = "?e1 @ [Command sc_decipher [7] 4 SC_ERROR_SECURITY_STATUS_NOT_SATISFIED]"
  let ?e3 = "?e2 @ [Revalidate 0]"
  let ?e4 = "?e3 @ [Select_file stub_path 0, Set_security_env ?senv2 0]"
  let ?e5 = "?e4 @ [Command sc_decipher [7] 4 3]"
  have h2: "do_lock ?C init_st = (0, \<lparr>dev = 0, calls = [Lock 0]\<rparr>)"
    by (simp add: stub_lock init_st_def)
  have h3: "(0::int) \<le> 0" by simp
  have h4: "use_key_prepare ?C (stub_lib 0) stub_p15card stub_rsa_key stub_path 0 (zero_senv stub_consts)
      \<lparr>dev = 0, calls = [Lock 0]\<rparr> = (SC_SUCCESS, ?senv1, \<lparr>dev = 0, calls = ?e1\<rparr>)"
    by (simp add: stub_prepare always_def SC_SUCCESS_def)
  have h5: "do_command ?C sc_decipher [7] (Some [0, 0, 0, 0]) 4 \<lparr>dev = 0, calls = ?e1\<rparr>
      = (SC_ERROR_SECURITY_STATUS_NOT_SATISFIED, Some [1, 2, 3, 0], \<lparr>dev = 0, calls = ?e2\<rparr>)"
    by (simp add: stub_command ssns_then_ok_def write_out_def)
  have h6: "do_revalidate ?C stub_rsa_key \<lparr>dev = 0, calls = ?e2\<rparr>
      = (0, \<lparr>dev = 1, calls = ?e3\<rparr>)"
    by (simp add: stub_revalidate always_def)
  have h8: "use_key_prepare ?C (stub_lib 0) stub_p15card stub_rsa_key stub_path 0 ?senv1
      \<lparr>dev = 1, calls = ?e3\<rparr> = (SC_SUCCESS, ?senv2, \<lparr>dev = 1, calls = ?e4\<rparr>)"
    by (simp add: stub_prepare always_def SC_SUCCESS_def)
  have h9: "do_command ?C sc_decipher [7] (Some [1, 2, 3, 0]) 4 \<lparr>dev = 1, calls = ?e4\<rparr>
      = (3, Some [1, 2, 3, 0], \<lparr>dev = 1, calls = ?e5\<rparr>)"
    by (simp add: stub_command ssns_then_ok_def write_out_def)
  show ?thesis
    using use_key_retry_once [OF stub_key_path h2 h3 h4 h5 h6 h3 h8 h9]
    by (simp add: stub_unlock)
qed

text \<open>
  The claim as stated ("the primitive is invoked exactly twice") fails on a device whose file
  selection fails in the second pass: the primitive has failed with "security status not
  satisfied", the revalidation has succeeded, and the primitive is invoked once.
\<close>

theorem use_key_retry_once_counterexample:
  "use_key (stub_card ok_then_fail (always 0) ssns_then_ok [1, 2, 3] (always 0))
      (stub_lib 0) stub_p15card stub_rsa_key (zero_senv stub_consts) sc_decipher [7] (Some [0, 0, 0, 0]) 4 init_st
    = (- 1201, stub_senv_selected (stub_senv_selected (zero_senv stub_consts)), Some [1, 2, 3, 0],
       \<lparr>dev = 1,
        calls = [Lock 0, Select_file stub_path 0,
                 Set_security_env (stub_senv_selected (zero_senv stub_consts)) 0,
                 Command sc_decipher [7] 4 SC_ERROR_SECURITY_STATUS_NOT_SATISFIED,
                 Revalidate 0, Select_file stub_path (- 1201), Unlock]\<rparr>)
   \<and> n_commands (calls (snd (snd (snd
        (use_key (stub_card ok_then_fail (always 0) ssns_then_ok [1, 2, 3] (always 0))
           (stub_lib 0) stub_p15card stub_rsa_key (zero_senv stub_consts) sc_decipher [7] (Some [0, 0, 0, 0]) 4
           init_st))))) = 1"
  by (simp add: use_key_def stub_key_path stub_lock init_st_def use_key_loop_first
      use_key_attempt_def stub_prepare stub_command stub_revalidate stub_unlock
      ok_then_fail_def always_def ssns_then_ok_def write_out_def SC_SUCCESS_def
      SC_ERROR_SECURITY_STATUS_NOT_SATISFIED_def)

section \<open>Keys that are not native\<close>

lemma format_senv_not_native:
  "\<not> native (obj_data obj) \<Longrightarrow>
   format_senv K lib p15card obj =
     Inl (if class_of_type (obj_type obj) = SC_PKCS15_TYPE_OTHER_CLASS
          then SC_ERROR_NOT_ALLOWED else SC_ERROR_NOT_SUPPORTED)"
  by (cases "class_of_type (obj_type obj)") (simp_all add: format_senv_def)

lemma decipher_not_native:
  "\<not> native (obj_data obj) \<Longrightarrow>
   sc_pkcs15_decipher K crd lib p15card obj flags inp out outlen pMechanism s =
     (if usage (obj_data obj)
           AND (SC_PKCS15_PRKEY_USAGE_DECRYPT OR SC_PKCS15_PRKEY_USAGE_UNWRAP) = 0
         \<or> class_of_type (obj_type obj) = SC_PKCS15_TYPE_OTHER_CLASS
      then SC_ERROR_NOT_ALLOWED else SC_ERROR_NOT_SUPPORTED, out, s)"
  by (simp add: sc_pkcs15_decipher_def format_senv_not_native)

lemma derive_not_native:
  "\<not> native (obj_data obj) \<Longrightarrow>
   sc_pkcs15_derive K crd lib p15card obj flags inp out poutlen s =
     (if usage (obj_data obj) AND SC_PKCS15_PRKEY_USAGE_DERIVE = 0
      then (SC_ERROR_NOT_ALLOWED, out, poutlen, s)
      else if (obj_type obj = SC_PKCS15_TYPE_PRKEY_EC
               \<or> obj_type obj = SC_PKCS15_TYPE_PRKEY_XEDDSA)
              \<and> (out = None \<or> poutlen < BYTES4BITS (field_length (obj_data obj)))
      then (0, out, BYTES4BITS (field_length (obj_data obj)), s)
      else (SC_ERROR_NOT_SUPPORTED, out, poutlen, s))"
  by (auto simp: sc_pkcs15_derive_def format_senv_not_native)

lemma unwrap_not_native:
  "\<not> native (obj_data obj) \<Longrightarrow>
   sc_pkcs15_unwrap K crd lib p15card obj target_key flags inp param paramlen s =
     (if (obj_type obj = SC_PKCS15_TYPE_PRKEY_RSA
          \<or> class_of_type (obj_type obj) = SC_PKCS15_TYPE_SKEY)
         \<and> usage (obj_data obj) AND SC_PKCS15_PRKEY_USAGE_UNWRAP = 0
      then SC_ERROR_NOT_ALLOWED else SC_ERROR_NOT_SUPPORTED, s)"
  by (auto simp: sc_pkcs15_unwrap_def format_senv_not_native)

lemma wrap_not_native:
  "\<not> native (obj_data obj) \<Longrightarrow>
   sc_pkcs15_wrap K crd lib p15card obj target_key flags cryptogram crgram_len param paramlen s =
     (if obj_type obj \<in> {SC_PKCS15_TYPE_PRKEY_RSA, SC_PKCS15_TYPE_SKEY_DES,
                          SC_PKCS15_TYPE_SKEY_3DES, SC_PKCS15_TYPE_SKEY_GENERIC}
         \<and> usage (obj_data obj) AND SC_PKCS15_PRKEY_USAGE_WRAP = 0
      then SC_ERROR_NOT_ALLOWED else SC_ERROR_NOT_SUPPORTED, cryptogram, crgram_len, s)"
  by (auto simp: sc_pkcs15_wrap_def format_senv_not_native)

lemma compute_signature_not_native:
  "\<not> native (obj_data obj) \<Longrightarrow>
   sc_pkcs15_compute_signature K crd lib p15card obj flags inp out outlen pMechanism s =
     (if usage (obj_data obj)
           AND (SC_PKCS15_PRKEY_USAGE_SIGN OR SC_PKCS15_PRKEY_USAGE_SIGNRECOVER
                OR SC_PKCS15_PRKEY_USAGE_NONREPUDIATION) = 0
         \<or> class_of_type (obj_type obj) = SC_PKCS15_TYPE_OTHER_CLASS
      then SC_ERROR_NOT_ALLOWED else SC_ERROR_NOT_SUPPORTED, out, s)"
  by (simp add: sc_pkcs15_compute_signature_def format_senv_not_native)

lemma sym_handler_not_native:
  "\<not> native (obj_data obj) \<Longrightarrow>
   sym_handler K crd lib p15card usage_bit operation cmd obj flags inp out outlen param paramlen s =
     (if usage (obj_data obj) AND usage_bit = 0
         \<or> class_of_type (obj_type obj) = SC_PKCS15_TYPE_OTHER_CLASS
      then SC_ERROR_NOT_ALLOWED else SC_ERROR_NOT_SUPPORTED, out, outlen, s)"
  by (simp add: sym_handler_def format_senv_not_native)

text \<open>
  C3, as the code has it. A handler called with a key whose native flag is false makes no
  call to the device: the state, and with it the record of device calls, is returned as it
  was. The result is "not supported", unless an earlier check of the handler has ended the
  call: the usage check ("not allowed"), the check in \<^verbatim>\<open>format_senv\<close> that the object is a
  private or secret key ("not allowed"), or, in \<^verbatim>\<open>sc_pkcs15_derive\<close> on an EC or XEdDSA key,
  the size query, which returns 0 and the required size when the buffer is \<^verbatim>\<open>NULL\<close> or too
  small.
\<close>

theorem not_native_no_device_interaction:
  assumes "\<not> native (obj_data obj)"
  shows
    "sc_pkcs15_decipher K crd lib p15card obj flags inp out outlen pMechanism s =
       (if usage (obj_data obj)
             AND (SC_PKCS15_PRKEY_USAGE_DECRYPT OR SC_PKCS15_PRKEY_USAGE_UNWRAP) = 0
           \<or> class_of_type (obj_type obj) = SC_PKCS15_TYPE_OTHER_CLASS
        then SC_ERROR_NOT_ALLOWED else SC_ERROR_NOT_SUPPORTED, out, s)
     \<and> sc_pkcs15_derive K crd lib p15card obj flags inp out poutlen s =
       (if usage (obj_data obj) AND SC_PKCS15_PRKEY_USAGE_DERIVE = 0
        then (SC_ERROR_NOT_ALLOWED, out, poutlen, s)
        else if (obj_type obj = SC_PKCS15_TYPE_PRKEY_EC
                 \<or> obj_type obj = SC_PKCS15_TYPE_PRKEY_XEDDSA)
                \<and> (out = None \<or> poutlen < BYTES4BITS (field_length (obj_data obj)))
        then (0, out, BYTES4BITS (field_length (obj_data obj)), s)
        else (SC_ERROR_NOT_SUPPORTED, out, poutlen, s))
     \<and> sc_pkcs15_unwrap K crd lib p15card obj target_key flags inp param paramlen s =
       (if (obj_type obj = SC_PKCS15_TYPE_PRKEY_RSA
            \<or> class_of_type (obj_type obj) = SC_PKCS15_TYPE_SKEY)
           \<and> usage (obj_data obj) AND SC_PKCS15_PRKEY_USAGE_UNWRAP = 0
        then SC_ERROR_NOT_ALLOWED else SC_ERROR_NOT_SUPPORTED, s)
     \<and> sc_pkcs15_wrap K crd lib p15card obj target_key flags cryptogram crgram_len param
         paramlen s =
       (if obj_type obj \<in> {SC_PKCS15_TYPE_PRKEY_RSA, SC_PKCS15_TYPE_SKEY_DES,
                            SC_PKCS15_TYPE_SKEY_3DES, SC_PKCS15_TYPE_SKEY_GENERIC}
           \<and> usage (obj_data obj) AND SC_PKCS15_PRKEY_USAGE_WRAP = 0
        then SC_ERROR_NOT_ALLOWED else SC_ERROR_NOT_SUPPORTED, cryptogram, crgram_len, s)
     \<and> sc_pkcs15_compute_signature K crd lib p15card obj flags inp out outlen pMechanism s =
       (if usage (obj_data obj)
             AND (SC_PKCS15_PRKEY_USAGE_SIGN OR SC_PKCS15_PRKEY_USAGE_SIGNRECOVER
                  OR SC_PKCS15_PRKEY_USAGE_NONREPUDIATION) = 0
           \<or> class_of_type (obj_type obj) = SC_PKCS15_TYPE_OTHER_CLASS
        then SC_ERROR_NOT_ALLOWED else SC_ERROR_NOT_SUPPORTED, out, s)
     \<and> sc_pkcs15_encrypt_sym K crd lib p15card obj flags inp out symlen param paramlen s =
       (if usage (obj_data obj) AND SC_PKCS15_PRKEY_USAGE_ENCRYPT = 0
           \<or> class_of_type (obj_type obj) = SC_PKCS15_TYPE_OTHER_CLASS
        then SC_ERROR_NOT_ALLOWED else SC_ERROR_NOT_SUPPORTED, out, symlen, s)
     \<and> sc_pkcs15_decrypt_sym K crd lib p15card obj flags inp out symlen param paramlen s =
       (if usage (obj_data obj) AND SC_PKCS15_PRKEY_USAGE_DECRYPT = 0
           \<or> class_of_type (obj_type obj) = SC_PKCS15_TYPE_OTHER_CLASS
        then SC_ERROR_NOT_ALLOWED else SC_ERROR_NOT_SUPPORTED, out, symlen, s)"
  using assms
  by (simp only: decipher_not_native derive_not_native unwrap_not_native wrap_not_native
      compute_signature_not_native sc_pkcs15_encrypt_sym_def sc_pkcs15_decrypt_sym_def
      sym_handler_not_native simp_thms)

lemmas stub_defs = stub_card_def stub_lib_def stub_alg_def stub_consts_def stub_p15card_def
  stub_key_def stub_path_def init_st_def always_def write_out_def

lemmas const_defs = SC_SUCCESS_def SC_ERROR_INCORRECT_PARAMETERS_def SC_ERROR_NOT_ALLOWED_def
  SC_ERROR_SECURITY_STATUS_NOT_SATISFIED_def SC_ERROR_INVALID_ARGUMENTS_def
  SC_ERROR_BUFFER_TOO_SMALL_def SC_ERROR_INVALID_DATA_def SC_ERROR_OUT_OF_MEMORY_def
  SC_ERROR_TOO_MANY_OBJECTS_def SC_ERROR_NOT_SUPPORTED_def BYTES4BITS_def size_t_def
  SC_PKCS15_PRKEY_USAGE_ENCRYPT_def SC_PKCS15_PRKEY_USAGE_DECRYPT_def
  SC_PKCS15_PRKEY_USAGE_SIGN_def SC_PKCS15_PRKEY_USAGE_SIGNRECOVER_def
  SC_PKCS15_PRKEY_USAGE_WRAP_def SC_PKCS15_PRKEY_USAGE_UNWRAP_def
  SC_PKCS15_PRKEY_USAGE_DERIVE_def SC_PKCS15_PRKEY_USAGE_NONREPUDIATION_def
  USAGE_ANY_SIGN_def USAGE_ANY_DECIPHER_def CKK_AES_def

theorem not_native_no_device_interaction_witness:
  "sc_pkcs15_decipher stub_consts (stub_card (always 0) (always 0) (always 4) [1, 2, 3, 4] (always 0))
       (stub_lib 0) stub_p15card (stub_key SC_PKCS15_TYPE_PRKEY_RSA 0x3FF False 2048)
       0 [7] (Some [0]) 1 None init_st
     = (SC_ERROR_NOT_SUPPORTED, Some [0], init_st)
   \<and> sc_pkcs15_compute_signature stub_consts
       (stub_card (always 0) (always 0) (always 4) [1, 2, 3, 4] (always 0))
       (stub_lib 0) stub_p15card (stub_key SC_PKCS15_TYPE_PRKEY_RSA 0x3FF False 2048)
       0 [7] (Some [0]) 1 None init_st
     = (SC_ERROR_NOT_SUPPORTED, Some [0], init_st)
   \<and> sc_pkcs15_derive stub_consts (stub_card (always 0) (always 0) (always 4) [1, 2, 3, 4] (always 0))
       (stub_lib 0) stub_p15card (stub_key SC_PKCS15_TYPE_PRKEY_EC 0x3FF False 256)
       0 [7] (Some (replicate 32 0)) 32 init_st
     = (SC_ERROR_NOT_SUPPORTED, Some (replicate 32 0), 32, init_st)
   \<and> sc_pkcs15_encrypt_sym stub_consts
       (stub_card (always 0) (always 0) (always 4) [1, 2, 3, 4] (always 0))
       (stub_lib 0) stub_p15card (stub_key SC_PKCS15_TYPE_SKEY_GENERIC 0x3FF False 32)
       0 [7] None None None 0 init_st
     = (SC_ERROR_NOT_SUPPORTED, None, None, init_st)"
proof -
  let ?C = "stub_card (always 0) (always 0) (always 4) [1, 2, 3, 4] (always 0)"
  have rsa: "\<not> native (obj_data (stub_key SC_PKCS15_TYPE_PRKEY_RSA 0x3FF False 2048))"
    and ec: "\<not> native (obj_data (stub_key SC_PKCS15_TYPE_PRKEY_EC 0x3FF False 256))"
    and aes: "\<not> native (obj_data (stub_key SC_PKCS15_TYPE_SKEY_GENERIC 0x3FF False 32))"
    by (simp_all add: stub_key_def)
  show ?thesis
    using not_native_no_device_interaction [OF rsa, where K = stub_consts and crd = ?C
        and lib = "stub_lib 0" and ?p15card = stub_p15card and flags = 0 and inp = "[7]"
        and out = "Some [0]" and outlen = 1 and pMechanism = None and s = init_st]
      not_native_no_device_interaction [OF ec, where K = stub_consts and crd = ?C
        and lib = "stub_lib 0" and ?p15card = stub_p15card and flags = 0 and inp = "[7]"
        and out = "Some (replicate 32 0)" and poutlen = 32 and s = init_st]
      not_native_no_device_interaction [OF aes, where K = stub_consts and crd = ?C
        and lib = "stub_lib 0" and ?p15card = stub_p15card and flags = 0 and inp = "[7]"
        and out = None and symlen = None and param = None and paramlen = 0 and s = init_st]
    by (simp add: stub_key_def const_defs)
qed

text \<open>
  The claim as stated fails for \<^verbatim>\<open>sc_pkcs15_derive\<close>: on an EC key that is not native, a call
  with a \<^verbatim>\<open>NULL\<close> buffer is answered with 0 and the required size, not with "not supported".
\<close>

theorem not_native_no_device_interaction_counterexample:
  "\<not> native (obj_data (stub_key SC_PKCS15_TYPE_PRKEY_EC 0x3FF False 256))
   \<and> sc_pkcs15_derive stub_consts
       (stub_card (always 0) (always 0) (always 4) [1, 2, 3, 4] (always 0))
       (stub_lib 0) stub_p15card (stub_key SC_PKCS15_TYPE_PRKEY_EC 0x3FF False 256)
       0 [7] None 0 init_st
     = (0, None, 32, init_st)
   \<and> (0 :: int) \<noteq> SC_ERROR_NOT_SUPPORTED"
  by (simp add: sc_pkcs15_derive_def stub_key_def const_defs)

section \<open>Derivation\<close>

lemma use_key_first_pass_ok:
  assumes "get_file_path obj = Inr path"
    and "do_lock crd s = (r0, s0)" and "0 \<le> r0"
    and "use_key_prepare crd lib p15card obj path r0 senv s0 = (SC_SUCCESS, senv1, s1)"
    and "do_command crd cmd inp out outlen s1 = (n, out1, s2)" and "0 \<le> n"
  shows "use_key crd lib p15card obj senv cmd inp out outlen s = (n, senv1, out1, do_unlock crd s2)"
proof -
  have "n \<noteq> SC_ERROR_SECURITY_STATUS_NOT_SATISFIED"
    using assms(6) by (simp add: SC_ERROR_SECURITY_STATUS_NOT_SATISFIED_def)
  then have "use_key_loop crd lib p15card obj cmd inp outlen path False r0 senv out s0
      = (n, senv1, out1, s2)"
    using assms(4,5) by (simp add: use_key_loop_first use_key_attempt_def)
  then show ?thesis
    using assms(1,2,3) by (simp add: use_key_def)
qed

lemma stub_prepare_key:
  "get_file_path obj = Inr stub_path \<Longrightarrow>
   use_key_prepare (stub_card sel env cmd wr reval) lib stub_p15card obj stub_path
       r senv \<lparr>dev = w, calls = evs\<rparr>
     = (if sel w < 0 then (sel w, stub_senv_selected senv,
                           \<lparr>dev = w, calls = evs @ [Select_file stub_path (sel w)]\<rparr>)
        else (env w, stub_senv_selected senv,
              \<lparr>dev = w, calls = evs @ [Select_file stub_path (sel w),
                       Set_security_env (stub_senv_selected senv) (env w)]\<rparr>))"
  by (simp add: use_key_prepare_def select_key_file_def
      stub_path_def stub_card_def do_select_file_def do_set_security_env_def
      stub_senv_selected_def SC_SUCCESS_def stub_p15card_def)

lemma stub_get_file_path:
  "class_of_type ty \<noteq> SC_PKCS15_TYPE_OTHER_CLASS
    \<Longrightarrow> get_file_path (stub_key ty us nf bits) = Inr stub_path"
  by (cases "class_of_type ty") (simp_all add: get_file_path_def stub_key_def)

text \<open>
  \<^verbatim>\<open>BYTES4BITS\<close> on a \<^verbatim>\<open>size_t\<close>: the number of bytes that hold the bits, except for the seven
  largest sizes, where the sum wraps and the result is 0.
\<close>

lemma BYTES4BITS_range:
  "n \<le> 2 ^ 64 - 8 \<Longrightarrow> BYTES4BITS n = (n + 7) div 8"
  "2 ^ 64 - 7 \<le> n \<Longrightarrow> n < 2 ^ 64 \<Longrightarrow> BYTES4BITS n = 0"
proof -
  assume "n \<le> 2 ^ 64 - 8"
  then have "n + 7 < 2 ^ 64" by simp
  then show "BYTES4BITS n = (n + 7) div 8"
    by (simp add: BYTES4BITS_def size_t_def)
next
  assume a: "2 ^ 64 - 7 \<le> n" and b: "n < 2 ^ 64"
  then have "(n + 7) mod 2 ^ 64 = n + 7 - 2 ^ 64"
    by (simp add: mod_if)
  moreover have "n + 7 - 2 ^ 64 < 8" using b by simp
  ultimately show "BYTES4BITS n = 0"
    by (simp add: BYTES4BITS_def size_t_def)
qed

text \<open>
  C4, as the code has it. For \<^verbatim>\<open>sc_pkcs15_derive\<close> on an EC or XEdDSA key with the derive
  usage bit: if the buffer is \<^verbatim>\<open>NULL\<close> or \<^verbatim>\<open>*poutlen\<close> is smaller than the field's byte length, the
  call stores that length in \<^verbatim>\<open>*poutlen\<close>, returns 0 and leaves the device alone. The byte
  length is the one the code computes, \<^verbatim>\<open>BYTES4BITS(prkey->field_length)\<close> on a \<^verbatim>\<open>size_t\<close>. If the buffer
  is sufficient, and the environment is built, the flags are negotiated, and the lock, the
  file selection and the environment push succeed, the decipher primitive is invoked with the
  caller's buffer and length; when it returns \<open>n \<ge> 0\<close>, \<open>n\<close> is returned and stored in
  \<^verbatim>\<open>*poutlen\<close>.
\<close>

theorem derive_size_query:
  assumes "usage (obj_data obj) AND SC_PKCS15_PRKEY_USAGE_DERIVE \<noteq> 0"
    and "obj_type obj = SC_PKCS15_TYPE_PRKEY_EC \<or> obj_type obj = SC_PKCS15_TYPE_PRKEY_XEDDSA"
  shows
    "(out = None \<or> poutlen < BYTES4BITS (field_length (obj_data obj)) \<longrightarrow>
        sc_pkcs15_derive K crd lib p15card obj flags inp out poutlen s
          = (0, out, BYTES4BITS (field_length (obj_data obj)), s))
     \<and> (out \<noteq> None \<and> BYTES4BITS (field_length (obj_data obj)) \<le> poutlen
        \<and> format_senv K lib p15card obj = Inr (senv0, alg_info)
        \<and> sc_get_encoding_flags lib flags (alg_flags alg_info) = (r1, pad_flags, sec_flags)
        \<and> 0 \<le> r1
        \<and> get_file_path obj = Inr path
        \<and> do_lock crd s = (r0, s0) \<and> 0 \<le> r0
        \<and> use_key_prepare crd lib p15card obj path r0
             (senv0\<lparr>senv_operation := SC_SEC_OPERATION_DERIVE,
                    senv_algorithm_flags := sec_flags\<rparr>) s0 = (SC_SUCCESS, senv1, s1)
        \<and> do_command crd sc_decipher inp out poutlen s1 = (n, out1, s2) \<and> 0 \<le> n
        \<longrightarrow>
        sc_pkcs15_derive K crd lib p15card obj flags inp out poutlen s
          = (n, out1, nat n, do_unlock crd s2)
        \<and> calls (do_unlock crd s2) = calls s1 @ [Command sc_decipher inp poutlen n, Unlock])"
proof (intro conjI impI)
  assume "out = None \<or> poutlen < BYTES4BITS (field_length (obj_data obj))"
  then show "sc_pkcs15_derive K crd lib p15card obj flags inp out poutlen s
      = (0, out, BYTES4BITS (field_length (obj_data obj)), s)"
    using assms by (auto simp: sc_pkcs15_derive_def)
next
  assume h: "out \<noteq> None \<and> BYTES4BITS (field_length (obj_data obj)) \<le> poutlen
        \<and> format_senv K lib p15card obj = Inr (senv0, alg_info)
        \<and> sc_get_encoding_flags lib flags (alg_flags alg_info) = (r1, pad_flags, sec_flags)
        \<and> 0 \<le> r1
        \<and> get_file_path obj = Inr path
        \<and> do_lock crd s = (r0, s0) \<and> 0 \<le> r0
        \<and> use_key_prepare crd lib p15card obj path r0
             (senv0\<lparr>senv_operation := SC_SEC_OPERATION_DERIVE,
                    senv_algorithm_flags := sec_flags\<rparr>) s0 = (SC_SUCCESS, senv1, s1)
        \<and> do_command crd sc_decipher inp out poutlen s1 = (n, out1, s2) \<and> 0 \<le> n"
  then have uk: "use_key crd lib p15card obj
        (senv0\<lparr>senv_operation := SC_SEC_OPERATION_DERIVE, senv_algorithm_flags := sec_flags\<rparr>)
        sc_decipher inp out poutlen s = (n, senv1, out1, do_unlock crd s2)"
    by (intro use_key_first_pass_ok [where path = path and ?r0.0 = r0 and ?s0.0 = s0
          and ?s1.0 = s1]) simp_all
  show "sc_pkcs15_derive K crd lib p15card obj flags inp out poutlen s
      = (n, out1, nat n, do_unlock crd s2)"
    using assms h uk by (auto simp: sc_pkcs15_derive_def)
  show "calls (do_unlock crd s2) = calls s1 @ [Command sc_decipher inp poutlen n, Unlock]"
    using h by (auto simp: do_unlock_calls dest: do_command_calls)
qed

lemma stub_format_senv:
  "class_of_type ty \<noteq> SC_PKCS15_TYPE_OTHER_CLASS \<Longrightarrow>
   format_senv_alg (stub_lib caps) (stub_key ty us True bits) senv \<noteq> Inl SC_ERROR_NOT_SUPPORTED
   \<Longrightarrow> format_senv K (stub_lib caps) stub_p15card (stub_key ty us True bits)
     = Inr (fst (projr (format_senv K (stub_lib caps) stub_p15card (stub_key ty us True bits))),
            \<lparr>alg_key_length = bits, alg_flags = caps\<rparr>)"
  by (cases ty)
    (simp_all add: format_senv_def stub_key_def stub_lib_def stub_alg_def stub_p15card_def
      SC_ERROR_NOT_SUPPORTED_def)

theorem derive_size_query_witness:
  "sc_pkcs15_derive stub_consts
       (stub_card (always 0) (always 0) (always 32) (replicate 32 0xAB) (always 0))
       (stub_lib 0) stub_p15card (stub_key SC_PKCS15_TYPE_PRKEY_EC 0x3FF True 256)
       0 [4, 5] None 0 init_st
     = (0, None, 32, init_st)
   \<and> (case sc_pkcs15_derive stub_consts
            (stub_card (always 0) (always 0) (always 32) (replicate 32 0xAB) (always 0))
            (stub_lib 0) stub_p15card (stub_key SC_PKCS15_TYPE_PRKEY_EC 0x3FF True 256)
            0 [4, 5] (Some (replicate 40 0)) 40 init_st of
        (r, out, poutlen, s) \<Rightarrow>
          r = 32 \<and> out = Some (replicate 32 0xAB @ replicate 8 0) \<and> poutlen = 32
          \<and> map kind_of (calls s)
            = [Lock_call, Select_file_call, Set_security_env_call, Command_call sc_decipher,
               Unlock_call])
   \<and> BYTES4BITS (field_length (obj_data
          (stub_key SC_PKCS15_TYPE_PRKEY_EC 0x3FF True 18446744073709551615))) = 0
   \<and> (case sc_pkcs15_derive stub_consts
            (stub_card (always 0) (always 0) (always 2) [0xAB, 0xAB] (always 0))
            (stub_lib 0) stub_p15card
            (stub_key SC_PKCS15_TYPE_PRKEY_EC 0x3FF True 18446744073709551615)
            0 [4, 5] (Some [0, 0, 0]) 3 init_st of
        (r, out, poutlen, s) \<Rightarrow>
          r = 2 \<and> out = Some [0xAB, 0xAB, 0] \<and> poutlen = 2
          \<and> map kind_of (calls s)
            = [Lock_call, Select_file_call, Set_security_env_call, Command_call sc_decipher,
               Unlock_call])"
proof -
  let ?C = "stub_card (always 0) (always 0) (always 32) (replicate 32 0xAB) (always 0)"
  let ?k = "stub_key SC_PKCS15_TYPE_PRKEY_EC 0x3FF True 256"
  let ?senv0 = "fst (projr (format_senv stub_consts (stub_lib 0) stub_p15card ?k))"
  let ?alg = "\<lparr>alg_key_length = 256, alg_flags = 0 :: ulong\<rparr>"
  let ?senvD = "?senv0\<lparr>senv_operation := SC_SEC_OPERATION_DERIVE, senv_algorithm_flags := 0\<rparr>"
  let ?e1 = "[Lock 0, Select_file stub_path 0, Set_security_env (stub_senv_selected ?senvD) 0]"
  let ?out1 = "Some (replicate 32 0xAB @ replicate 8 (0 :: u8))"
  have u: "usage (obj_data ?k) AND SC_PKCS15_PRKEY_USAGE_DERIVE \<noteq> 0"
    by (simp add: stub_key_def SC_PKCS15_PRKEY_USAGE_DERIVE_def)
  have ty: "obj_type ?k = SC_PKCS15_TYPE_PRKEY_EC \<or> obj_type ?k = SC_PKCS15_TYPE_PRKEY_XEDDSA"
    by (simp add: stub_key_def)
  have fl: "BYTES4BITS (field_length (obj_data ?k)) = 32"
    by (simp add: stub_key_def BYTES4BITS_def size_t_def)
  have F: "format_senv stub_consts (stub_lib 0) stub_p15card ?k = Inr (?senv0, ?alg)"
    by (rule stub_format_senv [where senv = "zero_senv stub_consts"])
      (simp_all add: stub_key_def stub_lib_def stub_alg_def)
  have E: "sc_get_encoding_flags (stub_lib 0) 0 (alg_flags ?alg) = (0, 0, 0)"
    by (simp add: stub_lib_def)
  have P: "get_file_path ?k = Inr stub_path"
    by (simp add: stub_get_file_path)
  have L: "do_lock ?C init_st = (0, \<lparr>dev = 0, calls = [Lock 0]\<rparr>)"
    by (simp add: stub_lock init_st_def)
  have Q: "use_key_prepare ?C (stub_lib 0) stub_p15card ?k stub_path 0 ?senvD
      \<lparr>dev = 0, calls = [Lock 0]\<rparr>
      = (SC_SUCCESS, stub_senv_selected ?senvD, \<lparr>dev = 0, calls = ?e1\<rparr>)"
    by (simp add: stub_prepare_key [OF P] always_def SC_SUCCESS_def)
  have D: "do_command ?C sc_decipher [4, 5] (Some (replicate 40 0)) 40 \<lparr>dev = 0, calls = ?e1\<rparr>
      = (32, ?out1, \<lparr>dev = 0, calls = ?e1 @ [Command sc_decipher [4, 5] 40 32]\<rparr>)"
    by (simp add: stub_command always_def write_out_def)
  have a: "sc_pkcs15_derive stub_consts ?C (stub_lib 0) stub_p15card ?k 0 [4, 5] None 0 init_st
      = (0, None, 32, init_st)"
    using derive_size_query [OF u ty, where out = None and poutlen = 0 and K = stub_consts
        and crd = ?C and lib = "stub_lib 0" and ?p15card = stub_p15card and flags = 0
        and inp = "[4, 5]" and s = init_st]
    by (simp add: fl)
  have b: "sc_pkcs15_derive stub_consts ?C (stub_lib 0) stub_p15card ?k 0 [4, 5]
        (Some (replicate 40 0)) 40 init_st
      = (32, ?out1, 32,
         do_unlock ?C \<lparr>dev = 0, calls = ?e1 @ [Command sc_decipher [4, 5] 40 32]\<rparr>)"
    using derive_size_query [OF u ty, where out = "Some (replicate 40 0)" and poutlen = 40
        and K = stub_consts and crd = ?C and lib = "stub_lib 0" and ?p15card = stub_p15card
        and flags = 0 and inp = "[4, 5]" and s = init_st and ?senv0.0 = ?senv0
        and alg_info = ?alg and ?r1.0 = 0 and pad_flags = 0 and sec_flags = 0
        and path = stub_path and ?r0.0 = 0 and ?s0.0 = "\<lparr>dev = 0, calls = [Lock 0]\<rparr>"
        and ?senv1.0 = "stub_senv_selected ?senvD" and ?s1.0 = "\<lparr>dev = 0, calls = ?e1\<rparr>"
        and n = 32 and ?out1.0 = ?out1
        and ?s2.0 = "\<lparr>dev = 0, calls = ?e1 @ [Command sc_decipher [4, 5] 40 32]\<rparr>"]
      F E P L Q D
    by (simp add: fl)
  let ?D = "stub_card (always 0) (always 0) (always 2) [0xAB, 0xAB] (always 0)"
  let ?big = "stub_key SC_PKCS15_TYPE_PRKEY_EC 0x3FF True 18446744073709551615"
  let ?bigsenv = "fst (projr (format_senv stub_consts (stub_lib 0) stub_p15card ?big))"
  let ?bigalg = "\<lparr>alg_key_length = 18446744073709551615, alg_flags = 0 :: ulong\<rparr>"
  let ?bigD = "?bigsenv\<lparr>senv_operation := SC_SEC_OPERATION_DERIVE,
      senv_algorithm_flags := 0\<rparr>"
  let ?e2 = "[Lock 0, Select_file stub_path 0, Set_security_env (stub_senv_selected ?bigD) 0]"
  have u': "usage (obj_data ?big) AND SC_PKCS15_PRKEY_USAGE_DERIVE \<noteq> 0"
    by (simp add: stub_key_def SC_PKCS15_PRKEY_USAGE_DERIVE_def)
  have ty': "obj_type ?big = SC_PKCS15_TYPE_PRKEY_EC
      \<or> obj_type ?big = SC_PKCS15_TYPE_PRKEY_XEDDSA"
    by (simp add: stub_key_def)
  have fl': "BYTES4BITS (field_length (obj_data ?big)) = 0"
    by (simp add: stub_key_def BYTES4BITS_def size_t_def)
  have F': "format_senv stub_consts (stub_lib 0) stub_p15card ?big = Inr (?bigsenv, ?bigalg)"
    by (rule stub_format_senv [where senv = "zero_senv stub_consts"])
      (simp_all add: stub_key_def stub_lib_def stub_alg_def)
  have E': "sc_get_encoding_flags (stub_lib 0) 0 (alg_flags ?bigalg) = (0, 0, 0)"
    by (simp add: stub_lib_def)
  have P': "get_file_path ?big = Inr stub_path"
    by (simp add: stub_get_file_path)
  have L': "do_lock ?D init_st = (0, \<lparr>dev = 0, calls = [Lock 0]\<rparr>)"
    by (simp add: stub_lock init_st_def)
  have Q': "use_key_prepare ?D (stub_lib 0) stub_p15card ?big stub_path 0 ?bigD
      \<lparr>dev = 0, calls = [Lock 0]\<rparr>
      = (SC_SUCCESS, stub_senv_selected ?bigD, \<lparr>dev = 0, calls = ?e2\<rparr>)"
    by (simp add: stub_prepare_key [OF P'] always_def SC_SUCCESS_def)
  have D': "do_command ?D sc_decipher [4, 5] (Some [0, 0, 0]) 3 \<lparr>dev = 0, calls = ?e2\<rparr>
      = (2, Some [0xAB, 0xAB, 0], \<lparr>dev = 0, calls = ?e2 @ [Command sc_decipher [4, 5] 3 2]\<rparr>)"
    by (simp add: stub_command always_def write_out_def)
  have c: "sc_pkcs15_derive stub_consts ?D (stub_lib 0) stub_p15card ?big 0 [4, 5]
        (Some [0, 0, 0]) 3 init_st
      = (2, Some [0xAB, 0xAB, 0], 2,
         do_unlock ?D \<lparr>dev = 0, calls = ?e2 @ [Command sc_decipher [4, 5] 3 2]\<rparr>)"
    using derive_size_query [OF u' ty', where out = "Some [0, 0, 0]" and poutlen = 3
        and K = stub_consts and crd = ?D and lib = "stub_lib 0" and ?p15card = stub_p15card
        and flags = 0 and inp = "[4, 5]" and s = init_st and ?senv0.0 = ?bigsenv
        and alg_info = ?bigalg and ?r1.0 = 0 and pad_flags = 0 and sec_flags = 0
        and path = stub_path and ?r0.0 = 0 and ?s0.0 = "\<lparr>dev = 0, calls = [Lock 0]\<rparr>"
        and ?senv1.0 = "stub_senv_selected ?bigD" and ?s1.0 = "\<lparr>dev = 0, calls = ?e2\<rparr>"
        and n = 2 and ?out1.0 = "Some [0xAB, 0xAB, 0]"
        and ?s2.0 = "\<lparr>dev = 0, calls = ?e2 @ [Command sc_decipher [4, 5] 3 2]\<rparr>"]
      F' E' P' L' Q' D'
    by (simp add: fl')
  show ?thesis
    by (simp add: a b c fl' stub_unlock)
qed

text \<open>
  The claim as stated fails when the key is not native: the buffer is sufficient, and the
  call makes no device call and leaves \<^verbatim>\<open>*poutlen\<close> as it was.
\<close>

theorem derive_size_query_counterexample:
  "usage (obj_data (stub_key SC_PKCS15_TYPE_PRKEY_EC 0x3FF False 256))
     AND SC_PKCS15_PRKEY_USAGE_DERIVE \<noteq> 0
   \<and> BYTES4BITS (field_length (obj_data (stub_key SC_PKCS15_TYPE_PRKEY_EC 0x3FF False 256)))
     \<le> 40
   \<and> sc_pkcs15_derive stub_consts
       (stub_card (always 0) (always 0) (always 32) (replicate 32 0xAB) (always 0))
       (stub_lib 0) stub_p15card (stub_key SC_PKCS15_TYPE_PRKEY_EC 0x3FF False 256)
       0 [4, 5] (Some (replicate 40 0)) 40 init_st
     = (SC_ERROR_NOT_SUPPORTED, Some (replicate 40 0), 40, init_st)
   \<and> calls init_st = []"
  by (simp add: sc_pkcs15_derive_def format_senv_def stub_key_def const_defs init_st_def)

section \<open>Wrapping\<close>

text \<open>
  C8. In a call of \<^verbatim>\<open>sc_pkcs15_wrap\<close> with a length pointer, in which the dispatcher has
  invoked the wrap primitive and returns its length \<open>n \<ge> 0\<close>: with a \<^verbatim>\<open>NULL\<close> buffer the call
  returns \<open>n\<close>, a success, and stores \<open>n\<close> behind the pointer, whatever the length there
  was; with a buffer whose declared length \<open>m\<close> is smaller than \<open>n\<close> the call returns "buffer
  too small" and stores \<open>n\<close> behind the pointer.
\<close>

theorem wrap_length_query:
  assumes "obj_type key \<in> {SC_PKCS15_TYPE_PRKEY_RSA, SC_PKCS15_TYPE_SKEY_DES,
                            SC_PKCS15_TYPE_SKEY_3DES, SC_PKCS15_TYPE_SKEY_GENERIC}"
    and "usage (obj_data key) AND SC_PKCS15_PRKEY_USAGE_WRAP \<noteq> 0"
    and "obj_type target_key = SC_PKCS15_TYPE_PRKEY_RSA
         \<or> class_of_type (obj_type target_key) = SC_PKCS15_TYPE_SKEY"
    and "format_senv K lib p15card key = Inr (senv0, alg_info)"
    and "wrap_senv K lib p15card SC_SEC_OPERATION_WRAP senv0 alg_info
           (key_path (obj_data target_key)) flags param paramlen = Inr senv"
    and "use_key crd lib p15card key senv sc_wrap [] cryptogram m s = (n, senv', out', s')"
    and "0 \<le> n"
  shows
    "(cryptogram = None \<longrightarrow>
        sc_pkcs15_wrap K crd lib p15card key target_key flags cryptogram (Some m) param paramlen s
          = (n, out', Some (nat n), s')
        \<and> n \<noteq> SC_ERROR_BUFFER_TOO_SMALL)
     \<and> (cryptogram \<noteq> None \<and> m < nat n \<longrightarrow>
        sc_pkcs15_wrap K crd lib p15card key target_key flags cryptogram (Some m) param paramlen s
          = (SC_ERROR_BUFFER_TOO_SMALL, out', Some (nat n), s'))"
  using assms by (auto simp: sc_pkcs15_wrap_def SC_ERROR_BUFFER_TOO_SMALL_def)

section \<open>Signing\<close>

lemma invocations_simps [simp]:
  "invocations c [] = 0"
  "invocations c (evs @ evs') = invocations c evs + invocations c evs'"
  "invocations c (e # evs) = (if kind_of e = Command_call c then 1 else 0) + invocations c evs"
  by (simp_all add: invocations_def)

lemma select_key_file_invocations:
  "select_key_file crd lib p15card key senv s = (r, senv', s')
    \<Longrightarrow> invocations c (calls s') = invocations c (calls s)"
  by (auto simp: select_key_file_def Let_def dest!: do_select_file_calls
        split: sum.splits prod.splits if_splits)

lemma use_key_prepare_invocations:
  "use_key_prepare crd lib p15card obj path r senv s = (r', senv', s')
    \<Longrightarrow> invocations c (calls s') = invocations c (calls s)"
  by (auto simp: use_key_prepare_def
        dest!: select_key_file_invocations do_set_security_env_calls
        split: prod.splits if_splits)

lemma use_key_attempt_invocations:
  "c \<noteq> cmd \<Longrightarrow> use_key_attempt crd lib p15card obj cmd inp outlen path r senv out s
      = (r', senv', out', s')
    \<Longrightarrow> invocations c (calls s') = invocations c (calls s)"
  by (auto simp: use_key_attempt_def
        dest!: use_key_prepare_invocations do_command_calls
        split: prod.splits if_splits)

lemma use_key_loop_invocations:
  assumes "c \<noteq> cmd"
    and "use_key_loop crd lib p15card obj cmd inp outlen path False r senv out s
      = (r', senv', out', s')"
  shows "invocations c (calls s') = invocations c (calls s)"
proof -
  obtain r3 senv3 out3 s3 where
    a1: "use_key_attempt crd lib p15card obj cmd inp outlen path r senv out s
        = (r3, senv3, out3, s3)"
    by (metis prod_cases4)
  have i3: "invocations c (calls s3) = invocations c (calls s)"
    using assms(1) a1 by (rule use_key_attempt_invocations)
  show ?thesis
  proof (cases "r3 = SC_ERROR_SECURITY_STATUS_NOT_SATISFIED")
    case False
    then show ?thesis using assms(2) a1 i3 by (simp add: use_key_loop_first)
  next
    case True
    obtain r4 s4 where rv: "do_revalidate crd obj s3 = (r4, s4)"
      by (metis surj_pair)
    have i4: "invocations c (calls s4) = invocations c (calls s3)"
      using do_revalidate_calls [OF rv] by simp
    show ?thesis
    proof (cases "r4 < 0")
      case True
      then show ?thesis
        using assms(2) a1 \<open>r3 = SC_ERROR_SECURITY_STATUS_NOT_SATISFIED\<close> rv i3 i4
        by (simp add: use_key_loop_first)
    next
      case False
      then have "use_key_attempt crd lib p15card obj cmd inp outlen path r4 senv3 out3 s4
          = (r', senv', out', s')"
        using assms(2) a1 \<open>r3 = SC_ERROR_SECURITY_STATUS_NOT_SATISFIED\<close> rv
        by (simp add: use_key_loop_first)
      then have "invocations c (calls s') = invocations c (calls s4)"
        using assms(1) by (rule use_key_attempt_invocations [rotated])
      then show ?thesis using i3 i4 by simp
    qed
  qed
qed

lemma use_key_invocations:
  assumes "c \<noteq> cmd"
    and "use_key crd lib p15card obj senv cmd inp out outlen s = (r', senv', out', s')"
  shows "invocations c (calls s') = invocations c (calls s)"
proof (cases "get_file_path obj")
  case (Inl e)
  then show ?thesis using assms(2) by (simp add: use_key_def)
next
  case (Inr path)
  obtain r0 s0 where l: "do_lock crd s = (r0, s0)"
    by (metis surj_pair)
  have i0: "invocations c (calls s0) = invocations c (calls s)"
    using do_lock_calls [OF l] by simp
  show ?thesis
  proof (cases "r0 < 0")
    case True
    then show ?thesis using assms(2) Inr l i0 by (simp add: use_key_def)
  next
    case False
    obtain r1 senv1 out1 s1 where
      lp: "use_key_loop crd lib p15card obj cmd inp outlen path False r0 senv out s0
          = (r1, senv1, out1, s1)"
      by (metis prod_cases4)
    have i1: "invocations c (calls s1) = invocations c (calls s0)"
      using assms(1) lp by (rule use_key_loop_invocations)
    have "s' = do_unlock crd s1"
      using assms(2) Inr l False lp by (simp add: use_key_def)
    then show ?thesis using i0 i1 by (simp add: do_unlock_calls)
  qed
qed

lemma decipher_invocations:
  assumes "c \<noteq> sc_decipher"
    and "sc_pkcs15_decipher K crd lib p15card obj flags inp out outlen pMechanism s
      = (r', out', s')"
  shows "invocations c (calls s') = invocations c (calls s)"
proof -
  have "s' = s \<or> (\<exists>senv r2 senv2 out2.
      use_key crd lib p15card obj senv sc_decipher inp out outlen s = (r2, senv2, out2, s'))"
    using assms(2)
    by (auto simp: sc_pkcs15_decipher_def split: if_splits sum.splits prod.splits)
  then show ?thesis
    using use_key_invocations [OF assms(1)] by auto
qed

text \<open>
  The two usage tests of \<^verbatim>\<open>sc_pkcs15_compute_signature\<close>: a key that passes the test of line
  671 (\<^verbatim>\<open>USAGE_ANY_SIGN\<close>) or has the sign-recover bit passes the test of line 617.
\<close>

lemma any_sign_accepted:
  "u AND (SC_PKCS15_PRKEY_USAGE_SIGN OR SC_PKCS15_PRKEY_USAGE_NONREPUDIATION) \<noteq> 0
    \<Longrightarrow> u AND (SC_PKCS15_PRKEY_USAGE_SIGN OR SC_PKCS15_PRKEY_USAGE_SIGNRECOVER
               OR SC_PKCS15_PRKEY_USAGE_NONREPUDIATION) \<noteq> 0"
  by (simp add: bit.conj_disj_distrib or_eq_0_iff)

lemma sign_recover_accepted:
  "u AND SC_PKCS15_PRKEY_USAGE_SIGNRECOVER \<noteq> 0
    \<Longrightarrow> u AND (SC_PKCS15_PRKEY_USAGE_SIGN OR SC_PKCS15_PRKEY_USAGE_SIGNRECOVER
               OR SC_PKCS15_PRKEY_USAGE_NONREPUDIATION) \<noteq> 0"
  by (simp add: bit.conj_disj_distrib or_eq_0_iff)

text \<open>The two ways of an RSA signing request after the steps before line 669.\<close>

lemma compute_signature_emulated:
  assumes "usage (obj_data obj)
           AND (SC_PKCS15_PRKEY_USAGE_SIGN OR SC_PKCS15_PRKEY_USAGE_SIGNRECOVER
                OR SC_PKCS15_PRKEY_USAGE_NONREPUDIATION) \<noteq> 0"
    and "format_senv K lib p15card obj = Inr (senv0, alg_info)"
    and "sign_needs_emulation K obj alg_info"
    and "modlen = BYTES4BITS (modulus_length (obj_data obj))" and "modlen \<le> outlen"
    and "sc_mem_secure_alloc lib (size_t (length inp + modlen)) = Some fresh"
  shows "sc_pkcs15_compute_signature K crd lib p15card obj flags inp out outlen pMechanism s
      = sign_emulate K crd lib p15card obj flags inp out outlen pMechanism modlen
          (size_t (length inp + modlen)) (inp @ drop (length inp) fresh) SC_SUCCESS s"
proof -
  have rsa: "obj_type obj = SC_PKCS15_TYPE_PRKEY_RSA"
    using assms(3) by (simp add: sign_needs_emulation_def)
  have ml: "sign_modlen obj = Some modlen"
    using rsa assms(4) by (simp add: sign_modlen_def)
  show ?thesis
    using assms rsa ml
    by (simp add: sc_pkcs15_compute_signature_def SC_SUCCESS_def)
qed

lemma compute_signature_rsa_on_card:
  assumes "obj_type obj = SC_PKCS15_TYPE_PRKEY_RSA"
    and "usage (obj_data obj)
           AND (SC_PKCS15_PRKEY_USAGE_SIGN OR SC_PKCS15_PRKEY_USAGE_SIGNRECOVER
                OR SC_PKCS15_PRKEY_USAGE_NONREPUDIATION) \<noteq> 0"
    and "format_senv K lib p15card obj = Inr (senv0, alg_info)"
    and "\<not> sign_needs_emulation K obj alg_info"
    and "modlen = BYTES4BITS (modulus_length (obj_data obj))" and "modlen \<le> outlen"
    and "sc_mem_secure_alloc lib (size_t (length inp + modlen)) = Some fresh"
  shows "sc_pkcs15_compute_signature K crd lib p15card obj flags inp out outlen pMechanism s
      = sign_on_card K crd lib p15card obj senv0 alg_info flags (length inp) out outlen
          pMechanism modlen (size_t (length inp + modlen)) (inp @ drop (length inp) fresh) s"
proof -
  have ml: "sign_modlen obj = Some modlen"
    using assms(1,5) by (simp add: sign_modlen_def)
  show ?thesis
    using assms ml
    by (simp add: sc_pkcs15_compute_signature_def SC_SUCCESS_def)
qed

lemma sign_emulate_invocations:
  "sign_emulate K crd lib p15card obj flags inp out outlen pMechanism modlen buflen buf r s
      = (r', out', s')
    \<Longrightarrow> invocations sc_compute_signature (calls s') = invocations sc_compute_signature (calls s)"
  by (auto simp: sign_emulate_def split: if_splits prod.splits
      dest: decipher_invocations [where c = sc_compute_signature, rotated])

lemma sign_on_card_invocations:
  assumes "c \<noteq> sc_compute_signature"
    and "sign_on_card K crd lib p15card obj senv0 alg_info flags inlen out outlen pMechanism
          modlen buflen buf s = (r', out', s')"
  shows "invocations c (calls s') = invocations c (calls s)"
proof -
  have "s' = s \<or> (\<exists>senv tmp r2 senv2 out2.
      use_key crd lib p15card obj senv sc_compute_signature tmp out outlen s
        = (r2, senv2, out2, s'))"
    using assms(2)
    by (auto simp: sign_on_card_def split: if_splits sum.splits prod.splits)
  then show ?thesis
    using use_key_invocations [OF assms(1)] by auto
qed

text \<open>
  C6, as the code has it. An RSA signing request, on a card whose capability entry carries
  \<^verbatim>\<open>SC_ALGORITHM_NEED_USAGE\<close>, with a key that has the decrypt or the unwrap bit. If the key
  has the sign or the non-repudiation bit, the request is handed to \<^verbatim>\<open>sc_pkcs15_decipher\<close>:
  when raw RSA was requested, the caller's input and flags are passed on as they are and
  nothing is padded; when a padding was requested and the work buffer holds \<open>modlen\<close> bytes,
  the input is padded in software by \<^verbatim>\<open>sc_pkcs1_encode\<close>, the padding flags are replaced by the
  raw flag, and the first \<open>modlen\<close> bytes of the work buffer are passed on; in every case the
  sign primitive of the device is not invoked. If the key is accepted for signing through
  its sign-recover bit alone, the request is not redirected: it takes the way to the sign
  primitive, and the decipher primitive is not invoked.
\<close>

theorem sign_emulated_by_decipher:
  assumes "obj_type obj = SC_PKCS15_TYPE_PRKEY_RSA"
    and "format_senv K lib p15card obj = Inr (senv0, alg_info)"
    and "alg_flags alg_info AND SC_ALGORITHM_NEED_USAGE K \<noteq> 0"
    and "usage (obj_data obj)
           AND (SC_PKCS15_PRKEY_USAGE_DECRYPT OR SC_PKCS15_PRKEY_USAGE_UNWRAP) \<noteq> 0"
    and "modlen = BYTES4BITS (modulus_length (obj_data obj))" and "modlen \<le> outlen"
    and "buflen = size_t (length inp + modlen)"
    and "sc_mem_secure_alloc lib buflen = Some fresh"
  shows
    "(usage (obj_data obj)
        AND (SC_PKCS15_PRKEY_USAGE_SIGN OR SC_PKCS15_PRKEY_USAGE_NONREPUDIATION) \<noteq> 0 \<longrightarrow>
        (flags AND SC_ALGORITHM_RSA_RAW K \<noteq> 0 \<longrightarrow>
           sc_pkcs15_compute_signature K crd lib p15card obj flags inp out outlen pMechanism s
             = sc_pkcs15_decipher K crd lib p15card obj flags inp out outlen None s)
        \<and> (flags AND SC_ALGORITHM_RSA_RAW K = 0 \<and> modlen \<le> buflen
           \<and> sc_pkcs1_encode lib flags inp buflen (modulus_length (obj_data obj)) pMechanism
                = (r1, enc)
           \<and> 0 \<le> r1 \<longrightarrow>
           sc_pkcs15_compute_signature K crd lib p15card obj flags inp out outlen pMechanism s
             = sc_pkcs15_decipher K crd lib p15card obj
                 ((flags AND NOT (SC_ALGORITHM_RSA_PADS K)) OR SC_ALGORITHM_RSA_RAW K)
                 (take modlen (enc @ drop (length enc) (inp @ drop (length inp) fresh)))
                 out outlen None s)
        \<and> invocations sc_compute_signature
             (calls (snd (snd (sc_pkcs15_compute_signature K crd lib p15card obj flags inp out
                                 outlen pMechanism s))))
           = invocations sc_compute_signature (calls s))
     \<and> (usage (obj_data obj)
          AND (SC_PKCS15_PRKEY_USAGE_SIGN OR SC_PKCS15_PRKEY_USAGE_NONREPUDIATION) = 0
        \<and> usage (obj_data obj) AND SC_PKCS15_PRKEY_USAGE_SIGNRECOVER \<noteq> 0 \<longrightarrow>
        sc_pkcs15_compute_signature K crd lib p15card obj flags inp out outlen pMechanism s
          = sign_on_card K crd lib p15card obj senv0 alg_info flags (length inp) out outlen
              pMechanism modlen buflen (inp @ drop (length inp) fresh) s
        \<and> invocations sc_decipher
             (calls (snd (snd (sc_pkcs15_compute_signature K crd lib p15card obj flags inp out
                                 outlen pMechanism s))))
           = invocations sc_decipher (calls s))"
proof (intro conjI impI)
  assume sign: "usage (obj_data obj)
      AND (SC_PKCS15_PRKEY_USAGE_SIGN OR SC_PKCS15_PRKEY_USAGE_NONREPUDIATION) \<noteq> 0"
  have emu: "sign_needs_emulation K obj alg_info"
    using assms(1,3,4) sign
    by (simp add: sign_needs_emulation_def USAGE_ANY_SIGN_def USAGE_ANY_DECIPHER_def)
  have alloc: "sc_mem_secure_alloc lib (size_t (length inp + modlen)) = Some fresh"
    using assms(7,8) by simp
  have eq: "sc_pkcs15_compute_signature K crd lib p15card obj flags inp out outlen pMechanism s
      = sign_emulate K crd lib p15card obj flags inp out outlen pMechanism modlen
          buflen (inp @ drop (length inp) fresh) SC_SUCCESS s"
    unfolding assms(7)
    by (rule compute_signature_emulated
        [OF any_sign_accepted [OF sign] assms(2) emu assms(5,6) alloc])
  {
    assume "flags AND SC_ALGORITHM_RSA_RAW K \<noteq> 0"
    then show "sc_pkcs15_compute_signature K crd lib p15card obj flags inp out outlen
          pMechanism s
        = sc_pkcs15_decipher K crd lib p15card obj flags inp out outlen None s"
      by (simp add: eq sign_emulate_def)
  }
  {
    assume "flags AND SC_ALGORITHM_RSA_RAW K = 0 \<and> modlen \<le> buflen
        \<and> sc_pkcs1_encode lib flags inp buflen (modulus_length (obj_data obj)) pMechanism
             = (r1, enc)
        \<and> 0 \<le> r1"
    then show "sc_pkcs15_compute_signature K crd lib p15card obj flags inp out outlen
          pMechanism s
        = sc_pkcs15_decipher K crd lib p15card obj
            ((flags AND NOT (SC_ALGORITHM_RSA_PADS K)) OR SC_ALGORITHM_RSA_RAW K)
            (take modlen (enc @ drop (length enc) (inp @ drop (length inp) fresh)))
            out outlen None s"
      by (auto simp: eq sign_emulate_def)
  }
  have "\<And>r' out' s'. sign_emulate K crd lib p15card obj flags inp out outlen pMechanism modlen
        buflen (inp @ drop (length inp) fresh) SC_SUCCESS s = (r', out', s')
      \<Longrightarrow> invocations sc_compute_signature (calls s') = invocations sc_compute_signature (calls s)"
    by (rule sign_emulate_invocations)
  then show "invocations sc_compute_signature
        (calls (snd (snd (sc_pkcs15_compute_signature K crd lib p15card obj flags inp out
                            outlen pMechanism s))))
      = invocations sc_compute_signature (calls s)"
    unfolding eq by (metis prod.collapse)
next
  assume h: "usage (obj_data obj)
        AND (SC_PKCS15_PRKEY_USAGE_SIGN OR SC_PKCS15_PRKEY_USAGE_NONREPUDIATION) = 0
      \<and> usage (obj_data obj) AND SC_PKCS15_PRKEY_USAGE_SIGNRECOVER \<noteq> 0"
  have no: "\<not> sign_needs_emulation K obj alg_info"
    using h by (simp add: sign_needs_emulation_def USAGE_ANY_SIGN_def)
  have acc: "usage (obj_data obj)
      AND (SC_PKCS15_PRKEY_USAGE_SIGN OR SC_PKCS15_PRKEY_USAGE_SIGNRECOVER
           OR SC_PKCS15_PRKEY_USAGE_NONREPUDIATION) \<noteq> 0"
    using h by (intro sign_recover_accepted) simp
  have alloc: "sc_mem_secure_alloc lib (size_t (length inp + modlen)) = Some fresh"
    using assms(7,8) by simp
  have eq: "sc_pkcs15_compute_signature K crd lib p15card obj flags inp out outlen pMechanism s
      = sign_on_card K crd lib p15card obj senv0 alg_info flags (length inp) out outlen
          pMechanism modlen buflen (inp @ drop (length inp) fresh) s"
    unfolding assms(7)
    by (rule compute_signature_rsa_on_card [OF assms(1) acc assms(2) no assms(5,6) alloc])
  show "sc_pkcs15_compute_signature K crd lib p15card obj flags inp out outlen pMechanism s
      = sign_on_card K crd lib p15card obj senv0 alg_info flags (length inp) out outlen
          pMechanism modlen buflen (inp @ drop (length inp) fresh) s"
    by (rule eq)
  have "\<And>r' out' s'. sign_on_card K crd lib p15card obj senv0 alg_info flags (length inp) out
        outlen pMechanism modlen buflen (inp @ drop (length inp) fresh) s = (r', out', s')
      \<Longrightarrow> invocations sc_decipher (calls s') = invocations sc_decipher (calls s)"
    by (rule sign_on_card_invocations) simp_all
  then show "invocations sc_decipher
        (calls (snd (snd (sc_pkcs15_compute_signature K crd lib p15card obj flags inp out
                            outlen pMechanism s))))
      = invocations sc_decipher (calls s)"
    unfolding eq by (metis prod.collapse)
qed

lemma int_cast_small: "n < 2 ^ 31 \<Longrightarrow> int_cast n = int n"
  by (simp add: int_cast_def)

text \<open>
  C7, as the code has it. In an RSA signing call that reaches the device through the sign
  primitive (the request is not emulated by deciphering, and the steps before the dispatcher
  succeed), if the dispatcher returns \<open>r\<close> bytes, fewer than the byte length \<open>modlen\<close> of the
  modulus, the first \<open>modlen\<close> bytes of the output buffer are \<open>modlen - r\<close> zero bytes
  followed by the \<open>r\<close> bytes of the device, and the handler returns \<^verbatim>\<open>(int)modlen\<close>, which is
  \<open>modlen\<close> below \<open>2\<^sup>3\<^sup>1\<close>. An RSA signing call that is emulated by deciphering returns what
  \<^verbatim>\<open>sc_pkcs15_decipher\<close> returns: the code jumps past the lines that would fill up a short
  result.
\<close>

theorem rsa_signature_zero_padded:
  assumes "obj_type obj = SC_PKCS15_TYPE_PRKEY_RSA"
    and "usage (obj_data obj)
           AND (SC_PKCS15_PRKEY_USAGE_SIGN OR SC_PKCS15_PRKEY_USAGE_SIGNRECOVER
                OR SC_PKCS15_PRKEY_USAGE_NONREPUDIATION) \<noteq> 0"
    and "format_senv K lib p15card obj = Inr (senv0, alg_info)"
    and "modlen = BYTES4BITS (modulus_length (obj_data obj))" and "modlen \<le> outlen"
    and "buflen = size_t (length inp + modlen)"
    and "sc_mem_secure_alloc lib buflen = Some fresh"
  shows
    "(\<not> sign_needs_emulation K obj alg_info
      \<and> sign_strip_digest_info K lib obj alg_info flags buflen
           (inp @ drop (length inp) fresh) (length inp) = Inr (flags1, tmp1, inlen1)
      \<and> sc_get_encoding_flags lib (sign_ec_flags K obj alg_info flags1) (alg_flags alg_info)
           = (SC_SUCCESS, pad_flags, sec_flags)
      \<and> sign_pad_input K lib obj
           (senv0\<lparr>senv_operation := SC_SEC_OPERATION_SIGN, senv_algorithm_flags := sec_flags\<rparr>)
           (sign_ec_flags K obj alg_info flags1) pad_flags pMechanism modlen
           buflen tmp1 inlen1 = Inr (tmp2, inlen2)
      \<and> use_key crd lib p15card obj
           (senv0\<lparr>senv_operation := SC_SEC_OPERATION_SIGN, senv_algorithm_flags := sec_flags\<rparr>)
           sc_compute_signature (take inlen2 tmp2) out outlen s = (r, senv', Some sig, s')
      \<and> 0 \<le> r \<and> nat r < modlen \<and> modlen \<le> length sig
      \<longrightarrow>
      sc_pkcs15_compute_signature K crd lib p15card obj flags inp out outlen pMechanism s
        = (int_cast modlen,
           Some (replicate (modlen - nat r) 0 @ take (nat r) sig @ drop modlen sig), s')
      \<and> take modlen (replicate (modlen - nat r) 0 @ take (nat r) sig @ drop modlen sig)
        = replicate (modlen - nat r) 0 @ take (nat r) sig
      \<and> length (replicate (modlen - nat r) 0 @ take (nat r) sig) = modlen
      \<and> (modlen < 2 ^ 31 \<longrightarrow> int_cast modlen = int modlen))
     \<and> (sign_needs_emulation K obj alg_info \<longrightarrow>
        (flags AND SC_ALGORITHM_RSA_RAW K \<noteq> 0 \<longrightarrow>
           sc_pkcs15_compute_signature K crd lib p15card obj flags inp out outlen pMechanism s
             = sc_pkcs15_decipher K crd lib p15card obj flags inp out outlen None s)
        \<and> (flags AND SC_ALGORITHM_RSA_RAW K = 0 \<and> modlen \<le> buflen
           \<and> sc_pkcs1_encode lib flags inp buflen (modulus_length (obj_data obj)) pMechanism
                = (r1, enc)
           \<and> 0 \<le> r1 \<longrightarrow>
           sc_pkcs15_compute_signature K crd lib p15card obj flags inp out outlen pMechanism s
             = sc_pkcs15_decipher K crd lib p15card obj
                 ((flags AND NOT (SC_ALGORITHM_RSA_PADS K)) OR SC_ALGORITHM_RSA_RAW K)
                 (take modlen (enc @ drop (length enc) (inp @ drop (length inp) fresh)))
                 out outlen None s))"
proof -
  have alloc: "sc_mem_secure_alloc lib (size_t (length inp + modlen)) = Some fresh"
    using assms(6,7) by simp
  have padded: "sc_pkcs15_compute_signature K crd lib p15card obj flags inp out outlen
        pMechanism s
      = (int_cast modlen,
         Some (replicate (modlen - nat r) 0 @ take (nat r) sig @ drop modlen sig), s')
      \<and> take modlen (replicate (modlen - nat r) 0 @ take (nat r) sig @ drop modlen sig)
        = replicate (modlen - nat r) 0 @ take (nat r) sig
      \<and> length (replicate (modlen - nat r) 0 @ take (nat r) sig) = modlen
      \<and> (modlen < 2 ^ 31 \<longrightarrow> int_cast modlen = int modlen)"
    if h: "\<not> sign_needs_emulation K obj alg_info
      \<and> sign_strip_digest_info K lib obj alg_info flags buflen
           (inp @ drop (length inp) fresh) (length inp) = Inr (flags1, tmp1, inlen1)
      \<and> sc_get_encoding_flags lib (sign_ec_flags K obj alg_info flags1) (alg_flags alg_info)
           = (SC_SUCCESS, pad_flags, sec_flags)
      \<and> sign_pad_input K lib obj
           (senv0\<lparr>senv_operation := SC_SEC_OPERATION_SIGN, senv_algorithm_flags := sec_flags\<rparr>)
           (sign_ec_flags K obj alg_info flags1) pad_flags pMechanism modlen
           buflen tmp1 inlen1 = Inr (tmp2, inlen2)
      \<and> use_key crd lib p15card obj
           (senv0\<lparr>senv_operation := SC_SEC_OPERATION_SIGN, senv_algorithm_flags := sec_flags\<rparr>)
           sc_compute_signature (take inlen2 tmp2) out outlen s = (r, senv', Some sig, s')
      \<and> 0 \<le> r \<and> nat r < modlen \<and> modlen \<le> length sig"
  proof -
    from h have no: "\<not> sign_needs_emulation K obj alg_info" by simp
    have on_card: "sign_on_card K crd lib p15card obj senv0 alg_info flags (length inp) out
          outlen pMechanism modlen buflen (inp @ drop (length inp) fresh) s
        = (int_cast modlen,
           Some (replicate (modlen - nat r) 0 @ take (nat r) sig @ drop modlen sig), s')"
      using assms(1) h by (simp add: sign_on_card_def sign_fix_length_def)
    have res: "sc_pkcs15_compute_signature K crd lib p15card obj flags inp out outlen
          pMechanism s
        = (int_cast modlen,
           Some (replicate (modlen - nat r) 0 @ take (nat r) sig @ drop modlen sig), s')"
      using compute_signature_rsa_on_card [OF assms(1,2,3) no assms(4,5) alloc,
          where crd = crd and flags = flags and out = out and pMechanism = pMechanism
            and s = s]
        on_card
      unfolding assms(6) by simp
    have len: "length (replicate (modlen - nat r) (0 :: u8) @ take (nat r) sig) = modlen"
      using h by simp
    have tk: "take modlen (replicate (modlen - nat r) 0 @ take (nat r) sig @ drop modlen sig)
        = replicate (modlen - nat r) 0 @ take (nat r) sig"
      using len by (metis append.assoc append_eq_conv_conj)
    show ?thesis using res tk len int_cast_small by simp
  qed
  have eq: "sc_pkcs15_compute_signature K crd lib p15card obj flags inp out outlen pMechanism s
      = sign_emulate K crd lib p15card obj flags inp out outlen pMechanism modlen
          buflen (inp @ drop (length inp) fresh) SC_SUCCESS s"
    if emu: "sign_needs_emulation K obj alg_info"
    unfolding assms(6)
    by (rule compute_signature_emulated [OF assms(2,3) emu assms(4,5) alloc])
  have raw: "sc_pkcs15_compute_signature K crd lib p15card obj flags inp out outlen pMechanism s
      = sc_pkcs15_decipher K crd lib p15card obj flags inp out outlen None s"
    if "sign_needs_emulation K obj alg_info" and "flags AND SC_ALGORITHM_RSA_RAW K \<noteq> 0"
    using that by (simp add: eq sign_emulate_def)
  have enc: "sc_pkcs15_compute_signature K crd lib p15card obj flags inp out outlen pMechanism s
      = sc_pkcs15_decipher K crd lib p15card obj
          ((flags AND NOT (SC_ALGORITHM_RSA_PADS K)) OR SC_ALGORITHM_RSA_RAW K)
          (take modlen (enc @ drop (length enc) (inp @ drop (length inp) fresh)))
          out outlen None s"
    if "sign_needs_emulation K obj alg_info"
      and "flags AND SC_ALGORITHM_RSA_RAW K = 0 \<and> modlen \<le> buflen
        \<and> sc_pkcs1_encode lib flags inp buflen (modulus_length (obj_data obj)) pMechanism
             = (r1, enc)
        \<and> 0 \<le> r1"
    using that by (auto simp: eq sign_emulate_def)
  from padded raw enc show ?thesis by blast
qed

section \<open>The handlers on the scripted device\<close>

lemma stub_use_key:
  assumes "get_file_path obj = Inr stub_path" and "sel w = 0" and "env w = 0" and "0 \<le> cmd w"
  shows "use_key (stub_card sel env cmd wr reval) lib stub_p15card obj senv c inp out outlen
      \<lparr>dev = w, calls = evs\<rparr>
    = (cmd w, stub_senv_selected senv, write_out wr out,
       \<lparr>dev = w, calls = evs @ [Lock 0, Select_file stub_path 0,
                Set_security_env (stub_senv_selected senv) 0,
                Command c inp outlen (cmd w), Unlock]\<rparr>)"
proof -
  let ?C = "stub_card sel env cmd wr reval"
  let ?e1 = "evs @ [Lock 0, Select_file stub_path 0,
                Set_security_env (stub_senv_selected senv) 0]"
  have l: "do_lock ?C \<lparr>dev = w, calls = evs\<rparr> = (0, \<lparr>dev = w, calls = evs @ [Lock 0]\<rparr>)"
    by (simp add: stub_lock)
  have q: "use_key_prepare ?C lib stub_p15card obj stub_path 0 senv
      \<lparr>dev = w, calls = evs @ [Lock 0]\<rparr>
      = (SC_SUCCESS, stub_senv_selected senv, \<lparr>dev = w, calls = ?e1\<rparr>)"
    using assms(2,3) by (simp add: stub_prepare_key [OF assms(1)] SC_SUCCESS_def)
  have d: "do_command ?C c inp out outlen \<lparr>dev = w, calls = ?e1\<rparr>
      = (cmd w, write_out wr out, \<lparr>dev = w, calls = ?e1 @ [Command c inp outlen (cmd w)]\<rparr>)"
    by (simp add: stub_command)
  have z: "(0::int) \<le> 0" by simp
  show ?thesis
    using use_key_first_pass_ok [OF assms(1) l z q d assms(4)]
    by (simp add: stub_unlock)
qed

lemma stub_consts_simps:
  "SC_ALGORITHM_NEED_USAGE stub_consts = 0x40000000"
  "SC_ALGORITHM_RSA_RAW stub_consts = 0x00000001"
  "SC_ALGORITHM_RSA_PADS stub_consts = 0x000000FF"
  "SC_ALGORITHM_RSA_PAD_NONE stub_consts = 0x00000001"
  "SC_ALGORITHM_RSA_PAD_PKCS1_TYPE_01 stub_consts = 0x00000002"
  "SC_ALGORITHM_RSA_PAD_PKCS1_TYPE_02 stub_consts = 0x00000040"
  "SC_ALGORITHM_RSA_PAD_OAEP stub_consts = 0x00000020"
  "SC_ALGORITHM_RSA_HASH_NONE stub_consts = 0x00000100"
  "SC_ALGORITHM_ECDSA_RAW stub_consts = 0x00100000"
  "SC_ALGORITHM_ECDSA_HASHES stub_consts = 0x0001E200"
  "SC_ALGORITHM_AES_ECB stub_consts = 0x01000000"
  "SC_ALGORITHM_AES_CBC stub_consts = 0x02000000"
  "SC_ALGORITHM_AES_CBC_PAD stub_consts = 0x04000000"
  "SC_SEC_ENV_MAX_PARAMS stub_consts = 10"
  "sizeof_sc_path_t stub_consts = 64"
  "sizeof_CK_RSA_PKCS_OAEP_PARAMS stub_consts = 40"
  by (simp_all add: stub_consts_def)

lemma stub_lib_simps:
  "ENABLE_OPENSSL (stub_lib caps) = False"
  "sc_append_path (stub_lib caps) d p
     = \<lparr>path_value = path_value d @ path_value p, path_type = SC_PATH_TYPE_PATH, path_aid = []\<rparr>"
  "sc_card_find_rsa_alg (stub_lib caps) n = Some \<lparr>alg_key_length = n, alg_flags = caps\<rparr>"
  "sc_card_find_gostr3410_alg (stub_lib caps) n = Some \<lparr>alg_key_length = n, alg_flags = caps\<rparr>"
  "sc_card_find_eddsa_alg (stub_lib caps) n = Some \<lparr>alg_key_length = n, alg_flags = caps\<rparr>"
  "sc_card_find_xeddsa_alg (stub_lib caps) n = Some \<lparr>alg_key_length = n, alg_flags = caps\<rparr>"
  "sc_card_find_ec_alg (stub_lib caps) n = Some \<lparr>alg_key_length = n, alg_flags = caps\<rparr>"
  "sc_card_find_alg (stub_lib caps) a n = Some \<lparr>alg_key_length = n, alg_flags = caps\<rparr>"
  "sc_get_encoding_flags (stub_lib caps) iflags c = (0, 0, iflags)"
  "sc_pkcs1_strip_02_padding_constant_time (stub_lib caps) k out len = (int len, out)"
  "sc_pkcs1_strip_oaep_padding (stub_lib caps) out len flags param paramlen = (int len, out)"
  "sc_pkcs1_encode (stub_lib caps) flags inp cap mod_bits mech
     = (0, replicate (BYTES4BITS mod_bits - length inp) 0xFF @ inp)"
  "sc_pkcs1_strip_digest_info_prefix (stub_lib caps) inp cap = (0, 0, inp)"
  "sc_mem_secure_alloc (stub_lib caps) n = Some (replicate n 0)"
  "sc_mem_reverse (stub_lib caps) buf n = (0, rev (take n buf) @ drop n buf)"
  by (simp_all add: stub_lib_def stub_alg_def)

text \<open>What \<^verbatim>\<open>format_senv\<close> builds for a native RSA key of the examples.\<close>

lemma stub_format_senv_rsa:
  "format_senv stub_consts (stub_lib caps) stub_p15card (stub_key SC_PKCS15_TYPE_PRKEY_RSA us True bits)
     = Inr ((zero_senv stub_consts)
              \<lparr>senv_algorithm := SC_ALGORITHM_RSA, senv_key_size_bits := bits,
               senv_flags := SC_SEC_ENV_ALG_PRESENT OR SC_SEC_ENV_KEY_REF_PRESENT,
               senv_key_ref := [1]\<rparr>,
            \<lparr>alg_key_length = bits, alg_flags = caps\<rparr>)"
  by (simp add: format_senv_def stub_key_def stub_lib_simps stub_p15card_def zero_senv_def)

lemma stub_rsa_key_eq: "stub_rsa_key = (stub_key SC_PKCS15_TYPE_PRKEY_RSA 0x3FF True 2048)
    \<lparr>obj_data := (obj_data (stub_key SC_PKCS15_TYPE_PRKEY_RSA 0x3FF True 2048))
        \<lparr>field_length := 0, value_len := 0, key_type := 0\<rparr>\<rparr>"
  by (simp add: stub_rsa_key_def stub_key_def)

lemma replicate_numeral_unfold:
  "replicate (numeral k) x = x # replicate (pred_numeral k) x"
  by (simp add: numeral_eq_Suc)

lemma stub_sym_command:
  "do_sym_command (stub_card sel env cmd wr reval) c inp out outlen \<lparr>dev = w, calls = evs\<rparr>
     = (cmd w, write_out wr out, map_option (\<lambda>old. length wr) outlen,
        \<lparr>dev = w,
         calls = evs @ [case c of sc_encrypt_symmetric \<Rightarrow> Encrypt_sym inp (cmd w)
                        | sc_decrypt_symmetric \<Rightarrow> Decrypt_sym inp (cmd w)]\<rparr>)"
  by (cases c) (simp_all add: do_sym_command_def stub_card_def)

lemma format_senv_params:
  "format_senv K lib p15card obj = Inr (senv0, alg_info)
    \<Longrightarrow> senv_params senv0 = replicate (SC_SEC_ENV_MAX_PARAMS K) zero_param"
  by (auto simp: format_senv_def zero_senv_def Let_def
      split: if_splits sum.splits sc_pkcs15_type.splits option.splits)

lemma add_param_slots_free:
  "0 < n \<Longrightarrow> add_param_slots (replicate n zero_param) p = Some (p # replicate (n - 1) zero_param)"
  by (cases n) (simp_all add: zero_param_def)

theorem wrap_length_query_witness:
  "(case sc_pkcs15_wrap stub_consts
           (stub_card (always 0) (always 0) (always 4) [1, 2, 3, 4] (always 0))
           (stub_lib 0) stub_p15card stub_rsa_key (stub_key SC_PKCS15_TYPE_SKEY_GENERIC 0x3FF True 128)
           0 None (Some 0) None 0 init_st of
      (r, cryptogram, crgram_len, s) \<Rightarrow>
        r = 4 \<and> cryptogram = None \<and> crgram_len = Some 4
        \<and> map kind_of (calls s)
          = [Lock_call, Select_file_call, Set_security_env_call, Command_call sc_wrap,
             Unlock_call])
   \<and> (case sc_pkcs15_wrap stub_consts
           (stub_card (always 0) (always 0) (always 4) [1, 2, 3, 4] (always 0))
           (stub_lib 0) stub_p15card stub_rsa_key (stub_key SC_PKCS15_TYPE_SKEY_GENERIC 0x3FF True 128)
           0 (Some [0, 0]) (Some 2) None 0 init_st of
      (r, cryptogram, crgram_len, s) \<Rightarrow>
        r = SC_ERROR_BUFFER_TOO_SMALL \<and> cryptogram = Some [1, 2] \<and> crgram_len = Some 4
        \<and> map kind_of (calls s)
          = [Lock_call, Select_file_call, Set_security_env_call, Command_call sc_wrap,
             Unlock_call])"
proof -
  let ?C = "stub_card (always 0) (always 0) (always 4) [1, 2, 3, 4] (always 0)"
  let ?t = "stub_key SC_PKCS15_TYPE_SKEY_GENERIC 0x3FF True 128"
  let ?F = "format_senv stub_consts (stub_lib 0) stub_p15card stub_rsa_key"
  let ?base = "fst (projr ?F)"
  let ?alg = "snd (projr ?F)"
  let ?W = "wrap_senv stub_consts (stub_lib 0) stub_p15card SC_SEC_OPERATION_WRAP ?base ?alg
      (key_path (obj_data ?t)) 0 None 0"
  let ?senv = "projr ?W"
  let ?evs = "[Lock 0, Select_file stub_path 0, Set_security_env (stub_senv_selected ?senv) 0,
      Command sc_wrap [] 0 4, Unlock]"
  let ?evs2 = "[Lock 0, Select_file stub_path 0, Set_security_env (stub_senv_selected ?senv) 0,
      Command sc_wrap [] 2 4, Unlock]"
  have k: "obj_type stub_rsa_key \<in> {SC_PKCS15_TYPE_PRKEY_RSA, SC_PKCS15_TYPE_SKEY_DES,
        SC_PKCS15_TYPE_SKEY_3DES, SC_PKCS15_TYPE_SKEY_GENERIC}"
    and u: "usage (obj_data stub_rsa_key) AND SC_PKCS15_PRKEY_USAGE_WRAP \<noteq> 0"
    and tk: "obj_type ?t = SC_PKCS15_TYPE_PRKEY_RSA
        \<or> class_of_type (obj_type ?t) = SC_PKCS15_TYPE_SKEY"
    by (simp_all add: stub_rsa_key_def stub_key_def SC_PKCS15_PRKEY_USAGE_WRAP_def)
  have F: "?F = Inr (?base, ?alg)"
    by (simp add: format_senv_def stub_rsa_key_def stub_lib_simps)
  have alg: "alg_flags ?alg = 0"
    by (simp add: format_senv_def stub_rsa_key_def stub_lib_simps)
  have W: "?W = Inr ?senv"
    by (simp add: wrap_senv_def target_file_id_def stub_key_def stub_path_def
        sec_env_add_param_def format_senv_params [OF F] add_param_slots_free stub_consts_simps
        alg stub_lib_simps)
  have p: "get_file_path stub_rsa_key = Inr stub_path"
    by (rule stub_key_path)
  have U1: "use_key ?C (stub_lib 0) stub_p15card stub_rsa_key ?senv sc_wrap [] None 0 init_st
      = (4, stub_senv_selected ?senv, None, \<lparr>dev = 0, calls = ?evs\<rparr>)"
    by (simp add: init_st_def stub_use_key [OF p] always_def write_out_def)
  have U2: "use_key ?C (stub_lib 0) stub_p15card stub_rsa_key ?senv sc_wrap [] (Some [0, 0]) 2
        init_st
      = (4, stub_senv_selected ?senv, Some [1, 2], \<lparr>dev = 0, calls = ?evs2\<rparr>)"
    by (simp add: init_st_def stub_use_key [OF p] always_def write_out_def)
  have n: "(0::int) \<le> 4" by simp
  show ?thesis
    using wrap_length_query [OF k u tk F W U1 n] wrap_length_query [OF k u tk F W U2 n]
    by simp
qed

lemma stub_decipher:
  assumes "us AND (SC_PKCS15_PRKEY_USAGE_DECRYPT OR SC_PKCS15_PRKEY_USAGE_UNWRAP) \<noteq> 0"
    and "sel w = 0" and "env w = 0" and "0 \<le> cmd w"
  shows "sc_pkcs15_decipher stub_consts (stub_card sel env cmd wr reval) (stub_lib caps)
      stub_p15card (stub_key SC_PKCS15_TYPE_PRKEY_RSA us True bits) flags inp out outlen mech
      \<lparr>dev = w, calls = evs\<rparr>
    = (cmd w, write_out wr out,
       \<lparr>dev = w, calls = evs @ [Lock 0, Select_file stub_path 0,
          Set_security_env (stub_senv_selected ((zero_senv stub_consts)
              \<lparr>senv_algorithm := SC_ALGORITHM_RSA, senv_key_size_bits := bits,
               senv_flags := SC_SEC_ENV_ALG_PRESENT OR SC_SEC_ENV_KEY_REF_PRESENT,
               senv_key_ref := [1], senv_operation := SC_SEC_OPERATION_DECIPHER,
               senv_algorithm_flags := flags\<rparr>)) 0,
          Command sc_decipher inp outlen (cmd w), Unlock]\<rparr>)"
proof -
  have p: "get_file_path (stub_key SC_PKCS15_TYPE_PRKEY_RSA us True bits) = Inr stub_path"
    by (simp add: stub_get_file_path)
  have u: "usage (obj_data (stub_key SC_PKCS15_TYPE_PRKEY_RSA us True bits)) = us"
    by (simp add: stub_key_def)
  show ?thesis
    using assms
    by (simp add: sc_pkcs15_decipher_def u stub_format_senv_rsa stub_lib_simps
        stub_use_key [OF p])
qed

text \<open>
  A raw signing request for the input \<open>[7]\<close> with a native RSA key of 64 bits on the scripted
  device, when the request is not emulated by deciphering: the input is filled up to 8 bytes
  and the sign primitive is invoked once.
\<close>

lemma stub_sign_raw:
  assumes "\<not> sign_needs_emulation stub_consts (stub_key SC_PKCS15_TYPE_PRKEY_RSA us True 64)
        \<lparr>alg_key_length = 64, alg_flags = caps\<rparr>"
    and "us AND (SC_PKCS15_PRKEY_USAGE_SIGN OR SC_PKCS15_PRKEY_USAGE_SIGNRECOVER
                OR SC_PKCS15_PRKEY_USAGE_NONREPUDIATION) \<noteq> 0"
    and "0 \<le> n"
  shows "sc_pkcs15_compute_signature stub_consts
       (stub_card (always 0) (always 0) (always n) wr (always 0))
       (stub_lib caps) stub_p15card (stub_key SC_PKCS15_TYPE_PRKEY_RSA us True 64)
       1 [7] (Some out) 8 None init_st
     = (case sign_fix_length (stub_key SC_PKCS15_TYPE_PRKEY_RSA us True 64) 8 n
               (write_out wr (Some out)) of
          (r, out') \<Rightarrow>
            (r, out',
             \<lparr>dev = 0, calls = [Lock 0, Select_file stub_path 0,
                Set_security_env (stub_senv_selected ((zero_senv stub_consts)
                    \<lparr>senv_algorithm := SC_ALGORITHM_RSA, senv_key_size_bits := 64,
                     senv_flags := SC_SEC_ENV_ALG_PRESENT OR SC_SEC_ENV_KEY_REF_PRESENT,
                     senv_key_ref := [1], senv_operation := SC_SEC_OPERATION_SIGN,
                     senv_algorithm_flags := 1\<rparr>)) 0,
                Command sc_compute_signature [0, 0, 0, 0, 0, 0, 0, 7] 8 n, Unlock]\<rparr>))"
proof -
  let ?k = "stub_key SC_PKCS15_TYPE_PRKEY_RSA us True 64"
  have u: "usage (obj_data ?k) = us" and m: "modulus_length (obj_data ?k) = 64"
    and ty: "obj_type ?k = SC_PKCS15_TYPE_PRKEY_RSA"
    by (simp_all add: stub_key_def)
  have p: "get_file_path ?k = Inr stub_path"
    by (simp add: stub_get_file_path)
  have ec: "sign_ec_flags stub_consts ?k \<lparr>alg_key_length = 64, alg_flags = caps\<rparr> 1 = 1"
    by (simp add: sign_ec_flags_def ty)
  show ?thesis
    using assms
    by (simp add: sc_pkcs15_compute_signature_def u m ty stub_format_senv_rsa sign_modlen_def
        BYTES4BITS_def size_t_def stub_lib_simps sign_on_card_def sign_strip_digest_info_def
        stub_consts_simps ec sign_pad_input_def replicate_numeral_unfold SC_SUCCESS_def
        init_st_def stub_use_key [OF p] always_def)
qed

theorem rsa_signature_zero_padded_witness:
  "(case sc_pkcs15_compute_signature stub_consts
           (stub_card (always 0) (always 0) (always 5) [1, 2, 3, 4, 5] (always 0))
           (stub_lib 0) stub_p15card (stub_key SC_PKCS15_TYPE_PRKEY_RSA 0x3FF True 64)
           1 [7] (Some (replicate 8 0xEE)) 8 None init_st of
      (r, out, s) \<Rightarrow>
        r = 8 \<and> out = Some [0, 0, 0, 1, 2, 3, 4, 5]
        \<and> map kind_of (calls s)
          = [Lock_call, Select_file_call, Set_security_env_call,
             Command_call sc_compute_signature, Unlock_call])
   \<and> sc_pkcs15_compute_signature stub_consts
       (stub_card (always 0) (always 0) (always 5) [1, 2, 3, 4, 5] (always 0))
       (stub_lib 0x40000000) stub_p15card (stub_key SC_PKCS15_TYPE_PRKEY_RSA 0x3FF True 64)
       1 [7] (Some (replicate 8 0xEE)) 8 None init_st
     = sc_pkcs15_decipher stub_consts
       (stub_card (always 0) (always 0) (always 5) [1, 2, 3, 4, 5] (always 0))
       (stub_lib 0x40000000) stub_p15card (stub_key SC_PKCS15_TYPE_PRKEY_RSA 0x3FF True 64)
       1 [7] (Some (replicate 8 0xEE)) 8 None init_st"
proof -
  let ?C = "stub_card (always 0) (always 0) (always 5) [1, 2, 3, 4, 5] (always 0)"
  let ?k = "stub_key SC_PKCS15_TYPE_PRKEY_RSA 0x3FF True 64"
  let ?base = "(zero_senv stub_consts)
      \<lparr>senv_algorithm := SC_ALGORITHM_RSA, senv_key_size_bits := 64,
       senv_flags := SC_SEC_ENV_ALG_PRESENT OR SC_SEC_ENV_KEY_REF_PRESENT,
       senv_key_ref := [1]\<rparr>"
  let ?alg = "\<lparr>alg_key_length = 64, alg_flags = 0 :: ulong\<rparr>"
  let ?usage = "\<lparr>alg_key_length = 64, alg_flags = 0x40000000 :: ulong\<rparr>"
  let ?sign = "?base\<lparr>senv_operation := SC_SEC_OPERATION_SIGN, senv_algorithm_flags := 1\<rparr>"
  let ?buf = "[7, 0, 0, 0, 0, 0, 0, 0, 0 :: u8]"
  let ?tmp = "[0, 0, 0, 0, 0, 0, 0, 7, 0 :: u8]"
  let ?sig = "[1, 2, 3, 4, 5, 0xEE, 0xEE, 0xEE :: u8]"
  let ?fin = "\<lparr>dev = 0 :: nat,
      calls = [Lock 0, Select_file stub_path 0, Set_security_env (stub_senv_selected ?sign) 0,
               Command sc_compute_signature [0, 0, 0, 0, 0, 0, 0, 7] 8 5, Unlock]\<rparr>"
  have h1: "obj_type ?k = SC_PKCS15_TYPE_PRKEY_RSA"
    by (simp add: stub_key_def)
  have h2: "usage (obj_data ?k)
      AND (SC_PKCS15_PRKEY_USAGE_SIGN OR SC_PKCS15_PRKEY_USAGE_SIGNRECOVER
           OR SC_PKCS15_PRKEY_USAGE_NONREPUDIATION) \<noteq> 0"
    by (simp add: stub_key_def const_defs)
  have h3: "format_senv stub_consts (stub_lib 0) stub_p15card ?k = Inr (?base, ?alg)"
    by (rule stub_format_senv_rsa)
  have h3': "format_senv stub_consts (stub_lib 0x40000000) stub_p15card ?k
      = Inr (?base, ?usage)"
    by (rule stub_format_senv_rsa)
  have h4: "\<not> sign_needs_emulation stub_consts ?k ?alg"
    by (simp add: sign_needs_emulation_def)
  have h4': "sign_needs_emulation stub_consts ?k ?usage"
    by (simp add: sign_needs_emulation_def stub_key_def stub_consts_simps const_defs)
  have h5: "(8 :: nat) = BYTES4BITS (modulus_length (obj_data ?k))"
    by (simp add: stub_key_def BYTES4BITS_def size_t_def)
  have h6: "(8 :: nat) \<le> 8" by simp
  have hb: "(9 :: nat) = size_t (length [7 :: u8] + 8)"
    by (simp add: size_t_def)
  have h7: "sc_mem_secure_alloc (stub_lib 0) 9 = Some (replicate 9 0)"
    and h7': "sc_mem_secure_alloc (stub_lib 0x40000000) 9 = Some (replicate 9 0)"
    by (simp_all add: stub_lib_simps)
  have b: "[7 :: u8] @ drop (length [7 :: u8]) (replicate 9 0) = ?buf"
    by (simp add: replicate_numeral_unfold)
  have h8: "sign_strip_digest_info stub_consts (stub_lib 0) ?k ?alg 1 9
      ([7] @ drop (length [7 :: u8]) (replicate 9 0)) (length [7 :: u8]) = Inr (1, ?buf, 1)"
    unfolding b by (simp add: sign_strip_digest_info_def stub_consts_simps)
  have ec: "sign_ec_flags stub_consts ?k ?alg 1 = 1"
    by (simp add: sign_ec_flags_def stub_key_def)
  have h9: "sc_get_encoding_flags (stub_lib 0) (sign_ec_flags stub_consts ?k ?alg 1)
      (alg_flags ?alg) = (SC_SUCCESS, 0, 1)"
    by (simp add: ec stub_lib_simps SC_SUCCESS_def)
  have h10: "sign_pad_input stub_consts (stub_lib 0) ?k ?sign (sign_ec_flags stub_consts ?k ?alg 1)
      0 None 8 9 ?buf 1 = Inr (?tmp, 8)"
    by (simp add: ec sign_pad_input_def stub_consts_simps replicate_numeral_unfold)
  have p: "get_file_path ?k = Inr stub_path"
    by (simp add: stub_get_file_path)
  have h11: "use_key ?C (stub_lib 0) stub_p15card ?k ?sign sc_compute_signature (take 8 ?tmp)
      (Some (replicate 8 0xEE)) 8 init_st = (5, stub_senv_selected ?sign, Some ?sig, ?fin)"
    by (simp add: init_st_def stub_use_key [OF p] always_def write_out_def
        replicate_numeral_unfold)
  have h12: "(0 :: int) \<le> 5" and h13: "nat 5 < (8 :: nat)" and h14: "8 \<le> length ?sig"
    by simp_all
  have small: "(8 :: nat) < 2 ^ 31" by simp
  note on_card = rsa_signature_zero_padded [OF h1 h2 h3 h5 h6 hb h7,
      where crd = ?C and flags = 1 and out = "Some (replicate 8 0xEE)" and pMechanism = None
        and s = init_st and ?flags1.0 = 1 and ?tmp1.0 = ?buf and ?inlen1.0 = 1
        and pad_flags = 0 and sec_flags = 1 and ?tmp2.0 = ?tmp and ?inlen2.0 = 8
        and r = 5 and senv' = "stub_senv_selected ?sign" and sig = ?sig and s' = ?fin]
  from on_card h4 h8 h9 h10 h11 h12 h13 h14
  have res: "sc_pkcs15_compute_signature stub_consts ?C (stub_lib 0) stub_p15card ?k 1 [7]
        (Some (replicate 8 0xEE)) 8 None init_st
      = (int_cast 8,
         Some (replicate (8 - nat 5) 0 @ take (nat 5) ?sig @ drop 8 ?sig), ?fin)"
    and cast: "(8 :: nat) < 2 ^ 31 \<longrightarrow> int_cast 8 = int 8"
    by blast+
  have first: "(case sc_pkcs15_compute_signature stub_consts ?C (stub_lib 0) stub_p15card ?k
        1 [7] (Some (replicate 8 0xEE)) 8 None init_st of
      (r, out, s) \<Rightarrow>
        r = 8 \<and> out = Some [0, 0, 0, 1, 2, 3, 4, 5]
        \<and> map kind_of (calls s)
          = [Lock_call, Select_file_call, Set_security_env_call,
             Command_call sc_compute_signature, Unlock_call])"
    using cast small unfolding res by (simp add: replicate_numeral_unfold)
  note emulated = rsa_signature_zero_padded [OF h1 h2 h3' h5 h6 hb h7',
      where crd = ?C and flags = 1 and out = "Some (replicate 8 0xEE)" and pMechanism = None
        and s = init_st]
  have raw: "(1 :: ulong) AND SC_ALGORITHM_RSA_RAW stub_consts \<noteq> 0"
    by (simp add: stub_consts_simps)
  from emulated h4' raw
  have second: "sc_pkcs15_compute_signature stub_consts ?C (stub_lib 0x40000000) stub_p15card ?k
        1 [7] (Some (replicate 8 0xEE)) 8 None init_st
      = sc_pkcs15_decipher stub_consts ?C (stub_lib 0x40000000) stub_p15card ?k
        1 [7] (Some (replicate 8 0xEE)) 8 None init_st"
    by blast
  show ?thesis
    by (rule conjI [OF first second])
qed

text \<open>
  The claim as stated fails for an RSA signing call that is emulated by deciphering: the
  call reaches the device, which returns 5 bytes for a modulus of 8 bytes, and the handler
  returns 5 and leaves the 5 bytes at the start of the buffer.
\<close>

theorem rsa_signature_zero_padded_counterexample:
  "sign_needs_emulation stub_consts (stub_key SC_PKCS15_TYPE_PRKEY_RSA 0x3FF True 64)
       \<lparr>alg_key_length = 64, alg_flags = 0x40000000\<rparr>
   \<and> BYTES4BITS (modulus_length (obj_data (stub_key SC_PKCS15_TYPE_PRKEY_RSA 0x3FF True 64)))
     = 8
   \<and> (case sc_pkcs15_compute_signature stub_consts
           (stub_card (always 0) (always 0) (always 5) [1, 2, 3, 4, 5] (always 0))
           (stub_lib 0x40000000) stub_p15card (stub_key SC_PKCS15_TYPE_PRKEY_RSA 0x3FF True 64)
           1 [7] (Some (replicate 8 0xEE)) 8 None init_st of
        (r, out, s) \<Rightarrow>
          r = 5 \<and> out = Some [1, 2, 3, 4, 5, 0xEE, 0xEE, 0xEE]
          \<and> map kind_of (calls s)
            = [Lock_call, Select_file_call, Set_security_env_call, Command_call sc_decipher,
               Unlock_call])"
proof -
  let ?k = "stub_key SC_PKCS15_TYPE_PRKEY_RSA 0x3FF True 64"
  have e: "sign_needs_emulation stub_consts ?k \<lparr>alg_key_length = 64, alg_flags = 0x40000000\<rparr>"
    by (simp add: sign_needs_emulation_def stub_key_def stub_consts_simps const_defs)
  have u: "usage (obj_data ?k) = 0x3FF" and m: "modulus_length (obj_data ?k) = 64"
    and ty: "obj_type ?k = SC_PKCS15_TYPE_PRKEY_RSA"
    by (simp_all add: stub_key_def)
  have d: "(0x3FF :: uint) AND (SC_PKCS15_PRKEY_USAGE_DECRYPT OR SC_PKCS15_PRKEY_USAGE_UNWRAP) \<noteq> 0"
    by (simp add: const_defs)
  have c: "sc_pkcs15_compute_signature stub_consts
        (stub_card (always 0) (always 0) (always 5) [1, 2, 3, 4, 5] (always 0))
        (stub_lib 0x40000000) stub_p15card ?k 1 [7] (Some (replicate 8 0xEE)) 8 None init_st
      = sc_pkcs15_decipher stub_consts
        (stub_card (always 0) (always 0) (always 5) [1, 2, 3, 4, 5] (always 0))
        (stub_lib 0x40000000) stub_p15card ?k 1 [7] (Some (replicate 8 0xEE)) 8 None init_st"
    using e
    by (simp add: sc_pkcs15_compute_signature_def u m ty stub_format_senv_rsa sign_modlen_def
        BYTES4BITS_def size_t_def stub_lib_simps sign_emulate_def stub_consts_simps const_defs)
  show ?thesis
    unfolding c
    by (simp add: e m stub_decipher [OF d] init_st_def always_def BYTES4BITS_def size_t_def
        write_out_def replicate_numeral_unfold)
qed

theorem sign_emulated_by_decipher_witness:
  "sc_pkcs15_compute_signature stub_consts
       (stub_card (always 0) (always 0) (always 8) [1, 2, 3, 4, 5, 6, 7, 8] (always 0))
       (stub_lib 0x40000000) stub_p15card (stub_key SC_PKCS15_TYPE_PRKEY_RSA 0x3FF True 64)
       1 [7] (Some (replicate 8 0)) 8 None init_st
     = sc_pkcs15_decipher stub_consts
       (stub_card (always 0) (always 0) (always 8) [1, 2, 3, 4, 5, 6, 7, 8] (always 0))
       (stub_lib 0x40000000) stub_p15card (stub_key SC_PKCS15_TYPE_PRKEY_RSA 0x3FF True 64)
       1 [7] (Some (replicate 8 0)) 8 None init_st
   \<and> sc_pkcs15_compute_signature stub_consts
       (stub_card (always 0) (always 0) (always 8) [1, 2, 3, 4, 5, 6, 7, 8] (always 0))
       (stub_lib 0x40000000) stub_p15card (stub_key SC_PKCS15_TYPE_PRKEY_RSA 0x3FF True 64)
       2 [7] (Some (replicate 8 0)) 8 None init_st
     = sc_pkcs15_decipher stub_consts
       (stub_card (always 0) (always 0) (always 8) [1, 2, 3, 4, 5, 6, 7, 8] (always 0))
       (stub_lib 0x40000000) stub_p15card (stub_key SC_PKCS15_TYPE_PRKEY_RSA 0x3FF True 64)
       1 [0xFF, 0xFF, 0xFF, 0xFF, 0xFF, 0xFF, 0xFF, 7] (Some (replicate 8 0)) 8 None init_st
   \<and> invocations sc_compute_signature
        (calls (snd (snd (sc_pkcs15_compute_signature stub_consts
           (stub_card (always 0) (always 0) (always 8) [1, 2, 3, 4, 5, 6, 7, 8] (always 0))
           (stub_lib 0x40000000) stub_p15card (stub_key SC_PKCS15_TYPE_PRKEY_RSA 0x3FF True 64)
           2 [7] (Some (replicate 8 0)) 8 None init_st)))) = 0
   \<and> invocations sc_decipher
        (calls (snd (snd (sc_pkcs15_compute_signature stub_consts
           (stub_card (always 0) (always 0) (always 8) [1, 2, 3, 4, 5, 6, 7, 8] (always 0))
           (stub_lib 0x40000000) stub_p15card (stub_key SC_PKCS15_TYPE_PRKEY_RSA 0x0A True 64)
           1 [7] (Some (replicate 8 0)) 8 None init_st)))) = 0"
proof -
  let ?C = "stub_card (always 0) (always 0) (always 8) [1, 2, 3, 4, 5, 6, 7, 8] (always 0)"
  let ?k = "stub_key SC_PKCS15_TYPE_PRKEY_RSA 0x3FF True 64"
  let ?rec = "stub_key SC_PKCS15_TYPE_PRKEY_RSA 0x0A True 64"
  let ?base = "(zero_senv stub_consts)
      \<lparr>senv_algorithm := SC_ALGORITHM_RSA, senv_key_size_bits := 64,
       senv_flags := SC_SEC_ENV_ALG_PRESENT OR SC_SEC_ENV_KEY_REF_PRESENT,
       senv_key_ref := [1]\<rparr>"
  let ?alg = "\<lparr>alg_key_length = 64, alg_flags = 0x40000000 :: ulong\<rparr>"
  have h1: "obj_type ?k = SC_PKCS15_TYPE_PRKEY_RSA"
    and h1': "obj_type ?rec = SC_PKCS15_TYPE_PRKEY_RSA"
    by (simp_all add: stub_key_def)
  have h2: "format_senv stub_consts (stub_lib 0x40000000) stub_p15card ?k = Inr (?base, ?alg)"
    and h2': "format_senv stub_consts (stub_lib 0x40000000) stub_p15card ?rec
      = Inr (?base, ?alg)"
    by (rule stub_format_senv_rsa)+
  have h3: "alg_flags ?alg AND SC_ALGORITHM_NEED_USAGE stub_consts \<noteq> 0"
    by (simp add: stub_consts_simps)
  have h4: "usage (obj_data ?k)
      AND (SC_PKCS15_PRKEY_USAGE_DECRYPT OR SC_PKCS15_PRKEY_USAGE_UNWRAP) \<noteq> 0"
    and h4': "usage (obj_data ?rec)
      AND (SC_PKCS15_PRKEY_USAGE_DECRYPT OR SC_PKCS15_PRKEY_USAGE_UNWRAP) \<noteq> 0"
    by (simp_all add: stub_key_def const_defs)
  have h5: "(8 :: nat) = BYTES4BITS (modulus_length (obj_data ?k))"
    and h5': "(8 :: nat) = BYTES4BITS (modulus_length (obj_data ?rec))"
    by (simp_all add: stub_key_def BYTES4BITS_def size_t_def)
  have h6: "(8 :: nat) \<le> 8" by simp
  have hb: "(9 :: nat) = size_t (length [7 :: u8] + 8)"
    by (simp add: size_t_def)
  have h7: "sc_mem_secure_alloc (stub_lib 0x40000000) 9 = Some (replicate 9 0)"
    by (simp add: stub_lib_simps)
  have sg: "usage (obj_data ?k)
      AND (SC_PKCS15_PRKEY_USAGE_SIGN OR SC_PKCS15_PRKEY_USAGE_NONREPUDIATION) \<noteq> 0"
    by (simp add: stub_key_def const_defs)
  have rc: "usage (obj_data ?rec)
        AND (SC_PKCS15_PRKEY_USAGE_SIGN OR SC_PKCS15_PRKEY_USAGE_NONREPUDIATION) = 0
      \<and> usage (obj_data ?rec) AND SC_PKCS15_PRKEY_USAGE_SIGNRECOVER \<noteq> 0"
    by (simp add: stub_key_def const_defs)
  have enc: "sc_pkcs1_encode (stub_lib 0x40000000) 2 [7] 9
      (modulus_length (obj_data ?k)) None = (0, [0xFF, 0xFF, 0xFF, 0xFF, 0xFF, 0xFF, 0xFF, 7])"
    by (simp add: stub_lib_simps stub_key_def BYTES4BITS_def size_t_def
        replicate_numeral_unfold)
  note T = sign_emulated_by_decipher [OF h1 h2 h3 h4 h5 h6 hb h7, where crd = ?C
      and out = "Some (replicate 8 0)" and s = init_st and pMechanism = None]
  have raw: "sc_pkcs15_compute_signature stub_consts ?C (stub_lib 0x40000000) stub_p15card ?k
        1 [7] (Some (replicate 8 0)) 8 None init_st
      = sc_pkcs15_decipher stub_consts ?C (stub_lib 0x40000000) stub_p15card ?k
        1 [7] (Some (replicate 8 0)) 8 None init_st"
    using T [where flags = 1] sg by (simp add: stub_consts_simps)
  have blk: "take 8 ([0xFF, 0xFF, 0xFF, 0xFF, 0xFF, 0xFF, 0xFF, 7]
        @ drop (length [0xFF, 0xFF, 0xFF, 0xFF, 0xFF, 0xFF, 0xFF, 7 :: u8])
            ([7] @ drop (length [7 :: u8]) (replicate 9 0)))
      = [0xFF, 0xFF, 0xFF, 0xFF, 0xFF, 0xFF, 0xFF, 7 :: u8]"
    by simp
  have fl: "(2 AND NOT (SC_ALGORITHM_RSA_PADS stub_consts)) OR SC_ALGORITHM_RSA_RAW stub_consts
      = 1"
    by (simp add: stub_consts_simps)
  have padded: "sc_pkcs15_compute_signature stub_consts ?C (stub_lib 0x40000000) stub_p15card ?k
        2 [7] (Some (replicate 8 0)) 8 None init_st
      = sc_pkcs15_decipher stub_consts ?C (stub_lib 0x40000000) stub_p15card ?k
        1 [0xFF, 0xFF, 0xFF, 0xFF, 0xFF, 0xFF, 0xFF, 7] (Some (replicate 8 0)) 8 None init_st"
    using T [where flags = 2 and ?r1.0 = 0
        and enc = "[0xFF, 0xFF, 0xFF, 0xFF, 0xFF, 0xFF, 0xFF, 7]"] enc sg
    unfolding blk fl by (simp add: stub_consts_simps)
  have none: "invocations sc_compute_signature
        (calls (snd (snd (sc_pkcs15_compute_signature stub_consts ?C (stub_lib 0x40000000)
           stub_p15card ?k 2 [7] (Some (replicate 8 0)) 8 None init_st)))) = 0"
    using T [where flags = 2] sg by (simp add: init_st_def)
  from sign_emulated_by_decipher [OF h1' h2' h3 h4' h5' h6 hb h7, where crd = ?C
      and out = "Some (replicate 8 0)" and s = init_st and pMechanism = None
      and flags = 1] rc
  have "invocations sc_decipher
        (calls (snd (snd (sc_pkcs15_compute_signature stub_consts ?C (stub_lib 0x40000000)
           stub_p15card ?rec 1 [7] (Some (replicate 8 0)) 8 None init_st))))
      = invocations sc_decipher (calls init_st)"
    by blast
  then have recover: "invocations sc_decipher
        (calls (snd (snd (sc_pkcs15_compute_signature stub_consts ?C (stub_lib 0x40000000)
           stub_p15card ?rec 1 [7] (Some (replicate 8 0)) 8 None init_st)))) = 0"
    by (simp add: init_st_def)
  show ?thesis
    by (rule conjI [OF raw conjI [OF padded conjI [OF none recover]]])
qed

text \<open>
  The claim as stated fails in two ways. For a raw request the decipher primitive receives
  the caller's input \<open>[7]\<close>, not the block that padding in software would have made of it.
  And a key with the sign-recover and the decrypt bit, which the handler accepts for signing
  and for deciphering, is not redirected: its raw request invokes the sign primitive.
\<close>

theorem sign_emulated_by_decipher_counterexample:
  "1 AND SC_ALGORITHM_RSA_RAW stub_consts \<noteq> 0
   \<and> sign_needs_emulation stub_consts (stub_key SC_PKCS15_TYPE_PRKEY_RSA 0x3FF True 64)
       \<lparr>alg_key_length = 64, alg_flags = 0x40000000\<rparr>
   \<and> filter is_command (calls (snd (snd (sc_pkcs15_compute_signature stub_consts
        (stub_card (always 0) (always 0) (always 8) [1, 2, 3, 4, 5, 6, 7, 8] (always 0))
        (stub_lib 0x40000000) stub_p15card (stub_key SC_PKCS15_TYPE_PRKEY_RSA 0x3FF True 64)
        1 [7] (Some (replicate 8 0)) 8 None init_st))))
     = [Command sc_decipher [7] 8 8]
   \<and> snd (sc_pkcs1_encode (stub_lib 0x40000000) 1 [7] 9 64 None)
     = [0xFF, 0xFF, 0xFF, 0xFF, 0xFF, 0xFF, 0xFF, 7]
   \<and> (0x0A :: uint) AND (SC_PKCS15_PRKEY_USAGE_SIGN OR SC_PKCS15_PRKEY_USAGE_SIGNRECOVER
                          OR SC_PKCS15_PRKEY_USAGE_NONREPUDIATION) \<noteq> 0
   \<and> (0x0A :: uint) AND (SC_PKCS15_PRKEY_USAGE_DECRYPT OR SC_PKCS15_PRKEY_USAGE_UNWRAP) \<noteq> 0
   \<and> (0x40000000 :: ulong) AND SC_ALGORITHM_NEED_USAGE stub_consts \<noteq> 0
   \<and> filter is_command (calls (snd (snd (sc_pkcs15_compute_signature stub_consts
        (stub_card (always 0) (always 0) (always 8) [1, 2, 3, 4, 5, 6, 7, 8] (always 0))
        (stub_lib 0x40000000) stub_p15card (stub_key SC_PKCS15_TYPE_PRKEY_RSA 0x0A True 64)
        1 [7] (Some (replicate 8 0)) 8 None init_st))))
     = [Command sc_compute_signature [0, 0, 0, 0, 0, 0, 0, 7] 8 8]"
proof -
  let ?k = "stub_key SC_PKCS15_TYPE_PRKEY_RSA 0x3FF True 64"
  let ?rec = "stub_key SC_PKCS15_TYPE_PRKEY_RSA 0x0A True 64"
  have e: "sign_needs_emulation stub_consts ?k \<lparr>alg_key_length = 64, alg_flags = 0x40000000\<rparr>"
    by (simp add: sign_needs_emulation_def stub_key_def stub_consts_simps const_defs)
  have u: "usage (obj_data ?k) = 0x3FF" and m: "modulus_length (obj_data ?k) = 64"
    and ty: "obj_type ?k = SC_PKCS15_TYPE_PRKEY_RSA"
    by (simp_all add: stub_key_def)
  have d: "(0x3FF :: uint) AND (SC_PKCS15_PRKEY_USAGE_DECRYPT OR SC_PKCS15_PRKEY_USAGE_UNWRAP) \<noteq> 0"
    by (simp add: const_defs)
  have c: "sc_pkcs15_compute_signature stub_consts
        (stub_card (always 0) (always 0) (always 8) [1, 2, 3, 4, 5, 6, 7, 8] (always 0))
        (stub_lib 0x40000000) stub_p15card ?k 1 [7] (Some (replicate 8 0)) 8 None init_st
      = sc_pkcs15_decipher stub_consts
        (stub_card (always 0) (always 0) (always 8) [1, 2, 3, 4, 5, 6, 7, 8] (always 0))
        (stub_lib 0x40000000) stub_p15card ?k 1 [7] (Some (replicate 8 0)) 8 None init_st"
    using e
    by (simp add: sc_pkcs15_compute_signature_def u m ty stub_format_senv_rsa sign_modlen_def
        BYTES4BITS_def size_t_def stub_lib_simps sign_emulate_def stub_consts_simps const_defs)
  have first: "filter is_command (calls (snd (snd (sc_pkcs15_compute_signature stub_consts
        (stub_card (always 0) (always 0) (always 8) [1, 2, 3, 4, 5, 6, 7, 8] (always 0))
        (stub_lib 0x40000000) stub_p15card ?k 1 [7] (Some (replicate 8 0)) 8 None init_st))))
      = [Command sc_decipher [7] 8 8]"
    unfolding c by (simp add: stub_decipher [OF d] init_st_def always_def)
  have block: "snd (sc_pkcs1_encode (stub_lib 0x40000000) 1 [7] 9 64 None)
      = [0xFF, 0xFF, 0xFF, 0xFF, 0xFF, 0xFF, 0xFF, 7]"
    by (simp add: stub_lib_simps BYTES4BITS_def size_t_def replicate_numeral_unfold)
  have no: "\<not> sign_needs_emulation stub_consts ?rec
      \<lparr>alg_key_length = 64, alg_flags = 0x40000000\<rparr>"
    by (simp add: sign_needs_emulation_def stub_key_def const_defs)
  have acc: "(0x0A :: uint) AND (SC_PKCS15_PRKEY_USAGE_SIGN OR SC_PKCS15_PRKEY_USAGE_SIGNRECOVER
      OR SC_PKCS15_PRKEY_USAGE_NONREPUDIATION) \<noteq> 0"
    and dec: "(0x0A :: uint) AND (SC_PKCS15_PRKEY_USAGE_DECRYPT OR SC_PKCS15_PRKEY_USAGE_UNWRAP)
      \<noteq> 0"
    by (simp_all add: const_defs)
  have need: "(0x40000000 :: ulong) AND SC_ALGORITHM_NEED_USAGE stub_consts \<noteq> 0"
    and raw: "1 AND SC_ALGORITHM_RSA_RAW stub_consts \<noteq> 0"
    by (simp_all add: stub_consts_simps)
  have z: "(0 :: int) \<le> 8" by simp
  have second: "filter is_command (calls (snd (snd (sc_pkcs15_compute_signature stub_consts
        (stub_card (always 0) (always 0) (always 8) [1, 2, 3, 4, 5, 6, 7, 8] (always 0))
        (stub_lib 0x40000000) stub_p15card ?rec 1 [7] (Some (replicate 8 0)) 8 None init_st))))
      = [Command sc_compute_signature [0, 0, 0, 0, 0, 0, 0, 7] 8 8]"
    unfolding stub_sign_raw [OF no acc z]
    by (simp add: sign_fix_length_def split: prod.splits)
  show ?thesis
    using raw e first block acc dec need second by blast
qed

section \<open>The symmetric handlers and the device lock\<close>

declare sym_loop.simps [simp del]

lemma sym_loop_first:
  "sym_loop crd lib p15card obj cmd inp path False senv out outlen s =
     (case sym_attempt crd lib p15card obj cmd inp path senv out outlen s of
        (r3, senv3, out3, outlen3, s3) \<Rightarrow>
          if r3 = SC_ERROR_SECURITY_STATUS_NOT_SATISFIED then
            (case do_revalidate crd obj s3 of
               (r4, s4) \<Rightarrow>
                 if r4 < 0 then (r4, out3, outlen3, s4)
                 else
                   (case sym_attempt crd lib p15card obj cmd inp path senv3 out3 outlen3 s4 of
                      (r5, senv5, out5, outlen5, s5) \<Rightarrow> (r5, out5, outlen5, s5)))
          else (r3, out3, outlen3, s3))"
  by (subst sym_loop.simps, simp split: prod.splits, subst sym_loop.simps,
      simp split: prod.splits)

text \<open>
  C2 at a concrete input: the call of \<^verbatim>\<open>sc_pkcs15_encrypt_sym\<close> and of \<^verbatim>\<open>sc_pkcs15_decrypt_sym\<close>
  that begins an operation (\<^verbatim>\<open>outlen == NULL\<close>) with a native AES key. The file is selected,
  the environment pushed and the primitive invoked, and the device lock is neither taken
  nor released.
\<close>

theorem sym_handlers_without_lock:
  "(case sc_pkcs15_encrypt_sym stub_consts
           (stub_card (always 0) (always 0) (always 0) [] (always 0))
           (stub_lib 0) stub_p15card (stub_key SC_PKCS15_TYPE_SKEY_GENERIC 0x3FF True 128)
           0 [5] None None None 0 init_st of
      (r, out, outlen, s) \<Rightarrow>
        r = 0 \<and> map kind_of (calls s)
                 = [Select_file_call, Set_security_env_call, Encrypt_sym_call])
   \<and> (case sc_pkcs15_decrypt_sym stub_consts
           (stub_card (always 0) (always 0) (always 0) [] (always 0))
           (stub_lib 0) stub_p15card (stub_key SC_PKCS15_TYPE_SKEY_GENERIC 0x3FF True 128)
           0 [5] None None None 0 init_st of
      (r, out, outlen, s) \<Rightarrow>
        r = 0 \<and> map kind_of (calls s)
                 = [Select_file_call, Set_security_env_call, Decrypt_sym_call])"
proof -
  let ?k = "stub_key SC_PKCS15_TYPE_SKEY_GENERIC 0x3FF True 128"
  have p: "get_file_path ?k = Inr stub_path"
    by (simp add: stub_get_file_path)
  have f: "format_senv stub_consts (stub_lib 0) stub_p15card ?k
      = Inr ((zero_senv stub_consts)
              \<lparr>senv_algorithm := SC_ALGORITHM_AES, senv_key_size_bits := 128,
               senv_flags := SC_SEC_ENV_ALG_PRESENT OR SC_SEC_ENV_KEY_REF_PRESENT,
               senv_key_ref := [1]\<rparr>,
            \<lparr>alg_key_length = 128, alg_flags = 0\<rparr>)"
    by (simp add: format_senv_def stub_key_def stub_lib_simps stub_p15card_def zero_senv_def)
  have u: "usage (obj_data ?k) = 0x3FF"
    by (simp add: stub_key_def)
  show ?thesis
    by (simp add: sc_pkcs15_encrypt_sym_def sc_pkcs15_decrypt_sym_def sym_handler_def u f p
        sym_senv_def stub_lib_simps stub_consts_simps zero_senv_def const_defs
        sym_loop_first sym_attempt_def stub_prepare_key [OF p] init_st_def always_def
        stub_sym_command write_out_def)
qed

section \<open>The negotiation of the locking\<close>

lemmas ckr_defs = CKR_OK_def CKR_HOST_MEMORY_def CKR_GENERAL_ERROR_def CKR_ARGUMENTS_BAD_def
  CKR_BUFFER_TOO_SMALL_def CKR_CRYPTOKI_NOT_INITIALIZED_def CKR_CRYPTOKI_ALREADY_INITIALIZED_def

lemma select_locking_table:
  "select_locking env a = (if applock a then APP_LOCKING else default_mutex_funcs env)"
  by (simp add: select_locking_def)

lemma C_Initialize_fresh:
  assumes "ctx st = None" and "nesting st = 0"
  shows "C_Initialize env pid args st =
     (case sc_pkcs11_init_lock env args
             (st\<lparr>initialized_pid := pid, in_finalize := False, nesting := 1\<rparr>) of
        None \<Rightarrow> None
      | Some (rv, st2) \<Rightarrow>
          if rv \<noteq> CKR_OK then C_Initialize_out env rv st2
          else (case C_Initialize_setup env st2 of (rv', st3) \<Rightarrow> C_Initialize_out env rv' st3))"
  using assms
  by (simp add: C_Initialize_def C_Initialize_fork_def C_Finalize_def)

lemma C_Initialize_setup_locking:
  "C_Initialize_setup env st = (rv, st')
    \<Longrightarrow> global_locking st' = global_locking st \<and> global_lock st' = global_lock st
        \<and> app_locking st' = app_locking st"
  by (auto simp: C_Initialize_setup_def split: prod.splits if_splits)

lemma C_Initialize_out_ok:
  "C_Initialize_out env rv st = Some (CKR_OK, st')
    \<Longrightarrow> rv = CKR_OK \<and> st' = st\<lparr>nesting := nesting st - 1\<rparr>"
  by (auto simp: C_Initialize_out_def split: if_splits)

lemma C_Initialize_out_rv:
  "C_Initialize_out env rv st = Some (r, st') \<Longrightarrow> r = rv"
  by (auto simp: C_Initialize_out_def split: if_splits)

lemma C_Initialize_out_failed:
  "rv \<noteq> CKR_OK \<Longrightarrow> global_lock st = 0
    \<Longrightarrow> C_Initialize_out env rv st = Some (rv, st\<lparr>ctx := None, nesting := nesting st - 1\<rparr>)"
  by (simp add: C_Initialize_out_def sc_pkcs11_free_lock_def)

lemma init_lock_args:
  assumes "global_lock st = 0" and "pReserved a = 0"
  shows "sc_pkcs11_init_lock env (Some a) st =
     (if select_locking env a \<noteq> NULL_LOCKING then
        (case CreateMutex (if select_locking env a = APP_LOCKING then a else def_locks env) of
           None \<Rightarrow> None
         | Some (rv, lock) \<Rightarrow>
             Some (rv, st\<lparr>app_locking := a, global_locking := select_locking env a,
                          global_lock := lock\<rparr>))
      else Some (CKR_OK, st\<lparr>app_locking := a, global_locking := select_locking env a\<rparr>))"
  using assms
  by (simp add: sc_pkcs11_init_lock_def Let_def locking_funcs_def split: option.splits)

text \<open>
  C5, as the code has it. In the first initialize of a module (no context, no lock yet):
  without an arguments structure no locking is negotiated, and the lock pointer stays
  \<^verbatim>\<open>NULL\<close>. With an arguments structure whose \<^verbatim>\<open>pReserved\<close> is \<^verbatim>\<open>NULL\<close>, the rule table selects the
  caller's primitives when all four are supplied, whatever the flag says, and otherwise
  \<^verbatim>\<open>default_mutex_funcs\<close>: the built-in primitives in a build that has them, and no locking in
  a build that has not. A successful initialize ends with the selected locking and, if there
  is one, with the mutex its \<^verbatim>\<open>CreateMutex\<close> made. If the \<^verbatim>\<open>CreateMutex\<close> of the selected locking
  fails with \<open>rv\<close>, initialize never returns anything but \<open>rv\<close>; it returns \<open>rv\<close>, with the
  module back in its uninitialised state, when the failed call has stored no mutex.
\<close>

theorem locking_negotiation:
  assumes "ctx st = None" and "nesting st = 0" and "global_lock st = 0"
  shows
    "(\<forall>st'. C_Initialize env pid None st = Some (CKR_OK, st')
        \<longrightarrow> global_locking st' = global_locking st \<and> global_lock st' = 0)
     \<and> (pReserved a = 0 \<longrightarrow>
        (applock a \<and> oslock a \<longrightarrow> select_locking env a = APP_LOCKING)
        \<and> (\<not> applock a \<and> oslock a \<longrightarrow> select_locking env a = default_mutex_funcs env)
        \<and> (applock a \<and> \<not> oslock a \<longrightarrow> select_locking env a = APP_LOCKING)
        \<and> (\<not> applock a \<and> \<not> oslock a \<longrightarrow> select_locking env a = default_mutex_funcs env)
        \<and> default_mutex_funcs env = (if HAVE_OS_LOCKING env then DEF_LOCKS else NULL_LOCKING)
        \<and> (\<forall>st'. C_Initialize env pid (Some a) st = Some (CKR_OK, st')
              \<longrightarrow> global_locking st' = select_locking env a \<and> app_locking st' = a
                  \<and> (select_locking env a \<noteq> NULL_LOCKING
                       \<longrightarrow> CreateMutex (locking_funcs env st') = Some (CKR_OK, global_lock st')))
        \<and> (\<forall>rv lock.
              select_locking env a \<noteq> NULL_LOCKING
              \<and> CreateMutex (if select_locking env a = APP_LOCKING then a else def_locks env)
                  = Some (rv, lock)
              \<and> rv \<noteq> CKR_OK
              \<longrightarrow> (\<forall>r st'. C_Initialize env pid (Some a) st = Some (r, st') \<longrightarrow> r = rv)
                  \<and> (lock = 0 \<longrightarrow>
                       (\<exists>st'. C_Initialize env pid (Some a) st = Some (rv, st')
                              \<and> ctx st' = None \<and> nesting st' = 0 \<and> global_lock st' = 0))))"
proof (intro conjI allI impI)
  fix st'
  assume "C_Initialize env pid None st = Some (CKR_OK, st')"
  then show "global_locking st' = global_locking st" and "global_lock st' = 0"
    using assms
    by (auto simp: C_Initialize_fresh sc_pkcs11_init_lock_def
        dest!: C_Initialize_out_ok C_Initialize_setup_locking split: prod.splits if_splits)
next
  show "default_mutex_funcs env = (if HAVE_OS_LOCKING env then DEF_LOCKS else NULL_LOCKING)"
    by (simp add: default_mutex_funcs_def)
next
  fix st'
  assume p: "pReserved a = 0" and ok: "C_Initialize env pid (Some a) st = Some (CKR_OK, st')"
  let ?st1 = "st\<lparr>initialized_pid := pid, in_finalize := False, nesting := 1\<rparr>"
  have g: "global_lock ?st1 = 0" using assms(3) by simp
  have r: "global_locking st' = select_locking env a \<and> app_locking st' = a
      \<and> (select_locking env a \<noteq> NULL_LOCKING
           \<longrightarrow> CreateMutex (locking_funcs env st') = Some (CKR_OK, global_lock st'))"
    using ok assms(1,2)
    by (auto simp: C_Initialize_fresh init_lock_args [OF g p] locking_funcs_def
        dest!: C_Initialize_out_ok C_Initialize_setup_locking
        split: option.splits prod.splits if_splits)
  from r show "global_locking st' = select_locking env a" by simp
  from r show "app_locking st' = a" by simp
  assume "select_locking env a \<noteq> NULL_LOCKING"
  with r show "CreateMutex (locking_funcs env st') = Some (CKR_OK, global_lock st')" by simp
next
  fix rv lock r st'
  assume p: "pReserved a = 0"
    and c: "select_locking env a \<noteq> NULL_LOCKING
      \<and> CreateMutex (if select_locking env a = APP_LOCKING then a else def_locks env)
          = Some (rv, lock)
      \<and> rv \<noteq> CKR_OK"
    and res: "C_Initialize env pid (Some a) st = Some (r, st')"
  let ?st1 = "st\<lparr>initialized_pid := pid, in_finalize := False, nesting := 1\<rparr>"
  have g: "global_lock ?st1 = 0" using assms(3) by simp
  show "r = rv"
    using res c assms(1,2)
    by (auto simp: C_Initialize_fresh init_lock_args [OF g p] dest: C_Initialize_out_rv)
next
  fix rv lock
  assume p: "pReserved a = 0"
    and c: "select_locking env a \<noteq> NULL_LOCKING
      \<and> CreateMutex (if select_locking env a = APP_LOCKING then a else def_locks env)
          = Some (rv, lock)
      \<and> rv \<noteq> CKR_OK"
    and l: "lock = 0"
  let ?st1 = "st\<lparr>initialized_pid := pid, in_finalize := False, nesting := 1\<rparr>"
  have g: "global_lock ?st1 = 0" using assms(3) by simp
  show "\<exists>st'. C_Initialize env pid (Some a) st = Some (rv, st')
      \<and> ctx st' = None \<and> nesting st' = 0 \<and> global_lock st' = 0"
    using c l assms
    by (simp add: C_Initialize_fresh init_lock_args [OF g p] C_Initialize_out_failed)
qed (simp_all add: select_locking_def)


lemmas init_defs = C_Initialize_fresh Let_def locking_funcs_def SC_SUCCESS_def
  C_Initialize_setup_def C_Initialize_out_def select_locking_def applock_def oslock_def
  default_mutex_funcs_def stub_env_def fresh_module_def stub_mutex_funcs_def
  no_mutex_funcs_def ckr_defs CKF_OS_LOCKING_OK_def sc_pkcs11_init_lock_def

theorem locking_negotiation_witness:
  "(\<exists>st'. C_Initialize (stub_env CKR_OK stub_slots) 100 (Some (stub_mutex_funcs CKR_OK 5 0))
            fresh_module = Some (CKR_OK, st')
          \<and> global_locking st' = APP_LOCKING \<and> app_locking st' = stub_mutex_funcs CKR_OK 5 0
          \<and> global_lock st' = 5)
   \<and> (\<exists>st'. C_Initialize (stub_env CKR_OK stub_slots) 100 (Some (no_mutex_funcs 0))
              fresh_module = Some (CKR_OK, st')
            \<and> global_locking st' = DEF_LOCKS \<and> global_lock st' = 77)
   \<and> (\<exists>st'. C_Initialize (stub_env CKR_GENERAL_ERROR stub_slots) 100
              (Some (no_mutex_funcs CKF_OS_LOCKING_OK)) fresh_module
              = Some (CKR_GENERAL_ERROR, st')
            \<and> ctx st' = None \<and> nesting st' = 0 \<and> global_lock st' = 0)"
proof -
  let ?env = "stub_env CKR_OK stub_slots"
  let ?failing = "stub_env CKR_GENERAL_ERROR stub_slots"
  let ?app = "stub_mutex_funcs CKR_OK 5 0"
  let ?none = "no_mutex_funcs 0"
  let ?os = "no_mutex_funcs CKF_OS_LOCKING_OK"
  have fresh: "ctx fresh_module = None" "nesting fresh_module = 0"
    "global_lock fresh_module = 0"
    by (simp_all add: fresh_module_def)
  have first: "\<exists>st'. C_Initialize ?env 100 (Some ?app) fresh_module = Some (CKR_OK, st')
      \<and> global_locking st' = APP_LOCKING \<and> app_locking st' = ?app \<and> global_lock st' = 5"
  proof -
    obtain st' where ok: "C_Initialize ?env 100 (Some ?app) fresh_module = Some (CKR_OK, st')"
      by (auto simp: init_defs split: prod.splits)
    have sel: "select_locking ?env ?app = APP_LOCKING"
      by (simp add: select_locking_def applock_def stub_mutex_funcs_def)
    have res: "pReserved ?app = 0"
      by (simp add: stub_mutex_funcs_def)
    from locking_negotiation [OF fresh, where a = ?app and env = ?env and pid = 100] res ok
    have "global_locking st' = select_locking ?env ?app \<and> app_locking st' = ?app
        \<and> (select_locking ?env ?app \<noteq> NULL_LOCKING
             \<longrightarrow> CreateMutex (locking_funcs ?env st') = Some (CKR_OK, global_lock st'))"
      by blast
    with sel have "global_locking st' = APP_LOCKING" and "app_locking st' = ?app"
      and "CreateMutex (locking_funcs ?env st') = Some (CKR_OK, global_lock st')"
      by simp_all
    then have "global_locking st' = APP_LOCKING \<and> app_locking st' = ?app \<and> global_lock st' = 5"
      by (simp add: locking_funcs_def stub_mutex_funcs_def)
    with ok show ?thesis by blast
  qed
  have second: "\<exists>st'. C_Initialize ?env 100 (Some ?none) fresh_module = Some (CKR_OK, st')
      \<and> global_locking st' = DEF_LOCKS \<and> global_lock st' = 77"
  proof -
    obtain st' where ok: "C_Initialize ?env 100 (Some ?none) fresh_module = Some (CKR_OK, st')"
      by (auto simp: init_defs split: prod.splits)
    have sel: "select_locking ?env ?none = DEF_LOCKS"
      by (simp add: select_locking_def applock_def default_mutex_funcs_def no_mutex_funcs_def
          stub_env_def)
    have res: "pReserved ?none = 0"
      by (simp add: no_mutex_funcs_def)
    from locking_negotiation [OF fresh, where a = ?none and env = ?env and pid = 100] res ok
    have "global_locking st' = select_locking ?env ?none \<and> app_locking st' = ?none
        \<and> (select_locking ?env ?none \<noteq> NULL_LOCKING
             \<longrightarrow> CreateMutex (locking_funcs ?env st') = Some (CKR_OK, global_lock st'))"
      by blast
    with sel have "global_locking st' = DEF_LOCKS"
      and "CreateMutex (locking_funcs ?env st') = Some (CKR_OK, global_lock st')"
      by simp_all
    then have "global_locking st' = DEF_LOCKS \<and> global_lock st' = 77"
      by (simp add: locking_funcs_def stub_env_def stub_mutex_funcs_def ckr_defs)
    with ok show ?thesis by blast
  qed
  have third: "\<exists>st'. C_Initialize ?failing 100 (Some ?os) fresh_module
        = Some (CKR_GENERAL_ERROR, st')
      \<and> ctx st' = None \<and> nesting st' = 0 \<and> global_lock st' = 0"
  proof -
    have sel: "select_locking ?failing ?os = DEF_LOCKS"
      by (simp add: select_locking_def applock_def default_mutex_funcs_def no_mutex_funcs_def
          stub_env_def)
    have res: "pReserved ?os = 0"
      by (simp add: no_mutex_funcs_def)
    have fails: "select_locking ?failing ?os \<noteq> NULL_LOCKING
        \<and> CreateMutex (if select_locking ?failing ?os = APP_LOCKING then ?os
             else def_locks ?failing) = Some (CKR_GENERAL_ERROR, 0)
        \<and> CKR_GENERAL_ERROR \<noteq> CKR_OK"
      unfolding sel by (simp add: stub_env_def stub_mutex_funcs_def ckr_defs)
    from locking_negotiation [OF fresh, where a = ?os and env = ?failing and pid = 100]
      res fails
    show ?thesis by blast
  qed
  from first second third show ?thesis by blast
qed

text \<open>
  The claim as stated fails for an initialize without an arguments structure: the caller
  supplies no primitives and does not accept OS locking, the build has the built-in
  primitives, and the call succeeds with no locking selected and no mutex created.
\<close>

theorem locking_negotiation_counterexample:
  "HAVE_OS_LOCKING (stub_env CKR_OK stub_slots)
   \<and> (\<exists>st'. C_Initialize (stub_env CKR_OK stub_slots) 100 None fresh_module
              = Some (CKR_OK, st')
            \<and> global_locking st' = NULL_LOCKING \<and> global_lock st' = 0)"
  by (simp add: init_defs split: prod.splits)

section \<open>The slot list\<close>

lemma seen_marked:
  "seen (slot\<lparr>slot_flags := slot_flags slot OR SC_PKCS11_SLOT_FLAG_SEEN\<rparr>)"
  by (simp add: seen_def bit.conj_disj_distrib2 or_eq_0_iff SC_PKCS11_SLOT_FLAG_SEEN_def)

lemma seen_kept:
  "seen slot \<Longrightarrow> seen (slot\<lparr>slot_flags := slot_flags slot OR SC_PKCS11_SLOT_FLAG_SEEN\<rparr>)"
  by (rule seen_marked)

lemma slot_list_loop_token:
  "slot_list_loop tp prev slots = (found, slots') \<Longrightarrow> slot \<in> set slots \<Longrightarrow> token_present slot
    \<Longrightarrow> slot_id slot \<in> set found"
  by (induction slots arbitrary: prev found slots')
    (auto simp: slot_matches_def split: prod.splits if_splits)

lemma slot_list_loop_seen:
  "slot_list_loop False prev slots = (found, slots') \<Longrightarrow> slot \<in> set slots \<Longrightarrow> seen slot
    \<Longrightarrow> slot_id slot \<in> set found"
  by (induction slots arbitrary: prev found slots')
    (auto simp: slot_matches_def split: prod.splits if_splits)

lemma slot_list_loop_reader:
  "slot_list_loop False prev slots = (found, slots') \<Longrightarrow> slot \<in> set slots
    \<Longrightarrow> slot_reader slot \<noteq> prev
    \<Longrightarrow> \<exists>slot'\<in>set slots. slot_reader slot' = slot_reader slot \<and> slot_id slot' \<in> set found"
proof (induction slots arbitrary: prev found slots')
  case Nil
  then show ?case by simp
next
  case (Cons x xs)
  obtain f s where rest: "slot_list_loop False (slot_reader x) xs = (f, s)"
    by (cases "slot_list_loop False (slot_reader x) xs")
  have sub: "set f \<subseteq> set found"
    using Cons.prems(1) rest by (auto split: if_splits)
  show ?case
  proof (cases "slot_reader slot = slot_reader x")
    case True
    then have "slot_matches False prev x"
      using Cons.prems(3) by (simp add: slot_matches_def)
    then have "slot_id x \<in> set found"
      using Cons.prems(1) rest by auto
    then show ?thesis using True by auto
  next
    case False
    then have "slot \<in> set xs" using Cons.prems(2) by auto
    from Cons.IH [OF rest this False]
    show ?thesis using sub by auto
  qed
qed

lemma slot_list_loop_filtered:
  "slot_list_loop True prev slots = (found, slots')
    \<Longrightarrow> found = map slot_id (filter token_present slots)"
  by (induction slots arbitrary: prev found slots')
    (auto simp: slot_matches_def split: prod.splits if_splits)

lemma slot_list_loop_marks:
  "slot_list_loop tp prev slots = (found, slots') \<Longrightarrow> i \<in> set found
    \<Longrightarrow> \<exists>slot\<in>set slots'. slot_id slot = i \<and> seen slot"
proof (induction slots arbitrary: prev found slots')
  case Nil
  then show ?case by simp
next
  case (Cons x xs)
  obtain f s where rest: "slot_list_loop tp (slot_reader x) xs = (f, s)"
    by (cases "slot_list_loop tp (slot_reader x) xs")
  show ?case
  proof (cases "slot_matches tp prev x")
    case True
    then have found: "found = slot_id x # f"
      and slots': "slots' = x\<lparr>slot_flags := slot_flags x OR SC_PKCS11_SLOT_FLAG_SEEN\<rparr> # s"
      using Cons.prems(1) rest by auto
    show ?thesis
    proof (cases "i = slot_id x")
      case True
      then show ?thesis using slots' seen_marked [of x] by auto
    next
      case False
      then have "i \<in> set f" using Cons.prems(2) found by simp
      from Cons.IH [OF rest this] show ?thesis using slots' by auto
    qed
  next
    case False
    then have "found = f" and slots': "slots' = x # s"
      using Cons.prems(1) rest by auto
    then have "i \<in> set f" using Cons.prems(2) by simp
    from Cons.IH [OF rest this] show ?thesis using slots' by auto
  qed
qed

lemma slot_list_loop_keeps:
  "slot_list_loop tp prev slots = (found, slots') \<Longrightarrow> slot \<in> set slots \<Longrightarrow> seen slot
    \<Longrightarrow> \<exists>slot'\<in>set slots'. slot_id slot' = slot_id slot \<and> seen slot'"
proof (induction slots arbitrary: prev found slots')
  case Nil
  then show ?case by simp
next
  case (Cons x xs)
  obtain f s where rest: "slot_list_loop tp (slot_reader x) xs = (f, s)"
    by (cases "slot_list_loop tp (slot_reader x) xs")
  have head: "\<exists>y. slots' = y # s \<and> slot_id y = slot_id x \<and> (seen x \<longrightarrow> seen y)"
    using Cons.prems(1) rest seen_marked [of x] by (auto split: if_splits)
  show ?case
  proof (cases "slot = x")
    case True
    then show ?thesis using head Cons.prems(3) by auto
  next
    case False
    then have "slot \<in> set xs" using Cons.prems(2) by simp
    from Cons.IH [OF rest this Cons.prems(3)] show ?thesis using head by auto
  qed
qed

lemma C_GetSlotList_ok:
  assumes "C_GetSlotList env tp (Some buf) (Some count) st = Some (CKR_OK, Some ids, Some n, st')"
  shows "\<exists>found slots'.
      slot_list_loop tp 0 (fst (card_detect_all env (virtual_slots st) (ext st)))
        = (found, slots')
      \<and> take n ids = found \<and> virtual_slots st' = slots'"
  using assms
  by (auto simp: C_GetSlotList_def ckr_defs split: option.splits if_splits prod.splits)


text \<open>
  C9, as the code has it. A successful enumeration into the caller's array returns the first
  \<open>n\<close> entries of the array; the slot collection the loop runs over is the one card detection
  leaves at the start of the call. Without the filter the ids returned hold, for every reader
  (a pointer that is not \<^verbatim>\<open>NULL\<close>) with a slot in the collection, the id of a slot on that
  reader, the id of every slot with a token and the id of every slot marked as seen. With the
  filter they are the ids of the slots with a token, in order. Every id returned belongs to
  a slot that the call leaves marked as seen, and the call keeps every mark it finds. So any
  later enumeration without the filter, from whatever state, returns every id of this one
  again if the slots this call has left marked are in the collection, with their marks, when
  the later call has run its card detection; their tokens do not matter. Nothing in
  \<^verbatim>\<open>C_GetSlotList\<close> makes sure of that condition.
\<close>

theorem slot_list_policy:
  assumes "C_GetSlotList (env :: 'e pkcs11_env) tp (Some buf) (Some count) st
      = Some (CKR_OK, Some ids, Some n, st')"
  shows
    "(\<not> tp \<longrightarrow>
        (\<forall>slot\<in>set (fst (card_detect_all env (virtual_slots st) (ext st))).
            slot_reader slot \<noteq> 0 \<longrightarrow>
              (\<exists>slot'\<in>set (fst (card_detect_all env (virtual_slots st) (ext st))).
                  slot_reader slot' = slot_reader slot \<and> slot_id slot' \<in> set (take n ids)))
        \<and> (\<forall>slot\<in>set (fst (card_detect_all env (virtual_slots st) (ext st))).
              token_present slot \<or> seen slot \<longrightarrow> slot_id slot \<in> set (take n ids)))
     \<and> (tp \<longrightarrow>
          take n ids = map slot_id
            (filter token_present (fst (card_detect_all env (virtual_slots st) (ext st)))))
     \<and> (\<forall>i\<in>set (take n ids). \<exists>slot\<in>set (virtual_slots st'). slot_id slot = i \<and> seen slot)
     \<and> (\<forall>slot\<in>set (fst (card_detect_all env (virtual_slots st) (ext st))).
            seen slot \<longrightarrow> (\<exists>slot'\<in>set (virtual_slots st'). slot_id slot' = slot_id slot \<and> seen slot'))
     \<and> (\<forall>(env2 :: 'e pkcs11_env) buf2 count2 st2 ids2 m st3.
            C_GetSlotList env2 False (Some buf2) (Some count2) st2
              = Some (CKR_OK, Some ids2, Some m, st3)
            \<and> (\<forall>slot\<in>set (virtual_slots st').
                  seen slot \<longrightarrow>
                    (\<exists>slot2\<in>set (fst (card_detect_all env2 (virtual_slots st2) (ext st2))).
                        slot_id slot2 = slot_id slot \<and> seen slot2))
            \<longrightarrow> set (take n ids) \<subseteq> set (take m ids2))"
proof -
  let ?slots = "fst (card_detect_all env (virtual_slots st) (ext st))"
  from C_GetSlotList_ok [OF assms] obtain slots'
    where loop: "slot_list_loop tp 0 ?slots = (take n ids, slots')"
      and after: "virtual_slots st' = slots'"
    by auto
  have unfiltered: "\<not> tp \<longrightarrow>
        (\<forall>slot\<in>set ?slots. slot_reader slot \<noteq> 0 \<longrightarrow>
              (\<exists>slot'\<in>set ?slots.
                  slot_reader slot' = slot_reader slot \<and> slot_id slot' \<in> set (take n ids)))
        \<and> (\<forall>slot\<in>set ?slots.
              token_present slot \<or> seen slot \<longrightarrow> slot_id slot \<in> set (take n ids))"
    using loop slot_list_loop_reader [of 0 ?slots "take n ids" slots']
      slot_list_loop_token [of False 0 ?slots "take n ids" slots']
      slot_list_loop_seen [of 0 ?slots "take n ids" slots']
    by auto
  have filtered: "tp \<longrightarrow> take n ids = map slot_id (filter token_present ?slots)"
    using loop slot_list_loop_filtered [of 0 ?slots "take n ids" slots'] by auto
  have marks: "\<forall>i\<in>set (take n ids). \<exists>slot\<in>set (virtual_slots st'). slot_id slot = i \<and> seen slot"
    using slot_list_loop_marks [OF loop] after by auto
  have keeps: "\<forall>slot\<in>set ?slots.
      seen slot \<longrightarrow> (\<exists>slot'\<in>set (virtual_slots st'). slot_id slot' = slot_id slot \<and> seen slot')"
    using slot_list_loop_keeps [OF loop] after by auto
  have stable: "set (take n ids) \<subseteq> set (take m ids2)"
    if again: "C_GetSlotList env2 False (Some buf2) (Some count2) st2
        = Some (CKR_OK, Some ids2, Some m, st3)"
      and kept: "\<forall>slot\<in>set (virtual_slots st').
          seen slot \<longrightarrow>
            (\<exists>slot2\<in>set (fst (card_detect_all env2 (virtual_slots st2) (ext st2))).
                slot_id slot2 = slot_id slot \<and> seen slot2)"
    for env2 :: "'e pkcs11_env" and buf2 count2 st2 ids2 m st3
  proof
    fix i
    assume "i \<in> set (take n ids)"
    with marks obtain slot where "slot \<in> set (virtual_slots st')" and "slot_id slot = i"
      and "seen slot"
      by auto
    with kept obtain slot2
      where in2: "slot2 \<in> set (fst (card_detect_all env2 (virtual_slots st2) (ext st2)))"
        and id2: "slot_id slot2 = i" and seen2: "seen slot2"
      by auto
    from C_GetSlotList_ok [OF again] obtain s2
      where "slot_list_loop False 0 (fst (card_detect_all env2 (virtual_slots st2) (ext st2)))
          = (take m ids2, s2)"
      by auto
    from slot_list_loop_seen [OF this in2 seen2] id2
    show "i \<in> set (take m ids2)" by simp
  qed
  from unfiltered filtered marks keeps stable show ?thesis by blast
qed

lemmas module_defs = C_GetSlotList_def sc_pkcs11_lock_def sc_pkcs11_unlock_def
  sc_pkcs11_unlock_ptr_def slot_matches_def seen_def token_present_def
  stub_env_def stub_env_removed_def stub_env_reset_def stub_module_def stub_slots_def
  stub_slot_def CKF_TOKEN_PRESENT_def SC_PKCS11_SLOT_FLAG_SEEN_def

theorem slot_list_policy_witness:
  "C_GetSlotList (stub_env CKR_OK stub_slots) False (Some [9, 9, 9, 9]) (Some 4)
      (stub_module [])
    = Some (CKR_OK, Some [0, 1, 2, 9], Some 3,
        stub_module [stub_slot 0 1 1 0, stub_slot 1 1 1 1, stub_slot 2 2 1 0,
          stub_slot 3 2 0 0])
   \<and> C_GetSlotList stub_env_removed False (Some [7, 7, 7]) (Some 3)
        (stub_module [stub_slot 0 1 1 0, stub_slot 1 1 1 1, stub_slot 2 2 1 0,
          stub_slot 3 2 0 0])
      = Some (CKR_OK, Some [0, 1, 2], Some 3,
          stub_module [stub_slot 0 1 1 0, stub_slot 1 1 1 0, stub_slot 2 2 1 0,
            stub_slot 3 2 0 0])
   \<and> set (take 3 [0, 1, 2, 9 :: nat]) \<subseteq> set (take 3 [0, 1, 2])
   \<and> (\<exists>slot\<in>set stub_slots. slot_reader slot = 2 \<and> slot_id slot \<in> set (take 3 [0, 1, 2, 9]))"
proof -
  let ?env = "stub_env CKR_OK stub_slots"
  let ?marked = "[stub_slot 0 1 1 0, stub_slot 1 1 1 1, stub_slot 2 2 1 0, stub_slot 3 2 0 0]"
  let ?removed = "[stub_slot 0 1 1 0, stub_slot 1 1 1 0, stub_slot 2 2 1 0, stub_slot 3 2 0 0]"
  have first: "C_GetSlotList ?env False (Some [9, 9, 9, 9]) (Some 4) (stub_module [])
      = Some (CKR_OK, Some [0, 1, 2, 9], Some 3, stub_module ?marked)"
    by (simp add: module_defs)
  have again: "C_GetSlotList stub_env_removed False (Some [7, 7, 7]) (Some 3)
        (stub_module ?marked)
      = Some (CKR_OK, Some [0, 1, 2], Some 3, stub_module ?removed)"
    by (simp add: module_defs)
  have kept: "\<forall>slot\<in>set (virtual_slots (stub_module ?marked)).
      seen slot \<longrightarrow>
        (\<exists>slot2\<in>set (fst (card_detect_all stub_env_removed
              (virtual_slots (stub_module ?marked)) (ext (stub_module ?marked)))).
            slot_id slot2 = slot_id slot \<and> seen slot2)"
    by (simp add: module_defs)
  have detected: "fst (card_detect_all ?env (virtual_slots (stub_module []))
      (ext (stub_module []))) = stub_slots"
    by (simp add: stub_env_def stub_module_def)
  have reader: "stub_slot 3 2 0 0 \<in> set stub_slots \<and> slot_reader (stub_slot 3 2 0 0) \<noteq> 0"
    by (simp add: stub_slots_def stub_slot_def)
  note policy = slot_list_policy [OF first]
  from policy again kept
  have stable: "set (take 3 [0, 1, 2, 9 :: nat]) \<subseteq> set (take 3 [0, 1, 2])"
    by blast
  from policy have "\<forall>slot\<in>set stub_slots. slot_reader slot \<noteq> 0 \<longrightarrow>
      (\<exists>slot'\<in>set stub_slots.
          slot_reader slot' = slot_reader slot \<and> slot_id slot' \<in> set (take 3 [0, 1, 2, 9]))"
    unfolding detected by blast
  with reader
  have "\<exists>slot'\<in>set stub_slots.
      slot_reader slot' = slot_reader (stub_slot 3 2 0 0)
      \<and> slot_id slot' \<in> set (take 3 [0, 1, 2, 9])"
    by blast
  then have one: "\<exists>slot\<in>set stub_slots. slot_reader slot = 2
      \<and> slot_id slot \<in> set (take 3 [0, 1, 2, 9])"
    by (simp add: stub_slot_def)
  from first again stable one show ?thesis by blast
qed

text \<open>
  The claim as stated fails: a slot id that an enumeration has returned is not in every
  later enumeration without the filter. The slot 1, returned while it held a token, is missing
  after \<^verbatim>\<open>C_Finalize\<close>, which empties the slot collection, and a new \<^verbatim>\<open>C_Initialize\<close>, when the
  token has been taken away in between. Within one initialisation the mark is only as
  stable as card detection leaves it: after a detection that sets up the slots anew, the
  slot 1 is missing as well.
\<close>

theorem slot_list_policy_counterexample:
  "C_GetSlotList (stub_env CKR_OK stub_slots) False (Some [9, 9, 9, 9]) (Some 4)
      (stub_module [])
    = Some (CKR_OK, Some [0, 1, 2, 9], Some 3,
        stub_module [stub_slot 0 1 1 0, stub_slot 1 1 1 1, stub_slot 2 2 1 0,
          stub_slot 3 2 0 0])
   \<and> C_Finalize (stub_env CKR_OK stub_slots) 0
        (stub_module [stub_slot 0 1 1 0, stub_slot 1 1 1 1, stub_slot 2 2 1 0,
          stub_slot 3 2 0 0])
      = Some (CKR_OK, (stub_module [])\<lparr>ctx := None, in_finalize := True\<rparr>)
   \<and> C_Initialize
        (stub_env CKR_OK [stub_slot 0 1 0 0, stub_slot 1 1 0 0, stub_slot 2 2 0 0,
          stub_slot 3 2 0 0])
        100 None ((stub_module [])\<lparr>ctx := None, in_finalize := True\<rparr>)
      = Some (CKR_OK,
          stub_module [stub_slot 0 1 0 0, stub_slot 1 1 0 0, stub_slot 2 2 0 0,
            stub_slot 3 2 0 0])
   \<and> C_GetSlotList
        (stub_env CKR_OK [stub_slot 0 1 0 0, stub_slot 1 1 0 0, stub_slot 2 2 0 0,
          stub_slot 3 2 0 0])
        False (Some [9, 9, 9, 9]) (Some 4)
        (stub_module [stub_slot 0 1 0 0, stub_slot 1 1 0 0, stub_slot 2 2 0 0,
          stub_slot 3 2 0 0])
      = Some (CKR_OK, Some [0, 2, 9, 9], Some 2,
          stub_module [stub_slot 0 1 1 0, stub_slot 1 1 0 0, stub_slot 2 2 1 0,
            stub_slot 3 2 0 0])
   \<and> C_GetSlotList stub_env_reset False (Some [9, 9, 9, 9]) (Some 4)
        (stub_module [stub_slot 0 1 1 0, stub_slot 1 1 1 1, stub_slot 2 2 1 0,
          stub_slot 3 2 0 0])
      = Some (CKR_OK, Some [0, 2, 9, 9], Some 2,
          stub_module [stub_slot 0 1 1 0, stub_slot 1 1 0 0, stub_slot 2 2 1 0,
            stub_slot 3 2 0 0])
   \<and> (1 :: nat) \<in> set (take 3 [0, 1, 2, 9])
   \<and> (1 :: nat) \<notin> set (take 2 [0, 2, 9, 9])"
proof -
  let ?env = "stub_env CKR_OK stub_slots"
  let ?marked = "[stub_slot 0 1 1 0, stub_slot 1 1 1 1, stub_slot 2 2 1 0, stub_slot 3 2 0 0]"
  let ?empty = "[stub_slot 0 1 0 0, stub_slot 1 1 0 0, stub_slot 2 2 0 0, stub_slot 3 2 0 0]"
  let ?after = "[stub_slot 0 1 1 0, stub_slot 1 1 0 0, stub_slot 2 2 1 0, stub_slot 3 2 0 0]"
  let ?fin = "(stub_module [])\<lparr>ctx := None, in_finalize := True\<rparr>"
  have first: "C_GetSlotList ?env False (Some [9, 9, 9, 9]) (Some 4) (stub_module [])
      = Some (CKR_OK, Some [0, 1, 2, 9], Some 3, stub_module ?marked)"
    by (simp add: module_defs)
  have finalize: "C_Finalize ?env 0 (stub_module ?marked) = Some (CKR_OK, ?fin)"
    by (simp add: C_Finalize_def sc_pkcs11_lock_def sc_pkcs11_free_lock_def stub_module_def
        ckr_defs)
  have initialize: "C_Initialize (stub_env CKR_OK ?empty) 100 None ?fin
      = Some (CKR_OK, stub_module ?empty)"
    by (simp add: C_Initialize_def C_Initialize_fork_def sc_pkcs11_init_lock_def
        C_Initialize_setup_def C_Initialize_out_def stub_module_def stub_env_def
        SC_SUCCESS_def ckr_defs)
  have again: "C_GetSlotList (stub_env CKR_OK ?empty) False (Some [9, 9, 9, 9]) (Some 4)
        (stub_module ?empty)
      = Some (CKR_OK, Some [0, 2, 9, 9], Some 2, stub_module ?after)"
    by (simp add: module_defs)
  have reset: "C_GetSlotList stub_env_reset False (Some [9, 9, 9, 9]) (Some 4)
        (stub_module ?marked)
      = Some (CKR_OK, Some [0, 2, 9, 9], Some 2, stub_module ?after)"
    by (simp add: module_defs)
  have ids: "(1 :: nat) \<in> set (take 3 [0, 1, 2, 9])" "(1 :: nat) \<notin> set (take 2 [0, 2, 9, 9])"
    by (simp_all add: take_Suc_conv_app_nth numeral_2_eq_2 numeral_3_eq_3)
  from first finalize initialize again reset ids show ?thesis by blast
qed

end
